(* ===== verification/Prelude.thy ===== *)
theory Prelude
  imports Main "HOL-Library.Word" "HOL-Library.Stream" "HOL-Library.State_Monad"
    "HOL-Library.Multiset"
begin

text \<open>
  Shared vocabulary of the development: the JavaScript semantics the route handlers rely
  on (the \<open>||\<close> default of a possibly missing number, \<open>Array.prototype.slice\<close>,
  the destructuring swap of the shuffle, \<open>Date.prototype.toDateString\<close>), the HTTP
  responses the handlers return, and the generic list lemmas the component theories share.
\<close>

named_theorems route_simps \<open>small facts about the JavaScript helpers, used by the handler proofs\<close>

section \<open>HTTP responses\<close>

text \<open>
  \<open>NextResponse.json(body, {status})\<close>. Every handler returns either an error object
  \<open>{error: msg}\<close> with a status (200 when the source gives none) or a success object
  of a route-specific shape with its status.
\<close>

datatype 'a response = ErrorResp int string | OkResp int 'a

primrec is_error :: "'a response \<Rightarrow> bool" where
  "is_error (ErrorResp _ _) = True"
| "is_error (OkResp _ _) = False"

primrec resp_status :: "'a response \<Rightarrow> int" where
  "resp_status (ErrorResp s _) = s"
| "resp_status (OkResp s _) = s"

section \<open>Time\<close>

text \<open>
  A JavaScript \<open>Date\<close> is a timestamp in milliseconds. \<open>toDateString()\<close> names its
  calendar day; the model fixes the server's time zone to UTC, so the day is the
  timestamp divided by the length of a day (rounding down, also before 1970).
\<close>

type_synonym timestamp = int
type_synonym day = int

definition ms_per_day :: int where
  "ms_per_day = 86400000"

definition toDateString :: "timestamp \<Rightarrow> day" where
  "toDateString t = t div ms_per_day"

text \<open>\<open>const d = new Date(today); d.setDate(d.getDate() - 1)\<close>: the same time of day, one day earlier.\<close>

definition yesterday_of :: "timestamp \<Rightarrow> timestamp" where
  "yesterday_of t = t - ms_per_day"

lemma toDateString_yesterday [route_simps, simp]:
  "toDateString (yesterday_of t) = toDateString t - 1"
proof -
  have "t - ms_per_day = t + (-1) * ms_per_day" by simp
  then show ?thesis
    by (simp add: toDateString_def yesterday_of_def ms_per_day_def)
qed

lemma toDateString_mono: "t \<le> t' \<Longrightarrow> toDateString t \<le> toDateString t'"
  by (simp add: toDateString_def ms_per_day_def zdiv_mono1)

lemma toDateString_add_day [simp]:
  "toDateString (t + ms_per_day) = toDateString t + 1"
  by (simp add: toDateString_def ms_per_day_def)

section \<open>JavaScript numbers and arrays\<close>

text \<open>
  \<open>x || d\<close> on a field that may be missing: \<open>undefined\<close>, \<open>null\<close> and \<open>0\<close> are
  falsy and give the default.
\<close>

definition js_num_or :: "int option \<Rightarrow> int \<Rightarrow> int" where
  "js_num_or v d = (case v of None \<Rightarrow> d | Some x \<Rightarrow> if x = 0 then d else x)"

lemma js_num_or_simps [simp, route_simps]:
  "js_num_or None d = d"
  "js_num_or (Some x) d = (if x = 0 then d else x)"
  by (simp_all add: js_num_or_def)

lemma js_num_or_Some_0 [simp]: "js_num_or (Some x) 0 = x"
  by simp

lemma js_num_or_ge: "x \<le> d \<Longrightarrow> (\<forall>y. v = Some y \<longrightarrow> x \<le> y) \<Longrightarrow> x \<le> js_num_or v d"
  by (cases v) auto

text \<open>\<open>xs.slice(0, count)\<close>: a negative end counts from the end of the array.\<close>

definition js_slice0 :: "'a list \<Rightarrow> int \<Rightarrow> 'a list" where
  "js_slice0 xs c = (if c < 0 then take (nat (int (length xs) + c)) xs else take (nat c) xs)"

lemma js_slice0_nonneg [simp]: "0 \<le> c \<Longrightarrow> js_slice0 xs c = take (nat c) xs"
  by (simp add: js_slice0_def)

lemma mset_take_subseteq: "mset (take n xs) \<subseteq># mset xs"
proof -
  have "mset xs = mset (take n xs) + mset (drop n xs)"
    by (simp flip: mset_append)
  then show ?thesis by simp
qed

lemma mset_js_slice0_subset: "mset (js_slice0 xs c) \<subseteq># mset xs"
  by (simp add: js_slice0_def mset_take_subseteq)

lemma length_js_slice0_nonneg:
  "0 \<le> c \<Longrightarrow> length (js_slice0 xs c) = min (nat c) (length xs)"
  by simp

section \<open>JavaScript strings\<close>

text \<open>
  The white space of \<open>\\s\<close> and of \<open>String.prototype.trim\<close> within the character range of
  the model (tab, line feed, vertical tab, form feed, carriage return, space, no-break space).
\<close>

definition js_space :: "char \<Rightarrow> bool" where
  "js_space ch \<longleftrightarrow> of_char ch \<in> {9, 10, 11, 12, 13, 32, 160 :: nat}"

definition js_trim :: "string \<Rightarrow> string" where
  "js_trim s = rev (dropWhile js_space (rev (dropWhile js_space s)))"

text \<open>\<open>[a[i], a[j]] = [a[j], a[i]]\<close>: both right-hand values are read before either store.\<close>

definition list_swap :: "'a list \<Rightarrow> nat \<Rightarrow> nat \<Rightarrow> 'a list" where
  "list_swap xs i j = xs[i := xs ! j, j := xs ! i]"

lemma length_list_swap [simp]: "length (list_swap xs i j) = length xs"
  by (simp add: list_swap_def)

lemma mset_list_swap [simp]:
  "i < length xs \<Longrightarrow> j < length xs \<Longrightarrow> mset (list_swap xs i j) = mset xs"
  by (simp add: list_swap_def mset_update nth_list_update)

lemma nth_list_swap:
  "i < length xs \<Longrightarrow> j < length xs \<Longrightarrow> k < length xs \<Longrightarrow>
   list_swap xs i j ! k = (if k = j then xs ! i else if k = i then xs ! j else xs ! k)"
  by (simp add: list_swap_def nth_list_update)

end
