(* ===== verification/Level.thy ===== *)
theory Level
  imports Prelude "HOL-Library.While_Combinator"
begin

text \<open>
  The leveling curve, \<open>calculateLevel\<close> of \<open>src/solo-leveling/src/lib/levelUtils.ts\<close>
  (the completion route \<open>app/api/quests/complete/route.ts\<close> carries a textually identical
  local copy, lines 38--50, which the route model calls through this definition).
  The \<open>while\<close> loop is a recursive function over the loop variables with a
  termination measure; its closed form is the reference specification: level \<open>1\<close> below
  100 XP and one level per further 200 XP, the next threshold being \<open>200 * level - 100\<close>.
\<close>

section \<open>The loop and the result record\<close>

text \<open>\<open>while (totalXP >= xpThreshold) { level++; xpThreshold += 200; }\<close>\<close>

function level_loop :: "int \<Rightarrow> int \<Rightarrow> int \<Rightarrow> int \<times> int" where
  "level_loop totalXP level xpThreshold =
     (if totalXP \<ge> xpThreshold then level_loop totalXP (level + 1) (xpThreshold + 200)
      else (level, xpThreshold))"
  by pat_completeness auto
termination
  by (relation "measure (\<lambda>(x, l, t). nat (x - t + 1))") auto

declare level_loop.simps [simp del]

record level_info =
  level :: int
  currentXP :: int
  xpRequired :: int

definition calculateLevel :: "int \<Rightarrow> level_info" where
  "calculateLevel totalXP =
     (case level_loop totalXP 1 100 of (lv, thr) \<Rightarrow>
        \<lparr>level = lv, currentXP = totalXP, xpRequired = thr\<rparr>)"

text \<open>
  The same loop kept as a loop: \<open>while_option\<close> runs the body on the pair
  \<open>(level, xpThreshold)\<close> while \<open>totalXP >= xpThreshold\<close>, and is \<open>None\<close> if it never stops.
\<close>

definition level_while :: "int \<Rightarrow> int \<Rightarrow> int \<Rightarrow> (int \<times> int) option" where
  "level_while totalXP lv thr =
     while_option (\<lambda>(l, t). totalXP \<ge> t) (\<lambda>(l, t). (l + 1, t + 200)) (lv, thr)"

section \<open>Reference specification\<close>

definition level_spec :: "int \<Rightarrow> int" where
  "level_spec x = (if x < 100 then 1 else (x - 100) div 200 + 2)"

definition threshold_of :: "int \<Rightarrow> int" where
  "threshold_of lv = 200 * lv - 100"

section \<open>The loop in closed form\<close>

text \<open>
  Started at any \<open>(l, t)\<close>, the loop runs \<open>(x - t) div 200 + 1\<close> times when
  \<open>t \<le> x\<close> and not at all otherwise. Computation induction on the loop.
\<close>

lemma level_loop_closed:
  "level_loop x l t =
     (if x < t then (l, t)
      else (l + (x - t) div 200 + 1, t + 200 * ((x - t) div 200 + 1)))"
proof (induction x l t rule: level_loop.induct)
  case (1 x l t)
  show ?case
  proof (cases "t \<le> x")
    case False
    then show ?thesis by (simp add: level_loop.simps [of x l t])
  next
    case True
    then have step: "level_loop x l t = level_loop x (l + 1) (t + 200)"
      by (simp add: level_loop.simps [of x l t])
    show ?thesis
    proof (cases "x < t + 200")
      case True
      with \<open>t \<le> x\<close> have "(x - t) div 200 = 0" by simp
      with True \<open>t \<le> x\<close> "1.IH" step show ?thesis by simp
    next
      case False
      have d: "(x - t) div 200 = (x - (t + 200)) div 200 + 1"
      proof -
        have e: "x - t = (x - (t + 200)) + 200" by simp
        show ?thesis by (subst e, rule div_add_self2) simp
      qed
      from False \<open>t \<le> x\<close> "1.IH" step d show ?thesis by simp
    qed
  qed
qed

lemma calculateLevel_fields:
  "level (calculateLevel x) = fst (level_loop x 1 100)"
  "currentXP (calculateLevel x) = x"
  "xpRequired (calculateLevel x) = snd (level_loop x 1 100)"
  by (simp_all add: calculateLevel_def split: prod.splits)

lemma level_of_calculateLevel: "level (calculateLevel x) = level_spec x"
proof (cases "x < 100")
  case True
  then show ?thesis by (simp add: calculateLevel_fields level_loop_closed level_spec_def)
next
  case False
  then show ?thesis
    by (simp add: calculateLevel_fields level_loop_closed level_spec_def)
qed

lemma xpRequired_of_calculateLevel:
  "xpRequired (calculateLevel x) = threshold_of (level_spec x)"
  by (simp add: calculateLevel_fields level_loop_closed level_spec_def threshold_of_def
      algebra_simps)

lemma level_spec_ge1: "1 \<le> level_spec x"
  by (simp add: level_spec_def)

lemma level_spec_mono: "x \<le> y \<Longrightarrow> level_spec x \<le> level_spec y"
  by (auto simp: level_spec_def zdiv_mono1)

lemma threshold_bracket:
  "x < threshold_of (level_spec x) \<and> (100 \<le> x \<longrightarrow> threshold_of (level_spec x) - 200 \<le> x)"
proof (cases "x < 100")
  case True
  then show ?thesis by (simp add: level_spec_def threshold_of_def)
next
  case False
  define q where "q = (x - 100) div 200"
  have "x - 100 = 200 * q + (x - 100) mod 200"
    by (simp add: q_def)
  moreover have "0 \<le> (x - 100) mod 200" and "(x - 100) mod 200 < 200"
    by simp_all
  ultimately have "x < 300 + 200 * q" and "100 + 200 * q \<le> x"
    by linarith+
  with False show ?thesis by (simp add: level_spec_def threshold_of_def flip: q_def)
qed

section \<open>Properties of the leveling curve\<close>

text \<open>
  C7. \<open>calculateLevel\<close> refines its closed-form specification: the level is 1 below
  100 XP and \<open>(x - 100) div 200 + 2\<close> from 100 XP on, \<open>currentXP\<close> echoes the input,
  and \<open>xpRequired\<close> is the next threshold \<open>200 * level - 100\<close>.
\<close>

theorem calculateLevel_refines_spec:
  "calculateLevel x =
     \<lparr>level = level_spec x, currentXP = x, xpRequired = threshold_of (level_spec x)\<rparr>"
  by (simp add: level_info.equality level_of_calculateLevel xpRequired_of_calculateLevel
      calculateLevel_fields(2))

text \<open>
  The level is monotone in the experience: more XP never gives a lower level.
\<close>

theorem calculateLevel_mono:
  "x \<le> y \<Longrightarrow> level (calculateLevel x) \<le> level (calculateLevel y)"
  by (simp add: level_of_calculateLevel level_spec_mono)

theorem calculateLevel_mono_witness:
  "(250::int) \<le> 320 \<and> level (calculateLevel 250) \<le> level (calculateLevel 320)"
  using calculateLevel_mono [of 250 320] by simp

text \<open>
  C9. The level is at least 1, the experience is below \<open>xpRequired\<close>, and from 100 XP on
  it is at least the previous threshold \<open>xpRequired - 200\<close>: \<open>xpRequired\<close> is the first
  threshold not yet reached.
\<close>

theorem calculateLevel_bracket:
  "1 \<le> level (calculateLevel x) \<and> x < xpRequired (calculateLevel x) \<and>
   (100 \<le> x \<longrightarrow> xpRequired (calculateLevel x) - 200 \<le> x)"
  using threshold_bracket [of x] level_spec_ge1 [of x]
  by (simp add: level_of_calculateLevel xpRequired_of_calculateLevel)

theorem calculateLevel_bracket_witness:
  "1 \<le> level (calculateLevel 450) \<and> (450::int) < xpRequired (calculateLevel 450) \<and>
   (100 \<le> (450::int) \<and> xpRequired (calculateLevel 450) - 200 \<le> 450)"
  using calculateLevel_bracket [of 450] by simp

text \<open>
  The spec's test values: 0 XP is level 1 with 100 required, 100 XP is level 2 with
  300 required, 299 XP is level 2 and 300 XP level 3.
\<close>

lemma calculateLevel_examples:
  "calculateLevel 0 = \<lparr>level = 1, currentXP = 0, xpRequired = 100\<rparr> \<and>
   level (calculateLevel 100) = 2 \<and> xpRequired (calculateLevel 100) = 300 \<and>
   level (calculateLevel 299) = 2 \<and> level (calculateLevel 300) = 3"
  by (simp add: calculateLevel_def level_loop_closed)

text \<open>
  C10. The \<open>while\<close> loop of \<open>calculateLevel\<close> terminates from every state: run as a loop
  (\<open>while_option\<close>) it returns \<open>Some\<close> result for every experience, level and threshold,
  and that result is the one of the recursive definition the development uses.
\<close>

theorem level_while_terminates: "level_while x lv thr = Some (level_loop x lv thr)"
proof (induction x lv thr rule: level_loop.induct)
  case (1 x lv thr)
  show ?case
  proof (cases "x \<ge> thr")
    case True
    then have "level_while x lv thr = level_while x (lv + 1) (thr + 200)"
      by (simp add: level_while_def while_option_unfold [of _ _ "(lv, thr)"])
    with True "1.IH" show ?thesis by (simp add: level_loop.simps [of x lv thr])
  next
    case False
    then show ?thesis
      by (simp add: level_while_def while_option_unfold [of _ _ "(lv, thr)"] level_loop.simps [of x lv thr])
  qed
qed

end
