(* ===== verification/Quest_Catalog.thy ===== *)
theory Quest_Catalog
  imports Prelude
begin

text \<open>
  The quest catalog. \<open>lib/models/QuestTemplate.ts\<close> is imported by the routes but is not
  part of the repository snapshot, so the template record and the five catalog arrays are
  modelled from the spec (section 3, QuestTemplate and DailyStrengthQuestSet): the
  catalog is a parameter of every handler, and its well-formedness is the spec's
  requirement on it. \<open>getQuestTemplateById\<close> (\<open>lib/getQuestTemplate.ts\<close>) is
  modelled from the source; its \<open>throw\<close> is the value \<open>None\<close>.
\<close>

section \<open>Templates and the catalog\<close>

datatype stat = Strength | Agility | Vitality | Intelligence | Sense

record quest_template =
  quest_id :: string
  name :: string
  description :: "string option"
  stat :: stat
  target :: int
  quest_unit :: "string option"
  xpReward :: int
  statReward :: int
  requiresNote :: bool

record catalog =
  DAILY_STRENGTH_QUESTS :: "quest_template list"
  AGILITY_QUESTS :: "quest_template list"
  VITALITY_QUESTS :: "quest_template list"
  INTELLIGENCE_QUESTS :: "quest_template list"
  SENSE_QUESTS :: "quest_template list"

text \<open>\<open>[...AGILITY_QUESTS, ...VITALITY_QUESTS, ...INTELLIGENCE_QUESTS, ...SENSE_QUESTS]\<close>\<close>

definition all_rotating_quests :: "catalog \<Rightarrow> quest_template list" where
  "all_rotating_quests c =
     AGILITY_QUESTS c @ VITALITY_QUESTS c @ INTELLIGENCE_QUESTS c @ SENSE_QUESTS c"

text \<open>\<open>allQuests.find(q => q._id === id)\<close>, throwing when there is none.\<close>

definition getQuestTemplateById :: "catalog \<Rightarrow> string \<Rightarrow> quest_template option" where
  "getQuestTemplateById c qid = find (\<lambda>q. quest_id q = qid) (all_rotating_quests c)"

text \<open>\<open>allOtherQuests.find(q => q.name === questName)\<close> of the completion route.\<close>

definition find_quest_by_name :: "catalog \<Rightarrow> string \<Rightarrow> quest_template option" where
  "find_quest_by_name c nm = find (\<lambda>q. name q = nm) (all_rotating_quests c)"

section \<open>Well-formedness of the catalog\<close>

text \<open>
  What the spec requires of the catalog: exactly four daily templates with distinct names,
  all rewarding strength; each rotating list rewards its own stat; identifiers and names
  unique across the rotating lists; rewards non-negative.
\<close>

definition cat_list_ok :: "stat \<Rightarrow> quest_template list \<Rightarrow> bool" where
  "cat_list_ok s qs = list_all (\<lambda>q. stat q = s \<and> 0 \<le> xpReward q \<and> 0 \<le> statReward q) qs"

definition catalog_wf :: "catalog \<Rightarrow> bool" where
  "catalog_wf c \<longleftrightarrow>
     length (DAILY_STRENGTH_QUESTS c) = 4 \<and> distinct (map name (DAILY_STRENGTH_QUESTS c)) \<and>
     cat_list_ok Strength (DAILY_STRENGTH_QUESTS c) \<and>
     cat_list_ok Agility (AGILITY_QUESTS c) \<and> cat_list_ok Vitality (VITALITY_QUESTS c) \<and>
     cat_list_ok Intelligence (INTELLIGENCE_QUESTS c) \<and> cat_list_ok Sense (SENSE_QUESTS c) \<and>
     distinct (map quest_id (all_rotating_quests c)) \<and>
     distinct (map name (all_rotating_quests c))"

lemma getQuestTemplateById_Some:
  "getQuestTemplateById c qid = Some q \<Longrightarrow> q \<in> set (all_rotating_quests c) \<and> quest_id q = qid"
  by (auto simp: getQuestTemplateById_def find_Some_iff)

lemma find_by_key_distinct:
  "distinct (map f xs) \<Longrightarrow> q \<in> set xs \<Longrightarrow> find (\<lambda>x. f x = f q) xs = Some q"
proof (induction xs)
  case Nil
  then show ?case by simp
next
  case (Cons x xs)
  then show ?case by (auto simp: image_iff)
qed

lemma getQuestTemplateById_member:
  "catalog_wf c \<Longrightarrow> q \<in> set (all_rotating_quests c) \<Longrightarrow>
   getQuestTemplateById c (quest_id q) = Some q"
  unfolding getQuestTemplateById_def catalog_wf_def
  by (rule find_by_key_distinct) auto

lemma find_quest_by_name_Some:
  "find_quest_by_name c nm = Some q \<Longrightarrow> q \<in> set (all_rotating_quests c) \<and> name q = nm"
  by (auto simp: find_quest_by_name_def find_Some_iff)

lemma catalog_wf_rewards:
  assumes "catalog_wf c"
  shows "q \<in> set (DAILY_STRENGTH_QUESTS c) \<Longrightarrow> 0 \<le> xpReward q \<and> 0 \<le> statReward q \<and> stat q = Strength"
    and "q \<in> set (all_rotating_quests c) \<Longrightarrow> 0 \<le> xpReward q \<and> 0 \<le> statReward q"
  using assms
  by (auto simp: catalog_wf_def cat_list_ok_def all_rotating_quests_def list_all_iff)

section \<open>A sample catalog\<close>

text \<open>A small well-formed catalog, the concrete input of the witnesses.\<close>

definition mk_quest :: "string \<Rightarrow> string \<Rightarrow> stat \<Rightarrow> int \<Rightarrow> int \<Rightarrow> quest_template" where
  "mk_quest i n s x r = \<lparr>quest_id = i, name = n, description = None, stat = s, target = 10,
     quest_unit = None, xpReward = x, statReward = r, requiresNote = False\<rparr>"

definition sample_catalog :: catalog where
  "sample_catalog = \<lparr>
     DAILY_STRENGTH_QUESTS = [mk_quest ''s1'' ''Push-ups'' Strength 10 1,
       mk_quest ''s2'' ''Sit-ups'' Strength 10 1, mk_quest ''s3'' ''Squats'' Strength 10 1,
       mk_quest ''s4'' ''Run'' Strength 20 2],
     AGILITY_QUESTS = [mk_quest ''a1'' ''Jump rope'' Agility 15 1,
       mk_quest ''a2'' ''Sprints'' Agility 15 1, mk_quest ''a3'' ''Ladder'' Agility 15 1],
     VITALITY_QUESTS = [mk_quest ''v1'' ''Sleep 8h'' Vitality 10 1,
       mk_quest ''v2'' ''Water'' Vitality 10 1],
     INTELLIGENCE_QUESTS = [mk_quest ''i1'' ''Read'' Intelligence 20 2,
       mk_quest ''i2'' ''Study'' Intelligence 20 2],
     SENSE_QUESTS = [mk_quest ''e1'' ''Meditate'' Sense 10 1,
       mk_quest ''e2'' ''Walk'' Sense 10 1]\<rparr>"

lemma sample_catalog_wf: "catalog_wf sample_catalog"
  by (simp add: catalog_wf_def sample_catalog_def mk_quest_def cat_list_ok_def
      all_rotating_quests_def)

end
