(* ===== verification/Quest_Selector.thy ===== *)
theory Quest_Selector
  imports Prelude
begin

text \<open>
  The quest selector, \<open>getRandomQuests\<close> of \<open>app/api/quests/assign/route.ts\<close>
  (lines 15--27): a backward Fisher--Yates shuffle of a copy of the array followed by
  \<open>slice(0, count)\<close>.

  \<open>Math.random()\<close> is the only effect. It is modelled as a state monad over an infinite
  stream of 53-bit words: a call returns the head and leaves the tail, and the double it
  stands for is \<open>k / 2^53\<close> (the value set of V8's generator, all in \<open>[0, 1)\<close>).
  \<open>Math.floor(Math.random() * (i + 1))\<close> is then \<open>k * (i + 1) div 2^53\<close>, computed
  exactly. Every theorem below holds for every stream, which is the model of "for every
  random seed".
\<close>

type_synonym rng = "53 word stream"

definition math_random :: "(rng, 53 word) state" where
  "math_random = State (\<lambda>s. (shd s, stl s))"

definition random_index :: "53 word \<Rightarrow> nat \<Rightarrow> nat" where
  "random_index r n = unat r * n div 2 ^ 53"

text \<open>\<open>for (let i = shuffled.length - 1; i > 0; i--) { j = ...; swap(i, j) }\<close>\<close>

fun shuffle_loop :: "nat \<Rightarrow> 'a list \<Rightarrow> (rng, 'a list) state" where
  "shuffle_loop 0 xs = State_Monad.return xs"
| "shuffle_loop (Suc i) xs =
     do {
       r \<leftarrow> math_random;
       shuffle_loop i (list_swap xs (Suc i) (random_index r (Suc i + 1)))
     }"

definition getRandomQuests :: "'a list \<Rightarrow> int \<Rightarrow> (rng, 'a list) state" where
  "getRandomQuests questArray cnt =
     (if questArray = [] then State_Monad.return []
      else do {
        shuffled \<leftarrow> shuffle_loop (length questArray - 1) questArray;
        State_Monad.return (js_slice0 shuffled cnt)
      })"

section \<open>The random index is in range\<close>

lemma run_math_random [simp]: "run_state math_random s = (shd s, stl s)"
  by (simp add: math_random_def)

lemma random_index_less: "0 < n \<Longrightarrow> random_index r n < n"
proof -
  assume "0 < n"
  have "unat r < 2 ^ 53" using unsigned_less [of r] by simp
  with \<open>0 < n\<close> have "unat r * n < 2 ^ 53 * n" by simp
  then show ?thesis by (simp add: random_index_def less_mult_imp_div_less)
qed

section \<open>The shuffle permutes and consumes one draw per iteration\<close>

lemma shuffle_loop_run:
  "i < length xs \<Longrightarrow>
   mset (fst (run_state (shuffle_loop i xs) s)) = mset xs \<and>
   snd (run_state (shuffle_loop i xs) s) = sdrop i s"
proof (induction i arbitrary: xs s)
  case 0
  then show ?case by simp
next
  case (Suc i)
  let ?j = "random_index (shd s) (Suc i + 1)"
  have j: "?j < length xs" using random_index_less [of "Suc i + 1" "shd s"] Suc.prems
    by simp
  let ?ys = "list_swap xs (Suc i) ?j"
  have "i < length ?ys" using Suc.prems by simp
  then have IH: "mset (fst (run_state (shuffle_loop i ?ys) (stl s))) = mset ?ys \<and>
      snd (run_state (shuffle_loop i ?ys) (stl s)) = sdrop i (stl s)"
    by (rule Suc.IH)
  have "mset ?ys = mset xs" using j Suc.prems by simp
  with IH show ?case by (simp split: prod.splits)
qed

lemma length_shuffle_loop:
  "i < length xs \<Longrightarrow> length (fst (run_state (shuffle_loop i xs) s)) = length xs"
  using shuffle_loop_run [of i xs s] by (metis size_mset)

section \<open>The selection\<close>

lemma getRandomQuests_run:
  "run_state (getRandomQuests xs c) s =
     (if xs = [] then ([], s)
      else (js_slice0 (fst (run_state (shuffle_loop (length xs - 1) xs) s)) c,
            snd (run_state (shuffle_loop (length xs - 1) xs) s)))"
  by (simp add: getRandomQuests_def split: prod.splits)

lemma getRandomQuests_sub: "mset (fst (run_state (getRandomQuests xs c) s)) \<subseteq># mset xs"
proof (cases "xs = []")
  case True
  then show ?thesis by (simp add: getRandomQuests_run)
next
  case False
  then have "length xs - 1 < length xs" by simp
  then have "mset (fst (run_state (shuffle_loop (length xs - 1) xs) s)) = mset xs"
    using shuffle_loop_run by blast
  with False show ?thesis
    by (metis getRandomQuests_run fst_conv mset_js_slice0_subset)
qed

lemma getRandomQuests_length:
  "0 \<le> c \<Longrightarrow> length (fst (run_state (getRandomQuests xs c) s)) = min (nat c) (length xs)"
proof (cases "xs = []")
  case True
  then show ?thesis by (simp add: getRandomQuests_run)
next
  case False
  assume "0 \<le> c"
  have "length xs - 1 < length xs" using False by simp
  then have "length (fst (run_state (shuffle_loop (length xs - 1) xs) s)) = length xs"
    by (rule length_shuffle_loop)
  with False \<open>0 \<le> c\<close> show ?thesis by (simp add: getRandomQuests_run)
qed

lemma distinct_of_count_le1: "(\<And>x. count (mset ys) x \<le> 1) \<Longrightarrow> distinct ys"
proof (unfold distinct_count_atmost_1, intro allI)
  fix a assume h: "\<And>x. count (mset ys) x \<le> 1"
  show "count (mset ys) a = (if a \<in> set ys then 1 else 0)"
  proof (cases "a \<in> set ys")
    case True
    then have "0 < count (mset ys) a" by simp
    with h [of a] have "count (mset ys) a = 1" by linarith
    with True show ?thesis by simp
  next
    case False
    then show ?thesis by (simp add: count_mset_0_iff)
  qed
qed

lemma distinct_mset_sub:
  "mset ys \<subseteq># mset xs \<Longrightarrow> distinct xs \<Longrightarrow> distinct ys"
proof -
  assume sub: "mset ys \<subseteq># mset xs" and d: "distinct xs"
  have "count (mset ys) x \<le> 1" for x
  proof -
    have "count (mset xs) x \<le> 1" using d by (simp add: distinct_count_atmost_1)
    then show ?thesis using mset_subset_eq_count [OF sub, of x] by linarith
  qed
  then show ?thesis by (rule distinct_of_count_le1)
qed

lemma set_getRandomQuests: "set (fst (run_state (getRandomQuests xs c) s)) \<subseteq> set xs"
  using set_mset_mono [OF getRandomQuests_sub [of xs c s]] by simp

section \<open>Properties of the selector\<close>

text \<open>
  C11. For every sequence of \<open>Math.random\<close> values and every non-negative count, the
  selection is drawn without replacement from the input (a sub-multiset of it) and has
  \<open>min(count, length)\<close> elements.
\<close>

theorem getRandomQuests_selection:
  assumes "0 \<le> c"
  shows "mset (fst (run_state (getRandomQuests xs c) s)) \<subseteq># mset xs \<and>
         length (fst (run_state (getRandomQuests xs c) s)) = min (nat c) (length xs)"
  using getRandomQuests_sub [of xs c s] getRandomQuests_length [OF assms] by simp

theorem getRandomQuests_selection_witness:
  "0 \<le> (2::int) \<and>
   mset (fst (run_state (getRandomQuests [''a1'', ''a2'', ''a3''] 2) (sconst 0))) \<subseteq>#
     mset [''a1'', ''a2'', ''a3''] \<and>
   length (fst (run_state (getRandomQuests [''a1'', ''a2'', ''a3''] 2) (sconst 0))) = 2"
  using getRandomQuests_selection [of 2 "[''a1'', ''a2'', ''a3'']" "sconst 0"] by simp

text \<open>
  C12. A catalog list without repeated templates gives a selection without repeated
  templates, whatever the random values: two distinct quests per category.
\<close>

theorem getRandomQuests_distinct:
  "distinct xs \<Longrightarrow> distinct (fst (run_state (getRandomQuests xs c) s))"
  using getRandomQuests_sub [of xs c s] by (rule distinct_mset_sub)

theorem getRandomQuests_distinct_witness:
  "distinct [''a1'', ''a2'', ''a3''] \<and>
   distinct (fst (run_state (getRandomQuests [''a1'', ''a2'', ''a3''] 2) (sconst 0)))"
  using getRandomQuests_distinct [of "[''a1'', ''a2'', ''a3'']" 2 "sconst 0"] by simp

text \<open>
  The shuffle draws exactly one random value per loop iteration: after a call on
  \<open>n\<close> templates the generator has advanced by \<open>n - 1\<close> values (none for an empty
  array, which returns before the loop).
\<close>

lemma getRandomQuests_draws:
  "snd (run_state (getRandomQuests xs c) s) = sdrop (length xs - 1) s"
proof (cases "xs = []")
  case True
  then show ?thesis by (simp add: getRandomQuests_run)
next
  case False
  then have "length xs - 1 < length xs" by simp
  then have "snd (run_state (shuffle_loop (length xs - 1) xs) s) = sdrop (length xs - 1) s"
    using shuffle_loop_run by blast
  with False show ?thesis by (simp add: getRandomQuests_run)
qed

text \<open>
  A negative count does not give an empty selection: \<open>slice(0, -1)\<close> drops only the
  last element, so \<open>getRandomQuests(xs, -1)\<close> returns all but one template (the spec
  says a non-positive count yields an empty result; the routes always pass 2).
\<close>

theorem getRandomQuests_negative_count:
  "length (fst (run_state (getRandomQuests xs (-1)) s)) = length xs - 1"
proof (cases "xs = []")
  case True
  then show ?thesis by (simp add: getRandomQuests_run)
next
  case False
  then have "length xs - 1 < length xs" by simp
  then have "length (fst (run_state (shuffle_loop (length xs - 1) xs) s)) = length xs"
    by (rule length_shuffle_loop)
  with False show ?thesis by (simp add: getRandomQuests_run js_slice0_def nat_diff_distrib)
qed

end
