(* ===== verification/User_Store.thy ===== *)
theory User_Store
  imports Quest_Catalog
begin

text \<open>
  The \<open>users\<close> collection and the helpers over it. A user document
  (\<open>UserDocument\<close> of \<open>health-leveling/src/lib/models/User.ts\<close>, plus the fields the
  registration route writes) is a record whose optional fields are \<open>option\<close>s: a field
  that was never written, or was written as \<open>null\<close>/\<open>undefined\<close>, is \<open>None\<close>.
  The collection is the list of documents in natural order: \<open>findOne\<close> returns the first
  match, \<open>updateOne\<close> changes the first match and reports \<open>modifiedCount\<close> \<open>1\<close>
  exactly when the document changed, \<open>insertOne\<close> appends. \<open>UserGamingStats\<close> and
  \<open>DEFAULT_USER_STATS\<close> are a record and its value, and \<open>is_UserDocument\<close> tells whether a
  stored document has the type the code casts it to.
\<close>

section \<open>Documents\<close>

record stats_rec =
  strength :: int
  agility :: int
  vitality :: int
  intelligence :: int
  sense :: int

text \<open>An entry of \<open>assignedQuests.quests\<close>: a template id (current format) or a whole template (old format).\<close>

datatype stored_quest = StoredId string | StoredObject quest_template

record assigned_rec =
  date :: day
  quests :: "stored_quest list"

text \<open>
  \<open>UserGamingStats\<close> (lines 4--22): the gaming fields the helpers write into a document, all
  of them required except \<open>assignedQuests\<close>.
\<close>

record user_gaming_stats =
  gs_level :: int
  gs_totalXP :: int
  gs_stats :: stats_rec
  gs_streakDays :: int
  gs_lastQuestDate :: "timestamp option"
  gs_questsCompletedToday :: "string list"
  gs_hasCompletedDailyStrength :: bool
  gs_assignedQuests :: "assigned_rec option"

record user_doc =
  doc_id :: string
  email :: string
  password :: "string option"
  displayName :: "string option"
  username :: "string option"
  hasSetUsername :: "bool option"
  doc_level :: "int option"
  totalXP :: "int option"
  xp :: "int option"
  stats :: "stats_rec option"
  streakDays :: "int option"
  lastQuestDate :: "timestamp option"
  questsCompletedToday :: "string list option"
  hasCompletedDailyStrength :: "bool option"
  assignedQuests :: "assigned_rec option"
  createdAt :: "timestamp option"

type_synonym users = "user_doc list"

text \<open>
  A stored document that has the type \<open>UserDocument\<close> declares (lines 25--49): the fields
  declared without \<open>?\<close> are present (\<open>lastQuestDate\<close> may be \<open>null\<close>, so its absence is
  not told apart).
\<close>

definition is_UserDocument :: "user_doc \<Rightarrow> bool" where
  "is_UserDocument u \<longleftrightarrow>
     totalXP u \<noteq> None \<and> stats u \<noteq> None \<and> streakDays u \<noteq> None \<and>
     questsCompletedToday u \<noteq> None \<and> hasCompletedDailyStrength u \<noteq> None"

section \<open>Collection operations\<close>

definition findOne_by_id :: "string \<Rightarrow> users \<Rightarrow> user_doc option" where
  "findOne_by_id i db = find (\<lambda>d. doc_id d = i) db"

fun update_first :: "(user_doc \<Rightarrow> bool) \<Rightarrow> (user_doc \<Rightarrow> user_doc) \<Rightarrow> users \<Rightarrow> users \<times> nat" where
  "update_first p f [] = ([], 0)"
| "update_first p f (d # ds) =
     (if p d then (f d # ds, if f d = d then 0 else 1)
      else (case update_first p f ds of (ds', n) \<Rightarrow> (d # ds', n)))"

text \<open>\<open>updateOne({_id}, {$set: ...})\<close>: the new collection and \<open>modifiedCount\<close>.\<close>

definition updateOne_by_id :: "string \<Rightarrow> (user_doc \<Rightarrow> user_doc) \<Rightarrow> users \<Rightarrow> users \<times> nat" where
  "updateOne_by_id i f db = update_first (\<lambda>d. doc_id d = i) f db"

definition insertOne :: "user_doc \<Rightarrow> users \<Rightarrow> users" where
  "insertOne d db = db @ [d]"

section \<open>Defaults and the user helpers\<close>

definition default_stats :: stats_rec where
  "default_stats = \<lparr>strength = 10, agility = 10, vitality = 10, intelligence = 10, sense = 10\<rparr>"

definition DEFAULT_USER_STATS :: user_gaming_stats where
  "DEFAULT_USER_STATS =
     \<lparr>gs_level = 1, gs_totalXP = 0, gs_stats = default_stats, gs_streakDays = 0, gs_lastQuestDate = None,
      gs_questsCompletedToday = [], gs_hasCompletedDailyStrength = False, gs_assignedQuests = None\<rparr>"

text \<open>\<open>$set\<close> of a \<open>UserGamingStats\<close> object: every one of its fields is written.\<close>

definition set_gaming_stats :: "user_gaming_stats \<Rightarrow> user_doc \<Rightarrow> user_doc" where
  "set_gaming_stats g u = u\<lparr>doc_level := Some (gs_level g), totalXP := Some (gs_totalXP g),
     stats := Some (gs_stats g), streakDays := Some (gs_streakDays g),
     lastQuestDate := gs_lastQuestDate g, questsCompletedToday := Some (gs_questsCompletedToday g),
     hasCompletedDailyStrength := Some (gs_hasCompletedDailyStrength g),
     assignedQuests := gs_assignedQuests g\<rparr>"

text \<open>\<open>$set: DEFAULT_USER_STATS\<close> (\<open>assignedQuests: undefined\<close> is stored as \<open>null\<close>).\<close>

definition set_DEFAULT_USER_STATS :: "user_doc \<Rightarrow> user_doc" where
  "set_DEFAULT_USER_STATS u = u\<lparr>doc_level := Some 1, totalXP := Some 0, stats := Some default_stats,
     streakDays := Some 0, lastQuestDate := None, questsCompletedToday := Some [],
     hasCompletedDailyStrength := Some False, assignedQuests := None\<rparr>"

definition checkIfUserHasGamingStats :: "string \<Rightarrow> users \<Rightarrow> bool" where
  "checkIfUserHasGamingStats i db =
     (case findOne_by_id i db of None \<Rightarrow> False | Some u \<Rightarrow> doc_level u \<noteq> None)"

definition initializeUserGamingStats :: "string \<Rightarrow> users \<Rightarrow> users" where
  "initializeUserGamingStats i db = fst (updateOne_by_id i set_DEFAULT_USER_STATS db)"

definition getUserWithGamingStats :: "string \<Rightarrow> users \<Rightarrow> user_doc option" where
  "getUserWithGamingStats i db = findOne_by_id i db"

section \<open>Facts about the collection operations\<close>

lemma updateOne_find_self:
  "(\<And>d. doc_id (f d) = doc_id d) \<Longrightarrow>
   findOne_by_id i (fst (updateOne_by_id i f db)) = map_option f (findOne_by_id i db)"
  unfolding findOne_by_id_def updateOne_by_id_def
  by (induction db) (auto split: prod.splits)

lemma updateOne_find_other:
  "(\<And>d. doc_id (f d) = doc_id d) \<Longrightarrow> j \<noteq> i \<Longrightarrow>
   findOne_by_id j (fst (updateOne_by_id i f db)) = findOne_by_id j db"
  unfolding findOne_by_id_def updateOne_by_id_def
  by (induction db) (auto split: prod.splits)

lemma updateOne_modified:
  "snd (updateOne_by_id i f db) =
     (case findOne_by_id i db of None \<Rightarrow> 0 | Some d \<Rightarrow> if f d = d then 0 else 1)"
  unfolding findOne_by_id_def updateOne_by_id_def
  by (induction db) (auto split: prod.splits)

lemma updateOne_unmodified:
  "snd (updateOne_by_id i f db) = 0 \<Longrightarrow> fst (updateOne_by_id i f db) = db"
  unfolding updateOne_by_id_def
  by (induction db) (auto split: prod.splits if_splits)

lemma updateOne_unmodified_pair:
  "updateOne_by_id i f db = (db', 0) \<Longrightarrow> db' = db"
  using updateOne_unmodified [of i f db] by simp

lemma updateOne_modified_found:
  "updateOne_by_id i f db = (db', n) \<Longrightarrow> 0 < n \<Longrightarrow> \<exists>u. findOne_by_id i db = Some u"
  using updateOne_modified [of i f db] by (auto split: option.splits)

lemma updateOne_not_found:
  "findOne_by_id i db = None \<Longrightarrow> fst (updateOne_by_id i f db) = db"
  unfolding findOne_by_id_def updateOne_by_id_def
  by (induction db) (auto split: prod.splits if_splits)

lemma updateOne_fixpoint:
  "findOne_by_id i db = Some u \<Longrightarrow> f u = u \<Longrightarrow> fst (updateOne_by_id i f db) = db"
  using updateOne_modified [of i f db] updateOne_unmodified [of i f db] by simp

lemma set_DEFAULT_USER_STATS_id [simp]: "doc_id (set_DEFAULT_USER_STATS d) = doc_id d"
  by (simp add: set_DEFAULT_USER_STATS_def)

text \<open>
  The helper's write is \<open>$set\<close> of the exported constant, and it gives every document the
  declared type.
\<close>

lemma set_DEFAULT_USER_STATS_is_set: "set_DEFAULT_USER_STATS u = set_gaming_stats DEFAULT_USER_STATS u"
  by (simp add: set_DEFAULT_USER_STATS_def set_gaming_stats_def DEFAULT_USER_STATS_def)

lemma set_gaming_stats_is_UserDocument: "is_UserDocument (set_gaming_stats g u)"
  by (simp add: is_UserDocument_def set_gaming_stats_def)

lemma updateOne_set:
  "set (fst (updateOne_by_id i f db)) \<subseteq> set db \<union> f ` set db"
  unfolding updateOne_by_id_def
  by (induction db) (auto split: prod.splits)

lemma updateOne_set_cases:
  "d' \<in> set (fst (updateOne_by_id i f db)) \<Longrightarrow> d' \<in> set db \<or> (\<exists>d \<in> set db. doc_id d = i \<and> d' = f d)"
  unfolding updateOne_by_id_def
  by (induction db) (auto split: prod.splits if_splits)

lemma findOne_by_id_Some:
  "findOne_by_id i db = Some d \<Longrightarrow> d \<in> set db \<and> doc_id d = i"
  by (auto simp: findOne_by_id_def find_Some_iff)

lemma findOne_after_insert:
  "oid \<notin> doc_id ` set db \<Longrightarrow> findOne_by_id oid (insertOne d db) = (if doc_id d = oid then Some d else None)"
  by (induction db) (auto simp: findOne_by_id_def insertOne_def)

lemmas store_simps = updateOne_find_self updateOne_find_other updateOne_modified
  updateOne_not_found updateOne_unmodified

section \<open>A sample document\<close>

text \<open>A user who has run the initialisation once: the input of the witnesses.\<close>

definition sample_user :: user_doc where
  "sample_user = \<lparr>doc_id = ''u1'', email = ''hunter@mail.com'', password = None,
     displayName = None, username = Some ''hunter'', hasSetUsername = Some True,
     doc_level = Some 1, totalXP = Some 0, xp = None, stats = Some default_stats,
     streakDays = Some 0, lastQuestDate = None, questsCompletedToday = Some [],
     hasCompletedDailyStrength = Some False, assignedQuests = None, createdAt = None\<rparr>"

end
