(* ===== verification/Complete_Route.thy ===== *)
theory Complete_Route
  imports User_Store Level
begin

text \<open>
  The progression engine: \<open>POST\<close> of \<open>solo-leveling/src/app/api/quests/complete/route.ts\<close>.
  The handler reads the session, the JSON body and the user document, computes the new
  experience, stats and streak in one of two branches (\<open>daily_strength\<close>, lines 56--99;
  \<open>individual\<close>, lines 100--119), derives the level, and writes everything with one
  \<open>updateOne\<close> (lines 121--147). Each early \<open>return\<close> of the source is an
  \<open>Inl\<close> of the branch functions; the handler returns the response and the collection
  after the request.

  The body is \<open>{completedQuests, questType}\<close>: \<open>completedQuests\<close> is an array of
  strings or absent (\<open>None\<close>); JSON values of other shapes are not modelled. A body that
  is not JSON makes \<open>request.json()\<close> throw, which is the outer \<open>catch\<close> (status 500).
\<close>

section \<open>Request and response\<close>

record complete_body =
  completedQuests :: "string list option"
  questType :: "string option"

record complete_ok =
  levelInfo :: level_info
  newStats :: stats_rec
  resp_streakDays :: int
  resp_questsCompletedToday :: "string list option"

definition msg_daily :: string where
  "msg_daily = ''Must complete all 4 daily strength quests''"

definition msg_daily_done :: string where
  "msg_daily_done = ''Daily Quest already completed today''"

definition msg_quest_done :: string where
  "msg_quest_done = ''Quest already completed today''"

section \<open>The handler, piece by piece\<close>

text \<open>\<open>strength: currentUser.stats?.strength || 10\<close>, and so on for each stat (lines 30--36).\<close>

definition current_stats :: "user_doc \<Rightarrow> stats_rec" where
  "current_stats u =
     \<lparr>strength = js_num_or (map_option strength (stats u)) 10,
      agility = js_num_or (map_option agility (stats u)) 10,
      vitality = js_num_or (map_option vitality (stats u)) 10,
      intelligence = js_num_or (map_option intelligence (stats u)) 10,
      sense = js_num_or (map_option sense (stats u)) 10\<rparr>"

text \<open>\<open>newStats[quest.stat] += quest.statReward\<close>\<close>

primrec add_stat :: "stat \<Rightarrow> int \<Rightarrow> stats_rec \<Rightarrow> stats_rec" where
  "add_stat Strength r s = s\<lparr>strength := strength s + r\<rparr>"
| "add_stat Agility r s = s\<lparr>agility := agility s + r\<rparr>"
| "add_stat Vitality r s = s\<lparr>vitality := vitality s + r\<rparr>"
| "add_stat Intelligence r s = s\<lparr>intelligence := intelligence s + r\<rparr>"
| "add_stat Sense r s = s\<lparr>sense := sense s + r\<rparr>"

text \<open>
  The daily-strength branch (lines 56--99). Its result is the error response of an early
  return, or the new experience, stats and streak. The second name check returns its error
  without a status, i.e. 200.
\<close>

definition daily_names_ok :: "catalog \<Rightarrow> string list \<Rightarrow> bool" where
  "daily_names_ok c qs = list_all (\<lambda>n. n \<in> set qs) (map name (DAILY_STRENGTH_QUESTS c))"

definition daily_strength_branch ::
  "catalog \<Rightarrow> user_doc \<Rightarrow> string list option \<Rightarrow> timestamp \<Rightarrow> int \<Rightarrow> stats_rec \<Rightarrow> int \<Rightarrow>
   complete_ok response + (int \<times> stats_rec \<times> int)" where
  "daily_strength_branch c u cq now xp0 st0 streak0 =
     (case cq of
        None \<Rightarrow> Inl (ErrorResp 400 msg_daily)
      | Some qs \<Rightarrow>
          if length qs \<noteq> 4 then Inl (ErrorResp 400 msg_daily)
          else if \<not> daily_names_ok c qs \<or> length qs \<noteq> 4 then Inl (ErrorResp 200 msg_daily)
          else
            let totXP = sum_list (map xpReward (DAILY_STRENGTH_QUESTS c));
                totStr = sum_list (map statReward (DAILY_STRENGTH_QUESTS c));
                xp1 = xp0 + totXP;
                st1 = st0\<lparr>strength := strength st0 + totStr\<rparr>
            in (case lastQuestDate u of
                  None \<Rightarrow> Inr (xp1, st1, streak0)
                | Some d \<Rightarrow>
                    if toDateString d = toDateString (yesterday_of now)
                    then Inr (xp1, st1, js_num_or (streakDays u) 0 + 1)
                    else if toDateString d = toDateString now
                    then Inl (ErrorResp 400 msg_daily_done)
                    else Inr (xp1, st1, 1)))"

text \<open>\<open>completedQuests.forEach(...)\<close>: rewards of each name found among the rotating quests.\<close>

definition reward_names :: "catalog \<Rightarrow> string list \<Rightarrow> int \<times> stats_rec \<Rightarrow> int \<times> stats_rec" where
  "reward_names c qs acc =
     fold (\<lambda>qn (x, st). case find_quest_by_name c qn of
                          None \<Rightarrow> (x, st)
                        | Some q \<Rightarrow> (x + xpReward q, add_stat (stat q) (statReward q) st)) qs acc"

definition completed_today :: "user_doc \<Rightarrow> string list" where
  "completed_today u = (case questsCompletedToday u of None \<Rightarrow> [] | Some l \<Rightarrow> l)"

text \<open>The individual branch (lines 100--119).\<close>

definition individual_branch ::
  "catalog \<Rightarrow> user_doc \<Rightarrow> string list option \<Rightarrow> int \<Rightarrow> stats_rec \<Rightarrow>
   complete_ok response + (int \<times> stats_rec)" where
  "individual_branch c u cq xp0 st0 =
     (case cq of
        None \<Rightarrow> Inl (ErrorResp 400 ''Individual quest requires exactly 1 '')
      | Some qs \<Rightarrow>
          if length qs \<noteq> 1 then Inl (ErrorResp 400 ''Individual quest requires exactly 1 '')
          else if qs ! 0 \<in> set (completed_today u) then Inl (ErrorResp 400 msg_quest_done)
          else Inr (reward_names c qs (xp0, st0)))"

text \<open>The branch selected by \<open>questType\<close> (lines 56--120); any other type changes nothing.\<close>

definition complete_branch ::
  "catalog \<Rightarrow> user_doc \<Rightarrow> complete_body \<Rightarrow> timestamp \<Rightarrow> complete_ok response + (int \<times> stats_rec \<times> int)" where
  "complete_branch c u b now =
     (let xp0 = js_num_or (totalXP u) 0;
          st0 = current_stats u;
          streak0 = js_num_or (streakDays u) 1
      in if questType b = Some ''daily_strength''
         then daily_strength_branch c u (completedQuests b) now xp0 st0 streak0
         else if questType b = Some ''individual''
         then (case individual_branch c u (completedQuests b) xp0 st0 of
                 Inl r \<Rightarrow> Inl r
               | Inr (x, st) \<Rightarrow> Inr (x, st, streak0))
         else Inr (xp0, st0, streak0))"

text \<open>The new \<open>questsCompletedToday\<close> (line 132, and again in the response).\<close>

definition new_completed :: "string option \<Rightarrow> string list option \<Rightarrow> user_doc \<Rightarrow> string list option" where
  "new_completed qt cq u =
     (if qt = Some ''individual''
      then (case cq of Some (n # _) \<Rightarrow> Some (completed_today u @ [n]) | _ \<Rightarrow> cq)
      else cq)"

text \<open>\<open>$set: updateFields\<close> (lines 123--138).\<close>

definition complete_update ::
  "complete_body \<Rightarrow> timestamp \<Rightarrow> int \<times> stats_rec \<times> int \<Rightarrow> user_doc \<Rightarrow> user_doc" where
  "complete_update b now r u =
     (case r of (xp1, st1, streak1) \<Rightarrow>
        let u1 = u\<lparr>totalXP := Some xp1, doc_level := Some (level (calculateLevel xp1)),
                   stats := Some st1, lastQuestDate := Some now,
                   questsCompletedToday := new_completed (questType b) (completedQuests b) u,
                   hasCompletedDailyStrength :=
                     (if questType b = Some ''daily_strength'' then Some True
                      else hasCompletedDailyStrength u)\<rparr>
        in if questType b = Some ''daily_strength'' then u1\<lparr>streakDays := Some streak1\<rparr> else u1)"

definition complete_POST ::
  "catalog \<Rightarrow> string option \<Rightarrow> complete_body option \<Rightarrow> timestamp \<Rightarrow> users \<Rightarrow>
   complete_ok response \<times> users" where
  "complete_POST c sess body now db =
     (case sess of
        None \<Rightarrow> (ErrorResp 401 ''Unauthorized'', db)
      | Some uid \<Rightarrow>
          (case body of
             None \<Rightarrow> (ErrorResp 500 ''Internal server error'', db)
           | Some b \<Rightarrow>
               (case findOne_by_id uid db of
                  None \<Rightarrow> (ErrorResp 404 ''User not found'', db)
                | Some u \<Rightarrow>
                    (case complete_branch c u b now of
                       Inl r \<Rightarrow> (r, db)
                     | Inr (xp1, st1, streak1) \<Rightarrow>
                         (case updateOne_by_id uid (complete_update b now (xp1, st1, streak1)) db of
                            (db', n) \<Rightarrow>
                              if n = 0 then (ErrorResp 500 ''Failed to update user'', db')
                              else (OkResp 200
                                      \<lparr>levelInfo = calculateLevel xp1, newStats = st1,
                                       resp_streakDays = streak1,
                                       resp_questsCompletedToday =
                                         new_completed (questType b) (completedQuests b) u\<rparr>,
                                    db'))))))"

section \<open>How a request ends\<close>

lemma complete_update_simps [simp]:
  "doc_id (complete_update b now r u) = doc_id u"
  "lastQuestDate (complete_update b now r u) = Some now"
  "totalXP (complete_update b now (x, st, k) u) = Some x"
  "doc_level (complete_update b now (x, st, k) u) = Some (level (calculateLevel x))"
  "stats (complete_update b now (x, st, k) u) = Some st"
  "streakDays (complete_update b now (x, st, k) u) =
     (if questType b = Some ''daily_strength'' then Some k else streakDays u)"
  "questsCompletedToday (complete_update b now r u) =
     new_completed (questType b) (completedQuests b) u"
  "hasCompletedDailyStrength (complete_update b now r u) =
     (if questType b = Some ''daily_strength'' then Some True else hasCompletedDailyStrength u)"
  by (simp_all add: complete_update_def Let_def split: prod.splits)

lemma complete_branch_Inl_error: "complete_branch c u b now = Inl r \<Longrightarrow> is_error r"
  by (auto simp: complete_branch_def daily_strength_branch_def individual_branch_def Let_def
      split: option.splits if_splits sum.splits prod.splits)

lemma complete_POST_rejected:
  "findOne_by_id uid db = Some u \<Longrightarrow> complete_branch c u b now = Inl r \<Longrightarrow>
   complete_POST c (Some uid) (Some b) now db = (r, db)"
  by (simp add: complete_POST_def)

lemma complete_POST_accepted:
  assumes "findOne_by_id uid db = Some u" and "complete_branch c u b now = Inr (x, st, k)"
    and "complete_update b now (x, st, k) u \<noteq> u"
  shows "complete_POST c (Some uid) (Some b) now db =
    (OkResp 200 \<lparr>levelInfo = calculateLevel x, newStats = st, resp_streakDays = k,
        resp_questsCompletedToday = new_completed (questType b) (completedQuests b) u\<rparr>,
     fst (updateOne_by_id uid (complete_update b now (x, st, k)) db))"
proof -
  obtain db' n where eq: "updateOne_by_id uid (complete_update b now (x, st, k)) db = (db', n)"
    by (cases "updateOne_by_id uid (complete_update b now (x, st, k)) db")
  have "snd (updateOne_by_id uid (complete_update b now (x, st, k)) db) = 1"
    using assms by (simp add: updateOne_modified)
  with eq have "n = 1" by simp
  with assms eq show ?thesis by (simp add: complete_POST_def)
qed

lemma complete_POST_ok_inv:
  "complete_POST c sess body now db = (OkResp s v, db') \<Longrightarrow>
   \<exists>uid b u x st k. sess = Some uid \<and> body = Some b \<and> findOne_by_id uid db = Some u \<and>
     complete_branch c u b now = Inr (x, st, k) \<and>
     db' = fst (updateOne_by_id uid (complete_update b now (x, st, k)) db) \<and>
     s = 200 \<and> resp_streakDays v = k \<and> levelInfo v = calculateLevel x \<and> newStats v = st"
  by (auto simp: complete_POST_def dest: complete_branch_Inl_error
      split: option.splits sum.splits prod.splits if_splits)

lemma complete_POST_error_inv:
  "complete_POST c sess body now db = (r, db') \<Longrightarrow> is_error r \<Longrightarrow> db' = db"
  by (auto simp: complete_POST_def dest: updateOne_unmodified_pair
      split: option.splits sum.splits prod.splits if_splits)

lemma complete_POST_ok_doc:
  assumes "complete_POST c (Some uid) body now db = (OkResp s v, db')"
  shows "\<exists>b u x st k. body = Some b \<and> findOne_by_id uid db = Some u \<and>
     complete_branch c u b now = Inr (x, st, k) \<and>
     findOne_by_id uid db' = Some (complete_update b now (x, st, k) u) \<and>
     resp_streakDays v = k"
proof -
  from complete_POST_ok_inv [OF assms] obtain b u x st k where
    "body = Some b" and u: "findOne_by_id uid db = Some u" and
    "complete_branch c u b now = Inr (x, st, k)" and
    db': "db' = fst (updateOne_by_id uid (complete_update b now (x, st, k)) db)" and
    "resp_streakDays v = k"
    by blast
  moreover have "findOne_by_id uid db' = Some (complete_update b now (x, st, k) u)"
    using u db' by (simp add: updateOne_find_self)
  ultimately show ?thesis by blast
qed

section \<open>The daily-strength branch\<close>

lemma daily_branch_same_day:
  "lastQuestDate u = Some d \<Longrightarrow> toDateString d = toDateString now \<Longrightarrow> length qs = 4 \<Longrightarrow>
   daily_names_ok c qs \<Longrightarrow>
   daily_strength_branch c u (Some qs) now x0 st0 k0 = Inl (ErrorResp 400 msg_daily_done)"
  by (simp add: daily_strength_branch_def)

lemma daily_branch_yesterday:
  "lastQuestDate u = Some d \<Longrightarrow> toDateString d = toDateString now - 1 \<Longrightarrow> length qs = 4 \<Longrightarrow>
   daily_names_ok c qs \<Longrightarrow>
   daily_strength_branch c u (Some qs) now x0 st0 k0 =
     Inr (x0 + sum_list (map xpReward (DAILY_STRENGTH_QUESTS c)),
          st0\<lparr>strength := strength st0 + sum_list (map statReward (DAILY_STRENGTH_QUESTS c))\<rparr>,
          js_num_or (streakDays u) 0 + 1)"
  by (simp add: daily_strength_branch_def)

lemma daily_branch_gap:
  "lastQuestDate u = Some d \<Longrightarrow> toDateString d \<noteq> toDateString now - 1 \<Longrightarrow>
   toDateString d \<noteq> toDateString now \<Longrightarrow> length qs = 4 \<Longrightarrow> daily_names_ok c qs \<Longrightarrow>
   daily_strength_branch c u (Some qs) now x0 st0 k0 =
     Inr (x0 + sum_list (map xpReward (DAILY_STRENGTH_QUESTS c)),
          st0\<lparr>strength := strength st0 + sum_list (map statReward (DAILY_STRENGTH_QUESTS c))\<rparr>, 1)"
  by (simp add: daily_strength_branch_def)

lemma complete_branch_daily:
  "questType b = Some ''daily_strength'' \<Longrightarrow>
   complete_branch c u b now =
     daily_strength_branch c u (completedQuests b) now (js_num_or (totalXP u) 0) (current_stats u)
       (js_num_or (streakDays u) 1)"
  by (simp add: complete_branch_def)

lemma complete_branch_individual:
  "questType b = Some ''individual'' \<Longrightarrow>
   complete_branch c u b now =
     (case individual_branch c u (completedQuests b) (js_num_or (totalXP u) 0) (current_stats u) of
        Inl r \<Rightarrow> Inl r | Inr (x, st) \<Rightarrow> Inr (x, st, js_num_or (streakDays u) 1))"
  by (simp add: complete_branch_def)

text \<open>A successful request stores its timestamp as \<open>lastQuestDate\<close>, whatever its type.\<close>

lemma complete_POST_ok_lastQuestDate:
  assumes "complete_POST c (Some uid) body t db = (OkResp s v, db')"
  shows "\<exists>u'. findOne_by_id uid db' = Some u' \<and> lastQuestDate u' = Some t"
  using complete_POST_ok_doc [OF assms] by auto

lemma complete_POST_ok_daily_doc:
  assumes "complete_POST c (Some uid) (Some b) t db = (OkResp s v, db')"
    and "questType b = Some ''daily_strength''"
  shows "\<exists>u'. findOne_by_id uid db' = Some u' \<and> lastQuestDate u' = Some t \<and>
     streakDays u' = Some (resp_streakDays v)"
  using complete_POST_ok_doc [OF assms(1)] assms(2) by auto

text \<open>Two submissions on different days leave different documents.\<close>

lemma complete_update_changes:
  "lastQuestDate u = Some t1 \<Longrightarrow> toDateString t1 \<noteq> toDateString t2 \<Longrightarrow>
   complete_update b t2 r u \<noteq> u"
  by (metis complete_update_simps(2) option.inject)

text \<open>
  A daily-set submission after a successful daily submission on another day: accepted,
  with the streak one higher when the previous day was yesterday and \<open>1\<close> otherwise.
\<close>

lemma daily_after_daily:
  assumes first: "complete_POST c (Some uid) (Some b1) t1 db = (OkResp s1 v1, db1)"
    and d1: "questType b1 = Some ''daily_strength''"
    and d2: "questType b2 = Some ''daily_strength''" and q: "completedQuests b2 = Some qs"
    and l: "length qs = 4" and ok: "daily_names_ok c qs"
    and days: "toDateString t2 \<noteq> toDateString t1"
  shows "\<exists>v2 db2. complete_POST c (Some uid) (Some b2) t2 db1 = (OkResp 200 v2, db2) \<and>
     resp_streakDays v2 = (if toDateString t1 = toDateString t2 - 1 then resp_streakDays v1 + 1 else 1) \<and>
     map_option streakDays (findOne_by_id uid db2) =
       Some (Some (if toDateString t1 = toDateString t2 - 1 then resp_streakDays v1 + 1 else 1))"
proof -
  obtain u' where u': "findOne_by_id uid db1 = Some u'" "lastQuestDate u' = Some t1"
      "streakDays u' = Some (resp_streakDays v1)"
    using complete_POST_ok_daily_doc [OF first d1] by blast
  define k where "k = (if toDateString t1 = toDateString t2 - 1 then resp_streakDays v1 + 1 else 1)"
  define x where "x = js_num_or (totalXP u') 0 + sum_list (map xpReward (DAILY_STRENGTH_QUESTS c))"
  define st where "st = (current_stats u')\<lparr>strength := strength (current_stats u') +
      sum_list (map statReward (DAILY_STRENGTH_QUESTS c))\<rparr>"
  have br: "complete_branch c u' b2 t2 = Inr (x, st, k)"
  proof (cases "toDateString t1 = toDateString t2 - 1")
    case True
    then show ?thesis using u' d2 q l ok
      by (simp add: complete_branch_daily daily_branch_yesterday x_def st_def k_def)
  next
    case False
    then show ?thesis using u' d2 q l ok days
      by (simp add: complete_branch_daily daily_branch_gap x_def st_def k_def)
  qed
  have ne: "complete_update b2 t2 (x, st, k) u' \<noteq> u'"
    using u'(2) days by (intro complete_update_changes) auto
  have "findOne_by_id uid (fst (updateOne_by_id uid (complete_update b2 t2 (x, st, k)) db1)) =
      Some (complete_update b2 t2 (x, st, k) u')"
    using u'(1) by (simp add: updateOne_find_self)
  with complete_POST_accepted [OF u'(1) br ne] d2 show ?thesis
    by (simp add: k_def)
qed

lemma individual_ok_records_name:
  assumes "complete_POST c (Some uid) (Some b) t db = (OkResp s v, db')"
    and "questType b = Some ''individual''" and "completedQuests b = Some [n]"
  shows "\<exists>u'. findOne_by_id uid db' = Some u' \<and> n \<in> set (completed_today u')"
  using complete_POST_ok_doc [OF assms(1)] assms(2,3)
  by (auto simp: new_completed_def completed_today_def)

lemma complete_branch_individual_dup:
  "questType b = Some ''individual'' \<Longrightarrow> completedQuests b = Some [n] \<Longrightarrow>
   n \<in> set (completed_today u) \<Longrightarrow> complete_branch c u b now = Inl (ErrorResp 400 msg_quest_done)"
  by (simp add: complete_branch_individual individual_branch_def)

lemma reward_names_unknown:
  "find_quest_by_name c n = None \<Longrightarrow> reward_names c [n] acc = acc"
  by (simp add: reward_names_def split: prod.splits)

lemma mset_eq_of_names:
  assumes dn: "distinct ns" and ln: "length ns = 4" and lq: "length qs = 4"
    and sub: "set ns \<subseteq> set qs"
  shows "mset qs = mset ns"
proof -
  have "card (set ns) = 4" using dn ln by (simp add: distinct_card)
  moreover have "card (set qs) \<le> 4" using lq card_length [of qs] by simp
  moreover have "card (set ns) \<le> card (set qs)" using sub by (simp add: card_mono)
  ultimately have cq: "card (set qs) = length qs" and "card (set ns) = card (set qs)"
    using lq by linarith+
  then have "set ns = set qs" using sub by (simp add: card_subset_eq)
  moreover have "distinct qs" using cq by (simp add: card_distinct)
  ultimately show ?thesis using dn by (simp add: set_eq_iff_mset_eq_distinct)
qed

text \<open>On a day other than the last quest date, the four daily names are always accepted.\<close>

lemma daily_names_ok_all: "daily_names_ok c (map name (DAILY_STRENGTH_QUESTS c))"
  by (simp add: daily_names_ok_def list_all_iff)

lemma daily_branch_new_day:
  "length qs = 4 \<Longrightarrow> daily_names_ok c qs \<Longrightarrow>
   (\<forall>d. lastQuestDate u = Some d \<longrightarrow> toDateString d \<noteq> toDateString now) \<Longrightarrow>
   \<exists>x st k. daily_strength_branch c u (Some qs) now x0 st0 k0 = Inr (x, st, k)"
  by (auto simp: daily_strength_branch_def Let_def split: option.splits)

lemma complete_POST_daily_new_day:
  assumes u: "findOne_by_id uid db = Some u" and b: "questType b = Some ''daily_strength''"
    and qs: "completedQuests b = Some qs" "length qs = 4" "daily_names_ok c qs"
    and new: "\<forall>d. lastQuestDate u = Some d \<longrightarrow> toDateString d \<noteq> toDateString now"
  shows "\<exists>v x st k. complete_POST c (Some uid) (Some b) now db =
           (OkResp 200 v, fst (updateOne_by_id uid (complete_update b now (x, st, k)) db))"
proof -
  obtain x st k where "daily_strength_branch c u (Some qs) now (js_num_or (totalXP u) 0)
      (current_stats u) (js_num_or (streakDays u) 1) = Inr (x, st, k)"
    using daily_branch_new_day [OF qs(2,3) new] by blast
  then have br: "complete_branch c u b now = Inr (x, st, k)"
    using b qs(1) by (simp add: complete_branch_daily)
  have "lastQuestDate u \<noteq> Some now" using new by auto
  then have "complete_update b now (x, st, k) u \<noteq> u"
    by (metis complete_update_simps(2))
  from complete_POST_accepted [OF u br this] show ?thesis by blast
qed

section \<open>Concrete requests\<close>

definition daily_body :: complete_body where
  "daily_body = \<lparr>completedQuests = Some [''Push-ups'', ''Sit-ups'', ''Squats'', ''Run''],
     questType = Some ''daily_strength''\<rparr>"

definition individual_body :: "string \<Rightarrow> complete_body" where
  "individual_body n = \<lparr>completedQuests = Some [n], questType = Some ''individual''\<rparr>"

text \<open>The unfoldings that evaluate a request on concrete data by \<open>simp\<close>.\<close>

lemmas complete_eval_simps = complete_POST_def complete_branch_def daily_strength_branch_def
  individual_branch_def complete_update_def findOne_by_id_def updateOne_by_id_def
  sample_catalog_def mk_quest_def daily_names_ok_def toDateString_def yesterday_of_def
  ms_per_day_def calculateLevel_def level_loop_closed current_stats_def default_stats_def
  new_completed_def completed_today_def reward_names_def find_quest_by_name_def
  all_rotating_quests_def sample_user_def daily_body_def individual_body_def

lemma sample_daily_ok:
  "\<exists>s v db1. complete_POST sample_catalog (Some ''u1'') (Some daily_body) 1728000000000
     [sample_user] = (OkResp s v, db1)"
  by (simp add: complete_eval_simps)

lemma sample_daily_ok_streak:
  "\<exists>s v db1. complete_POST sample_catalog (Some ''u1'') (Some daily_body) 1728000000000
     [sample_user] = (OkResp s v, db1) \<and> resp_streakDays v = 1"
  by (simp add: complete_eval_simps)

section \<open>Properties of the completion route\<close>

text \<open>
  C1. After any successful completion request, a daily-set submission on the same calendar
  day (with the four correct names) is rejected with \<open>Daily Quest already completed
  today\<close> and the store is left unchanged, so the experience is not awarded twice.
\<close>

theorem daily_rejected_same_day:
  assumes "complete_POST c (Some uid) bp t1 db = (OkResp s1 v1, db1)"
    and "questType bn = Some ''daily_strength''" and "completedQuests bn = Some qs"
    and "length qs = 4" and "daily_names_ok c qs"
    and "toDateString t2 = toDateString t1"
  shows "complete_POST c (Some uid) (Some bn) t2 db1 = (ErrorResp 400 msg_daily_done, db1)"
proof -
  obtain u' where u': "findOne_by_id uid db1 = Some u'" "lastQuestDate u' = Some t1"
    using complete_POST_ok_lastQuestDate [OF assms(1)] by blast
  have "complete_branch c u' bn t2 = Inl (ErrorResp 400 msg_daily_done)"
    using u'(2) assms(2-6) by (simp add: complete_branch_daily daily_branch_same_day)
  with u'(1) show ?thesis by (rule complete_POST_rejected)
qed

theorem daily_rejected_same_day_witness:
  "\<exists>s v db1. complete_POST sample_catalog (Some ''u1'') (Some daily_body) 1728000000000
       [sample_user] = (OkResp s v, db1) \<and>
     complete_POST sample_catalog (Some ''u1'') (Some daily_body) 1728003600000 db1 =
       (ErrorResp 400 msg_daily_done, db1)"
proof -
  obtain s v db1 where ok: "complete_POST sample_catalog (Some ''u1'') (Some daily_body)
      1728000000000 [sample_user] = (OkResp s v, db1)"
    using sample_daily_ok by blast
  have "complete_POST sample_catalog (Some ''u1'') (Some daily_body) 1728003600000 db1 =
      (ErrorResp 400 msg_daily_done, db1)"
    by (rule daily_rejected_same_day [OF ok, where bn = daily_body and qs = "[''Push-ups'', ''Sit-ups'', ''Squats'', ''Run'']"])
      (simp_all add: daily_body_def daily_names_ok_def sample_catalog_def mk_quest_def toDateString_def ms_per_day_def)
  with ok show ?thesis by blast
qed

text \<open>
  C2. A daily set completed on day N and again on day N+1: the second request succeeds and
  the streak, in the response and in the stored document, is one more than after the first.
\<close>

theorem daily_streak_next_day:
  assumes "complete_POST c (Some uid) (Some bp) t1 db = (OkResp s1 v1, db1)"
    and "questType bp = Some ''daily_strength''"
    and "questType bn = Some ''daily_strength''" and "completedQuests bn = Some qs"
    and "length qs = 4" and "daily_names_ok c qs"
    and "toDateString t2 = toDateString t1 + 1"
  shows "\<exists>v2 db2. complete_POST c (Some uid) (Some bn) t2 db1 = (OkResp 200 v2, db2) \<and>
     resp_streakDays v2 = resp_streakDays v1 + 1 \<and>
     map_option streakDays (findOne_by_id uid db2) = Some (Some (resp_streakDays v1 + 1))"
proof -
  have "toDateString t2 \<noteq> toDateString t1" using assms(7) by simp
  from daily_after_daily [OF assms(1-6) this] assms(7) show ?thesis by simp
qed

theorem daily_streak_next_day_witness:
  "\<exists>s v db1 v2 db2. complete_POST sample_catalog (Some ''u1'') (Some daily_body) 1728000000000
       [sample_user] = (OkResp s v, db1) \<and>
     complete_POST sample_catalog (Some ''u1'') (Some daily_body) 1728086400000 db1 = (OkResp 200 v2, db2) \<and>
     resp_streakDays v2 = resp_streakDays v + 1"
proof -
  obtain s v db1 where ok: "complete_POST sample_catalog (Some ''u1'') (Some daily_body)
      1728000000000 [sample_user] = (OkResp s v, db1)"
    using sample_daily_ok by blast
  have "\<exists>v2 db2. complete_POST sample_catalog (Some ''u1'') (Some daily_body) 1728086400000 db1 =
      (OkResp 200 v2, db2) \<and> resp_streakDays v2 = resp_streakDays v + 1 \<and>
      map_option streakDays (findOne_by_id ''u1'' db2) = Some (Some (resp_streakDays v + 1))"
    by (rule daily_streak_next_day [OF ok, where bn = daily_body and qs = "[''Push-ups'', ''Sit-ups'', ''Squats'', ''Run'']"])
      (simp_all add: daily_body_def daily_names_ok_def sample_catalog_def mk_quest_def toDateString_def ms_per_day_def)
  with ok show ?thesis by blast
qed

text \<open>
  C3. A daily set completed on day N and next on day N+2 or later: the request succeeds and
  the streak restarts at 1.
\<close>

theorem daily_streak_reset_after_gap:
  assumes "complete_POST c (Some uid) (Some bp) t1 db = (OkResp s1 v1, db1)"
    and "questType bp = Some ''daily_strength''"
    and "questType bn = Some ''daily_strength''" and "completedQuests bn = Some qs"
    and "length qs = 4" and "daily_names_ok c qs"
    and "toDateString t1 + 2 \<le> toDateString t2"
  shows "\<exists>v2 db2. complete_POST c (Some uid) (Some bn) t2 db1 = (OkResp 200 v2, db2) \<and>
     resp_streakDays v2 = 1 \<and> map_option streakDays (findOne_by_id uid db2) = Some (Some 1)"
proof -
  have "toDateString t2 \<noteq> toDateString t1" using assms(7) by simp
  from daily_after_daily [OF assms(1-6) this] assms(7) show ?thesis by simp
qed

theorem daily_streak_reset_after_gap_witness:
  "\<exists>s v db1 v2 db2. complete_POST sample_catalog (Some ''u1'') (Some daily_body) 1728000000000
       [sample_user] = (OkResp s v, db1) \<and>
     complete_POST sample_catalog (Some ''u1'') (Some daily_body) 1728259200000 db1 = (OkResp 200 v2, db2) \<and>
     resp_streakDays v2 = 1"
proof -
  obtain s v db1 where ok: "complete_POST sample_catalog (Some ''u1'') (Some daily_body)
      1728000000000 [sample_user] = (OkResp s v, db1)"
    using sample_daily_ok by blast
  have "\<exists>v2 db2. complete_POST sample_catalog (Some ''u1'') (Some daily_body) 1728259200000 db1 =
      (OkResp 200 v2, db2) \<and> resp_streakDays v2 = 1 \<and>
      map_option streakDays (findOne_by_id ''u1'' db2) = Some (Some (1))"
    by (rule daily_streak_reset_after_gap [OF ok, where bn = daily_body and qs = "[''Push-ups'', ''Sit-ups'', ''Squats'', ''Run'']"])
      (simp_all add: daily_body_def daily_names_ok_def sample_catalog_def mk_quest_def toDateString_def ms_per_day_def)
  with ok show ?thesis by blast
qed

text \<open>
  C4. An individual quest whose name is already in \<open>questsCompletedToday\<close> is rejected
  with \<open>Quest already completed today\<close>; nothing is written.
\<close>

theorem individual_duplicate_rejected:
  assumes "findOne_by_id uid db = Some u" and "n \<in> set (completed_today u)"
    and "questType b = Some ''individual''" and "completedQuests b = Some [n]"
  shows "complete_POST c (Some uid) (Some b) now db = (ErrorResp 400 msg_quest_done, db)"
  using assms by (simp add: complete_POST_rejected complete_branch_individual_dup)

theorem individual_duplicate_rejected_witness:
  "complete_POST sample_catalog (Some ''u1'') (Some (individual_body ''Read'')) 1728000000000
     [sample_user\<lparr>questsCompletedToday := Some [''Read'']\<rparr>] =
   (ErrorResp 400 msg_quest_done, [sample_user\<lparr>questsCompletedToday := Some [''Read'']\<rparr>])"
  by (rule individual_duplicate_rejected [where u = "sample_user\<lparr>questsCompletedToday := Some [''Read'']\<rparr>" and n = "''Read''"])
    (simp_all add: findOne_by_id_def sample_user_def completed_today_def individual_body_def)

text \<open>
  C5. Every error response of the completion route leaves the collection unchanged: the
  effects are applied only after all the checks pass.
\<close>

theorem complete_error_atomic:
  "complete_POST c sess body now db = (r, db') \<Longrightarrow> is_error r \<Longrightarrow> db' = db"
  by (auto simp: complete_POST_def dest: updateOne_unmodified_pair
      split: option.splits sum.splits prod.splits if_splits)

theorem complete_error_atomic_witness:
  "is_error (fst (complete_POST sample_catalog None (Some daily_body) 0 [sample_user])) \<and>
   snd (complete_POST sample_catalog None (Some daily_body) 0 [sample_user]) = [sample_user]"
proof -
  have e: "complete_POST sample_catalog None (Some daily_body) 0 [sample_user] =
      (ErrorResp 401 ''Unauthorized'', [sample_user])"
    by (simp add: complete_POST_def)
  have "[sample_user] = [sample_user]"
    by (rule complete_error_atomic [OF e]) simp
  with e show ?thesis by simp
qed

text \<open>
  C6. With distinct daily names (a well-formed catalog), the route's two checks on the
  submitted daily names (exactly four entries, each daily name among them) accept exactly
  the permutations of the four daily names: the set-equality precondition of the spec.
\<close>

theorem daily_validation_is_permutation:
  assumes "catalog_wf c"
  shows "(length qs = 4 \<and> daily_names_ok c qs) \<longleftrightarrow>
         mset qs = mset (map name (DAILY_STRENGTH_QUESTS c))"
proof
  assume h: "length qs = 4 \<and> daily_names_ok c qs"
  show "mset qs = mset (map name (DAILY_STRENGTH_QUESTS c))"
  proof (rule mset_eq_of_names)
    show "distinct (map name (DAILY_STRENGTH_QUESTS c))"
      and "length (map name (DAILY_STRENGTH_QUESTS c)) = 4"
      using assms by (simp_all add: catalog_wf_def)
    show "length qs = 4" using h by simp
    show "set (map name (DAILY_STRENGTH_QUESTS c)) \<subseteq> set qs"
      using h by (auto simp: daily_names_ok_def list_all_iff)
  qed
next
  assume h: "mset qs = mset (map name (DAILY_STRENGTH_QUESTS c))"
  then have "length qs = length (DAILY_STRENGTH_QUESTS c)" by (metis length_map size_mset)
  moreover have "set qs = set (map name (DAILY_STRENGTH_QUESTS c))" by (metis h set_mset_mset)
  ultimately show "length qs = 4 \<and> daily_names_ok c qs"
    using assms by (simp add: catalog_wf_def daily_names_ok_def list_all_iff)
qed

theorem daily_validation_is_permutation_witness:
  "catalog_wf sample_catalog \<and>
   (length [''Run'', ''Squats'', ''Sit-ups'', ''Push-ups''] = 4 \<and>
    daily_names_ok sample_catalog [''Run'', ''Squats'', ''Sit-ups'', ''Push-ups''])"
proof -
  have "mset [''Run'', ''Squats'', ''Sit-ups'', ''Push-ups''] =
      mset (map name (DAILY_STRENGTH_QUESTS sample_catalog))"
    by (simp add: sample_catalog_def mk_quest_def)
  with daily_validation_is_permutation [OF sample_catalog_wf] sample_catalog_wf
  show ?thesis by blast
qed

text \<open>
  C37. A request whose \<open>questType\<close> is neither \<open>daily_strength\<close> nor \<open>individual\<close> is not
  rejected: it succeeds without any reward, stores the submitted list as
  \<open>questsCompletedToday\<close> unchecked, and marks today as the last quest date (which then
  blocks the daily set for the rest of the day, C1). The spec treats an unknown kind as an
  invalid request.
\<close>

theorem unknown_questType_accepted:
  assumes u: "findOne_by_id uid db = Some u"
    and qt: "questType b \<noteq> Some ''daily_strength''" "questType b \<noteq> Some ''individual''"
    and day: "lastQuestDate u \<noteq> Some now"
  shows "\<exists>v u'. complete_POST c (Some uid) (Some b) now db =
             (OkResp 200 v, fst (updateOne_by_id uid (complete_update b now
                (js_num_or (totalXP u) 0, current_stats u, js_num_or (streakDays u) 1)) db)) \<and>
           findOne_by_id uid (fst (updateOne_by_id uid (complete_update b now
                (js_num_or (totalXP u) 0, current_stats u, js_num_or (streakDays u) 1)) db)) = Some u' \<and>
           totalXP u' = Some (js_num_or (totalXP u) 0) \<and> stats u' = Some (current_stats u) \<and>
           questsCompletedToday u' = completedQuests b \<and> lastQuestDate u' = Some now"
proof -
  let ?r = "(js_num_or (totalXP u) 0, current_stats u, js_num_or (streakDays u) 1)"
  have br: "complete_branch c u b now = Inr ?r"
    using qt by (simp add: complete_branch_def Let_def)
  have ch: "complete_update b now ?r u \<noteq> u"
    using day complete_update_simps(2) [of b now ?r u] by metis
  have "findOne_by_id uid (fst (updateOne_by_id uid (complete_update b now ?r) db)) =
      Some (complete_update b now ?r u)"
    using u by (simp add: updateOne_find_self)
  then show ?thesis
    using complete_POST_accepted [OF u br ch] qt by (simp add: new_completed_def)
qed

theorem unknown_questType_accepted_witness:
  "\<exists>v u'. complete_POST sample_catalog (Some ''u1'')
        (Some \<lparr>completedQuests = Some [''anything''], questType = Some ''quiz''\<rparr>) 1728000000000 [sample_user] =
      (OkResp 200 v, fst (updateOne_by_id ''u1'' (complete_update
         \<lparr>completedQuests = Some [''anything''], questType = Some ''quiz''\<rparr> 1728000000000
         (js_num_or (totalXP sample_user) 0, current_stats sample_user, js_num_or (streakDays sample_user) 1))
         [sample_user])) \<and>
    findOne_by_id ''u1'' (fst (updateOne_by_id ''u1'' (complete_update
         \<lparr>completedQuests = Some [''anything''], questType = Some ''quiz''\<rparr> 1728000000000
         (js_num_or (totalXP sample_user) 0, current_stats sample_user, js_num_or (streakDays sample_user) 1))
         [sample_user])) = Some u' \<and>
    totalXP u' = Some (js_num_or (totalXP sample_user) 0) \<and> stats u' = Some (current_stats sample_user) \<and>
    questsCompletedToday u' = Some [''anything''] \<and> lastQuestDate u' = Some 1728000000000"
  using unknown_questType_accepted [where uid = "''u1''" and db = "[sample_user]" and u = sample_user
      and b = "\<lparr>completedQuests = Some [''anything''], questType = Some ''quiz''\<rparr>"
      and now = 1728000000000 and c = sample_catalog]
  by (simp add: findOne_by_id_def sample_user_def)

end
