(* ===== verification/Initialize_Route.thy ===== *)
theory Initialize_Route
  imports User_Store
begin

text \<open>
  The daily reset policy: \<open>POST\<close> of \<open>solo-leveling/src/app/api/user/initialize/route.ts\<close>.
  The handler initialises a user document that has no \<open>level\<close> yet with
  \<open>DEFAULT_USER_STATS\<close> (\<open>checkIfUserHasGamingStats\<close>, \<open>initializeUserGamingStats\<close>
  of \<open>lib/userHelpers.ts\<close>), reads the document back, and when the stored
  \<open>lastQuestDate\<close> lies on another calendar day than now clears the per-day completion
  fields, in the store and in the returned copy. The client pages call it on every load;
  it is the only place the per-day fields are reset.
\<close>

record init_ok =
  userData :: "user_doc option"
  wasInitialized :: bool

text \<open>\<open>$set: {questsCompletedToday: [], hasCompletedDailyStrength: false}\<close> (lines 40--51).\<close>

definition reset_today :: "user_doc \<Rightarrow> user_doc" where
  "reset_today u = u\<lparr>questsCompletedToday := Some [], hasCompletedDailyStrength := Some False\<rparr>"

definition initialize_POST :: "string option \<Rightarrow> timestamp \<Rightarrow> users \<Rightarrow> init_ok response \<times> users" where
  "initialize_POST sess now db =
     (case sess of
        None \<Rightarrow> (ErrorResp 401 ''Not authenticated'', db)
      | Some uid \<Rightarrow>
          (let hasStats = checkIfUserHasGamingStats uid db;
               db1 = (if hasStats then db else initializeUserGamingStats uid db)
           in (case getUserWithGamingStats uid db1 of
                 None \<Rightarrow> (OkResp 200 \<lparr>userData = None, wasInitialized = \<not> hasStats\<rparr>, db1)
               | Some u \<Rightarrow>
                   (case lastQuestDate u of
                      None \<Rightarrow> (OkResp 200 \<lparr>userData = Some u, wasInitialized = \<not> hasStats\<rparr>, db1)
                    | Some d \<Rightarrow>
                        if toDateString d \<noteq> toDateString now
                        then (OkResp 200 \<lparr>userData = Some (reset_today u), wasInitialized = \<not> hasStats\<rparr>,
                              fst (updateOne_by_id uid reset_today db1))
                        else (OkResp 200 \<lparr>userData = Some u, wasInitialized = \<not> hasStats\<rparr>, db1)))))"

section \<open>Unfolding for a user with gaming stats\<close>

lemma reset_today_simps [simp]:
  "doc_id (reset_today u) = doc_id u"
  "questsCompletedToday (reset_today u) = Some []"
  "hasCompletedDailyStrength (reset_today u) = Some False"
  "totalXP (reset_today u) = totalXP u"
  "doc_level (reset_today u) = doc_level u"
  "stats (reset_today u) = stats u"
  "streakDays (reset_today u) = streakDays u"
  "lastQuestDate (reset_today u) = lastQuestDate u"
  "assignedQuests (reset_today u) = assignedQuests u"
  by (simp_all add: reset_today_def)

lemma initialize_POST_has_stats:
  assumes "findOne_by_id uid db = Some u" and "doc_level u \<noteq> None"
  shows "initialize_POST (Some uid) now db =
    (case lastQuestDate u of
       None \<Rightarrow> (OkResp 200 \<lparr>userData = Some u, wasInitialized = False\<rparr>, db)
     | Some d \<Rightarrow>
         if toDateString d \<noteq> toDateString now
         then (OkResp 200 \<lparr>userData = Some (reset_today u), wasInitialized = False\<rparr>,
               fst (updateOne_by_id uid reset_today db))
         else (OkResp 200 \<lparr>userData = Some u, wasInitialized = False\<rparr>, db))"
  using assms
  by (cases "lastQuestDate u")
    (simp_all add: initialize_POST_def checkIfUserHasGamingStats_def getUserWithGamingStats_def)

lemma initialize_POST_fresh:
  assumes "findOne_by_id uid db = Some u" and "doc_level u = None"
  shows "initialize_POST (Some uid) now db =
    (OkResp 200 \<lparr>userData = Some (set_DEFAULT_USER_STATS u), wasInitialized = True\<rparr>,
     fst (updateOne_by_id uid set_DEFAULT_USER_STATS db))"
proof -
  have "findOne_by_id uid (fst (updateOne_by_id uid set_DEFAULT_USER_STATS db)) =
      Some (set_DEFAULT_USER_STATS u)"
    using assms(1) by (simp add: updateOne_find_self)
  moreover have "lastQuestDate (set_DEFAULT_USER_STATS u) = None"
    by (simp add: set_DEFAULT_USER_STATS_def)
  ultimately show ?thesis using assms
    by (simp add: initialize_POST_def checkIfUserHasGamingStats_def getUserWithGamingStats_def
        initializeUserGamingStats_def)
qed

section \<open>Properties of the daily reset\<close>

text \<open>
  C15. For an initialised user whose last completion lies on another calendar day,
  initialisation returns and stores the document with \<open>questsCompletedToday = []\<close> and
  \<open>hasCompletedDailyStrength = false\<close>; experience, level, stats, streak and the last
  completion date are unchanged.
\<close>

theorem initialize_resets_stale_day:
  assumes "findOne_by_id uid db = Some u" and "doc_level u \<noteq> None"
    and "lastQuestDate u = Some d" and "toDateString d \<noteq> toDateString now"
  shows "\<exists>u' db'. initialize_POST (Some uid) now db =
             (OkResp 200 \<lparr>userData = Some u', wasInitialized = False\<rparr>, db') \<and>
           findOne_by_id uid db' = Some u' \<and>
           questsCompletedToday u' = Some [] \<and> hasCompletedDailyStrength u' = Some False \<and>
           totalXP u' = totalXP u \<and> doc_level u' = doc_level u \<and> stats u' = stats u \<and>
           streakDays u' = streakDays u \<and> lastQuestDate u' = lastQuestDate u"
proof -
  have "findOne_by_id uid (fst (updateOne_by_id uid reset_today db)) = Some (reset_today u)"
    using assms(1) by (simp add: updateOne_find_self)
  with initialize_POST_has_stats [OF assms(1,2)] assms(3,4) show ?thesis by simp
qed

theorem initialize_resets_stale_day_witness:
  "\<exists>u' db'. initialize_POST (Some ''u1'') 1728086400000 [sample_user\<lparr>lastQuestDate := Some 1728000000000\<rparr>] =
      (OkResp 200 \<lparr>userData = Some u', wasInitialized = False\<rparr>, db') \<and>
    findOne_by_id ''u1'' db' = Some u' \<and> questsCompletedToday u' = Some [] \<and>
    hasCompletedDailyStrength u' = Some False \<and> totalXP u' = Some 0"
  using initialize_resets_stale_day [where uid = "''u1''" and db = "[sample_user\<lparr>lastQuestDate := Some 1728000000000\<rparr>]" and u = "sample_user\<lparr>lastQuestDate := Some 1728000000000\<rparr>"
      and d = 1728000000000 and now = 1728086400000]
  by (simp add: findOne_by_id_def sample_user_def toDateString_def ms_per_day_def) blast

text \<open>
  On the calendar day of the last completion, initialising an initialised user changes
  nothing and returns the stored document as it is.
\<close>

theorem initialize_same_day_unchanged:
  assumes "findOne_by_id uid db = Some u" and "doc_level u \<noteq> None"
    and "lastQuestDate u = Some d" and "toDateString d = toDateString now"
  shows "initialize_POST (Some uid) now db =
           (OkResp 200 \<lparr>userData = Some u, wasInitialized = False\<rparr>, db)"
  using initialize_POST_has_stats [OF assms(1,2)] assms(3,4) by simp

theorem initialize_same_day_unchanged_witness:
  "initialize_POST (Some ''u1'') 1728003600000 [sample_user\<lparr>lastQuestDate := Some 1728000000000\<rparr>] =
     (OkResp 200 \<lparr>userData = Some (sample_user\<lparr>lastQuestDate := Some 1728000000000\<rparr>), wasInitialized = False\<rparr>, [sample_user\<lparr>lastQuestDate := Some 1728000000000\<rparr>])"
  by (rule initialize_same_day_unchanged [where d = 1728000000000])
    (simp_all add: findOne_by_id_def sample_user_def toDateString_def ms_per_day_def)

text \<open>
  A document without a \<open>level\<close> is initialised with \<open>DEFAULT_USER_STATS\<close>: level 1,
  no experience, every stat 10, no streak, no completion, nothing assigned.
\<close>

theorem initialize_fresh_user:
  assumes "findOne_by_id uid db = Some u" and "doc_level u = None"
  shows "\<exists>u' db'. initialize_POST (Some uid) now db =
             (OkResp 200 \<lparr>userData = Some u', wasInitialized = True\<rparr>, db') \<and>
           findOne_by_id uid db' = Some u' \<and>
           doc_level u' = Some 1 \<and> totalXP u' = Some 0 \<and> stats u' = Some default_stats \<and>
           streakDays u' = Some 0 \<and> lastQuestDate u' = None \<and> questsCompletedToday u' = Some [] \<and>
           hasCompletedDailyStrength u' = Some False \<and> assignedQuests u' = None"
proof -
  have "findOne_by_id uid (fst (updateOne_by_id uid set_DEFAULT_USER_STATS db)) =
      Some (set_DEFAULT_USER_STATS u)"
    using assms(1) by (simp add: updateOne_find_self)
  with initialize_POST_fresh [OF assms] show ?thesis
    by (simp add: set_DEFAULT_USER_STATS_def)
qed

theorem initialize_fresh_user_witness:
  "\<exists>u' db'. initialize_POST (Some ''u1'') 0 [sample_user\<lparr>doc_level := None\<rparr>] =
      (OkResp 200 \<lparr>userData = Some u', wasInitialized = True\<rparr>, db') \<and>
    doc_level u' = Some 1 \<and> stats u' = Some default_stats"
  using initialize_fresh_user [where uid = "''u1''" and db = "[sample_user\<lparr>doc_level := None\<rparr>]" and u = "sample_user\<lparr>doc_level := None\<rparr>" and now = 0]
  by (simp add: findOne_by_id_def sample_user_def) blast

section \<open>Repeated calls\<close>

text \<open>
  The pages call initialise from every mount effect, and React's strict mode runs each
  effect twice in development. A second call with the same session on the same day stores
  nothing new and returns the same user data: the default stats are only written to a
  document without a level, and the reset writes values that it leaves in place.
\<close>

lemma reset_today_idem [simp]: "reset_today (reset_today u) = reset_today u"
  by (simp add: reset_today_def)

lemma initialize_POST_idem:
  assumes "initialize_POST (Some uid) now db = (OkResp st d1, db1)"
  shows "\<exists>d2. initialize_POST (Some uid) now db1 = (OkResp 200 d2, db1) \<and> userData d2 = userData d1"
proof (cases "findOne_by_id uid db")
  case None
  then show ?thesis using assms
    by (simp add: initialize_POST_def checkIfUserHasGamingStats_def getUserWithGamingStats_def
        initializeUserGamingStats_def updateOne_not_found)
next
  case (Some u)
  note found = Some
  show ?thesis
  proof (cases "doc_level u = None")
    case True
    have "db1 = fst (updateOne_by_id uid set_DEFAULT_USER_STATS db)"
      using assms initialize_POST_fresh [OF found True] by simp
    then have f1: "findOne_by_id uid db1 = Some (set_DEFAULT_USER_STATS u)"
      using found by (simp add: updateOne_find_self)
    have "doc_level (set_DEFAULT_USER_STATS u) \<noteq> None" "lastQuestDate (set_DEFAULT_USER_STATS u) = None"
      by (simp_all add: set_DEFAULT_USER_STATS_def)
    then show ?thesis
      using assms initialize_POST_fresh [OF found True] initialize_POST_has_stats [OF f1] by auto
  next
    case level: False
    show ?thesis
    proof (cases "lastQuestDate u")
      case None
      then show ?thesis using assms initialize_POST_has_stats [OF found level] by auto
    next
      case (Some d)
      show ?thesis
      proof (cases "toDateString d = toDateString now")
        case True
        then show ?thesis using assms initialize_POST_has_stats [OF found level] Some by auto
      next
        case stale: False
        let ?db1 = "fst (updateOne_by_id uid reset_today db)"
        have f1: "findOne_by_id uid ?db1 = Some (reset_today u)"
          using found by (simp add: updateOne_find_self)
        have db1: "db1 = ?db1" "userData d1 = Some (reset_today u)"
          using assms initialize_POST_has_stats [OF found level] Some stale by auto
        have "fst (updateOne_by_id uid reset_today ?db1) = ?db1"
          using f1 by (rule updateOne_fixpoint) simp
        then show ?thesis
          using initialize_POST_has_stats [OF f1] level Some stale db1 by auto
      qed
    qed
  qed
qed

text \<open>The same for every session, with or without an id: the second answer is the first one's kind.\<close>

lemma initialize_POST_again:
  assumes "initialize_POST s now db = (r1, db1)"
  shows "\<exists>r2. initialize_POST s now db1 = (r2, db1) \<and> is_error r2 = is_error r1 \<and>
           (\<forall>st d. r1 = OkResp st d \<longrightarrow> (\<exists>d2. r2 = OkResp 200 d2 \<and> userData d2 = userData d))"
proof (cases s)
  case None
  then show ?thesis using assms by (auto simp: initialize_POST_def)
next
  case (Some uid)
  obtain d1 where r1: "r1 = OkResp 200 d1"
    using assms Some by (auto simp: initialize_POST_def Let_def split: option.splits if_splits)
  then show ?thesis
    using initialize_POST_idem [of uid now db 200 d1 db1] assms Some by auto
qed

end
