(* ===== verification/Assign_Route.thy ===== *)
theory Assign_Route
  imports User_Store Quest_Selector
begin

text \<open>
  Daily quest assignment: \<open>POST\<close> of \<open>solo-leveling/src/app/api/quests/assign/route.ts\<close>
  (lines 31--126). When the user document holds an assignment for today whose entries
  are template ids (the current storage format) and every id resolves, the same templates
  are returned and nothing is drawn or written. Otherwise (no assignment, another day, the
  old format of whole templates, an empty list, an id that no longer resolves, whose
  \<open>throw\<close> the inner \<open>catch\<close> swallows) two quests per rotating category are drawn with
  \<open>getRandomQuests\<close> and their ids stored under today's date.

  The handler threads the random generator: it returns the response, the collection and
  the generator state after the request.
\<close>

record assign_ok =
  resp_message :: string
  assignedQuests_resp :: "quest_template list"

text \<open>\<open>storedQuests.map(qid => getQuestTemplateById(qid))\<close>: an old-format entry is an
  object, which no template id equals, so its lookup throws like a missing id.\<close>

primrec resolve_stored :: "catalog \<Rightarrow> stored_quest \<Rightarrow> quest_template option" where
  "resolve_stored c (StoredId i) = getQuestTemplateById c i"
| "resolve_stored c (StoredObject q) = None"

text \<open>Lines 53--77: the stored assignment, when it can be served as it is.\<close>

definition existing_assignment :: "catalog \<Rightarrow> user_doc \<Rightarrow> day \<Rightarrow> quest_template list option" where
  "existing_assignment c u today =
     (case assignedQuests u of
        None \<Rightarrow> None
      | Some a \<Rightarrow>
          if date a = today
          then (case quests a of
                  StoredId _ # _ \<Rightarrow> those (map (resolve_stored c) (quests a))
                | _ \<Rightarrow> None)
          else None)"

text \<open>Lines 80--90: two quests of each rotating category, in the source's order.\<close>

definition draw_quests :: "catalog \<Rightarrow> (rng, quest_template list) state" where
  "draw_quests c =
     do {
       agilityQuests \<leftarrow> getRandomQuests (AGILITY_QUESTS c) 2;
       vitalityQuests \<leftarrow> getRandomQuests (VITALITY_QUESTS c) 2;
       intelligenceQuests \<leftarrow> getRandomQuests (INTELLIGENCE_QUESTS c) 2;
       senseQuests \<leftarrow> getRandomQuests (SENSE_QUESTS c) 2;
       State_Monad.return (agilityQuests @ vitalityQuests @ intelligenceQuests @ senseQuests)
     }"

text \<open>\<open>$set: {assignedQuests: {date: todayDateString, quests: questIds}}\<close> (lines 96--106).\<close>

definition store_assignment :: "day \<Rightarrow> quest_template list \<Rightarrow> user_doc \<Rightarrow> user_doc" where
  "store_assignment today qs u =
     u\<lparr>assignedQuests := Some \<lparr>date = today, quests = map (StoredId \<circ> quest_id) qs\<rparr>\<rparr>"

definition assign_POST ::
  "catalog \<Rightarrow> string option \<Rightarrow> timestamp \<Rightarrow> users \<Rightarrow> rng \<Rightarrow> (assign_ok response \<times> users) \<times> rng" where
  "assign_POST c sess now db s =
     (case sess of
        None \<Rightarrow> ((ErrorResp 401 ''Unauthorized'', db), s)
      | Some uid \<Rightarrow>
          (case findOne_by_id uid db of
             None \<Rightarrow> ((ErrorResp 404 ''User not found'', db), s)
           | Some u \<Rightarrow>
               (case existing_assignment c u (toDateString now) of
                  Some qs \<Rightarrow>
                    ((OkResp 200 \<lparr>resp_message = ''Returning existing assigned quests'',
                                  assignedQuests_resp = qs\<rparr>, db), s)
                | None \<Rightarrow>
                    (case run_state (draw_quests c) s of
                       (newQs, s') \<Rightarrow>
                         (case updateOne_by_id uid (store_assignment (toDateString now) newQs) db of
                            (db', n) \<Rightarrow>
                              if n = 0 then ((ErrorResp 500 ''Failed to assign quests'', db'), s')
                              else ((OkResp 200 \<lparr>resp_message = ''New quests assigned successfully'',
                                                assignedQuests_resp = newQs\<rparr>, db'), s'))))))"

section \<open>The draw\<close>

lemma run_draw_quests:
  "fst (run_state (draw_quests c) s) =
     fst (run_state (getRandomQuests (AGILITY_QUESTS c) 2) s) @
     fst (run_state (getRandomQuests (VITALITY_QUESTS c) 2)
           (snd (run_state (getRandomQuests (AGILITY_QUESTS c) 2) s))) @
     fst (run_state (getRandomQuests (INTELLIGENCE_QUESTS c) 2)
           (snd (run_state (getRandomQuests (VITALITY_QUESTS c) 2)
             (snd (run_state (getRandomQuests (AGILITY_QUESTS c) 2) s))))) @
     fst (run_state (getRandomQuests (SENSE_QUESTS c) 2)
           (snd (run_state (getRandomQuests (INTELLIGENCE_QUESTS c) 2)
             (snd (run_state (getRandomQuests (VITALITY_QUESTS c) 2)
               (snd (run_state (getRandomQuests (AGILITY_QUESTS c) 2) s)))))))"
  by (simp add: draw_quests_def split: prod.splits)

lemma draw_quests_in_catalog:
  "set (fst (run_state (draw_quests c) s)) \<subseteq> set (all_rotating_quests c)"
  using set_getRandomQuests [of "AGILITY_QUESTS c"] set_getRandomQuests [of "VITALITY_QUESTS c"]
    set_getRandomQuests [of "INTELLIGENCE_QUESTS c"] set_getRandomQuests [of "SENSE_QUESTS c"]
  by (simp add: run_draw_quests all_rotating_quests_def) blast

lemma getRandomQuests_nonempty:
  "xs \<noteq> [] \<Longrightarrow> fst (run_state (getRandomQuests xs 2) s) \<noteq> []"
  using getRandomQuests_length [of 2 xs s] by (cases xs) auto

lemma draw_quests_nonempty:
  "all_rotating_quests c \<noteq> [] \<Longrightarrow> fst (run_state (draw_quests c) s) \<noteq> []"
  by (auto simp: run_draw_quests all_rotating_quests_def dest: getRandomQuests_nonempty)

section \<open>Serving a stored assignment\<close>

lemma those_map_Some:
  "(\<And>x. x \<in> set xs \<Longrightarrow> f x = Some (g x)) \<Longrightarrow> those (map f xs) = Some (map g xs)"
  by (induction xs) auto

text \<open>An assignment stored by this route resolves to the templates that were drawn.\<close>

lemma existing_assignment_stored:
  assumes wf: "catalog_wf c" and sub: "set qs \<subseteq> set (all_rotating_quests c)" and ne: "qs \<noteq> []"
  shows "existing_assignment c (store_assignment today qs u) today = Some qs"
proof -
  have "resolve_stored c ((StoredId \<circ> quest_id) q) = Some q" if "q \<in> set qs" for q
    using that sub getQuestTemplateById_member [OF wf] by auto
  then have "those (map (resolve_stored c) (map (StoredId \<circ> quest_id) qs)) = Some qs"
    using those_map_Some [of qs "resolve_stored c \<circ> (StoredId \<circ> quest_id)" id] by simp
  with ne show ?thesis
    by (cases qs) (simp_all add: existing_assignment_def store_assignment_def)
qed

lemma store_assignment_id [simp]: "doc_id (store_assignment d qs u) = doc_id u"
  by (simp add: store_assignment_def)

lemma assign_POST_existing:
  "findOne_by_id uid db = Some u \<Longrightarrow> existing_assignment c u (toDateString now) = Some qs \<Longrightarrow>
   assign_POST c (Some uid) now db s =
     ((OkResp 200 \<lparr>resp_message = ''Returning existing assigned quests'', assignedQuests_resp = qs\<rparr>, db), s)"
  by (simp add: assign_POST_def)

lemma assign_POST_ok_inv:
  assumes "assign_POST c (Some uid) now db s = ((OkResp st v, db'), s')"
  shows "\<exists>u. findOne_by_id uid db = Some u \<and>
     ((existing_assignment c u (toDateString now) = Some (assignedQuests_resp v) \<and> db' = db) \<or>
      (existing_assignment c u (toDateString now) = None \<and>
       assignedQuests_resp v = fst (run_state (draw_quests c) s) \<and>
       db' = fst (updateOne_by_id uid (store_assignment (toDateString now) (assignedQuests_resp v)) db)))"
  using assms
  by (auto simp: assign_POST_def split: option.splits prod.splits if_splits)

lemma assign_POST_drawn:
  assumes "findOne_by_id uid db = Some u" and "existing_assignment c u (toDateString now) = None"
    and "store_assignment (toDateString now) (fst (run_state (draw_quests c) s)) u \<noteq> u"
  shows "assign_POST c (Some uid) now db s =
    ((OkResp 200 \<lparr>resp_message = ''New quests assigned successfully'',
                  assignedQuests_resp = fst (run_state (draw_quests c) s)\<rparr>,
      fst (updateOne_by_id uid (store_assignment (toDateString now) (fst (run_state (draw_quests c) s))) db)),
     snd (run_state (draw_quests c) s))"
proof -
  obtain qs s' where r: "run_state (draw_quests c) s = (qs, s')" by (cases "run_state (draw_quests c) s")
  let ?f = "store_assignment (toDateString now) qs"
  obtain db' n where eq: "updateOne_by_id uid ?f db = (db', n)" by (cases "updateOne_by_id uid ?f db")
  have "snd (updateOne_by_id uid ?f db) = 1" using assms r by (simp add: updateOne_modified)
  with eq have "n = 1" by simp
  with assms eq r show ?thesis by (simp add: assign_POST_def)
qed

lemma getRandomQuests_of_stat:
  "cat_list_ok k xs \<Longrightarrow> \<forall>q \<in> set (fst (run_state (getRandomQuests xs n) s)). stat q = k"
  using set_getRandomQuests [of xs n s] by (auto simp: cat_list_ok_def list_all_iff)

text \<open>A fresh draw from categories of at least two quests: eight distinct templates, two of each rotating stat.\<close>

lemma draw_quests_shape:
  assumes wf: "catalog_wf c" and "2 \<le> length (AGILITY_QUESTS c)" "2 \<le> length (VITALITY_QUESTS c)"
    "2 \<le> length (INTELLIGENCE_QUESTS c)" "2 \<le> length (SENSE_QUESTS c)"
  shows "length (fst (run_state (draw_quests c) s)) = 8 \<and> distinct (fst (run_state (draw_quests c) s)) \<and>
    length (filter (\<lambda>q. stat q = Agility) (fst (run_state (draw_quests c) s))) = 2 \<and>
    length (filter (\<lambda>q. stat q = Vitality) (fst (run_state (draw_quests c) s))) = 2 \<and>
    length (filter (\<lambda>q. stat q = Intelligence) (fst (run_state (draw_quests c) s))) = 2 \<and>
    length (filter (\<lambda>q. stat q = Sense) (fst (run_state (draw_quests c) s))) = 2"
proof -
  define sA where "sA = snd (run_state (getRandomQuests (AGILITY_QUESTS c) 2) s)"
  define sV where "sV = snd (run_state (getRandomQuests (VITALITY_QUESTS c) 2) sA)"
  define sI where "sI = snd (run_state (getRandomQuests (INTELLIGENCE_QUESTS c) 2) sV)"
  define A where "A = fst (run_state (getRandomQuests (AGILITY_QUESTS c) 2) s)"
  define V where "V = fst (run_state (getRandomQuests (VITALITY_QUESTS c) 2) sA)"
  define I where "I = fst (run_state (getRandomQuests (INTELLIGENCE_QUESTS c) 2) sV)"
  define S where "S = fst (run_state (getRandomQuests (SENSE_QUESTS c) 2) sI)"
  have draw: "fst (run_state (draw_quests c) s) = A @ V @ I @ S"
    by (simp add: run_draw_quests A_def V_def I_def S_def sA_def sV_def sI_def)
  have len: "length A = 2" "length V = 2" "length I = 2" "length S = 2"
    using assms(2) getRandomQuests_length [of 2 "AGILITY_QUESTS c" s]
      assms(3) getRandomQuests_length [of 2 "VITALITY_QUESTS c" sA]
      assms(4) getRandomQuests_length [of 2 "INTELLIGENCE_QUESTS c" sV]
      assms(5) getRandomQuests_length [of 2 "SENSE_QUESTS c" sI]
    by (simp_all add: A_def V_def I_def S_def)
  have "mset (A @ V @ I @ S) \<subseteq># mset (all_rotating_quests c)"
    using getRandomQuests_sub [of "AGILITY_QUESTS c" 2 s] getRandomQuests_sub [of "VITALITY_QUESTS c" 2 sA]
      getRandomQuests_sub [of "INTELLIGENCE_QUESTS c" 2 sV] getRandomQuests_sub [of "SENSE_QUESTS c" 2 sI]
    by (simp add: A_def V_def I_def S_def all_rotating_quests_def subset_mset.add_mono)
  moreover have "distinct (all_rotating_quests c)"
    using wf by (simp add: catalog_wf_def distinct_map)
  ultimately have dist: "distinct (A @ V @ I @ S)" by (rule distinct_mset_sub)
  have ok: "cat_list_ok Agility (AGILITY_QUESTS c)" "cat_list_ok Vitality (VITALITY_QUESTS c)"
      "cat_list_ok Intelligence (INTELLIGENCE_QUESTS c)" "cat_list_ok Sense (SENSE_QUESTS c)"
    using wf by (simp_all add: catalog_wf_def)
  have st: "\<forall>q \<in> set A. stat q = Agility" "\<forall>q \<in> set V. stat q = Vitality"
      "\<forall>q \<in> set I. stat q = Intelligence" "\<forall>q \<in> set S. stat q = Sense"
    unfolding A_def V_def I_def S_def using ok by (simp_all add: getRandomQuests_of_stat)
  show ?thesis
    unfolding draw using len dist st by (simp add: filter_True filter_False)
qed

lemma sample_assign_first:
  "assign_POST sample_catalog (Some ''u1'') 1728000000000 [sample_user] (sconst 0) =
    ((OkResp 200 \<lparr>resp_message = ''New quests assigned successfully'',
                  assignedQuests_resp = fst (run_state (draw_quests sample_catalog) (sconst 0))\<rparr>,
      fst (updateOne_by_id ''u1'' (store_assignment (toDateString 1728000000000)
        (fst (run_state (draw_quests sample_catalog) (sconst 0)))) [sample_user])),
     snd (run_state (draw_quests sample_catalog) (sconst 0)))"
  by (rule assign_POST_drawn [where u = sample_user])
    (simp_all add: findOne_by_id_def sample_user_def existing_assignment_def store_assignment_def)

lemma sample_catalog_nonempty: "all_rotating_quests sample_catalog \<noteq> []"
  by (simp add: all_rotating_quests_def sample_catalog_def)

section \<open>Properties of the assignment route\<close>

text \<open>
  C18. Assignment is idempotent within a calendar day: after a successful assignment, a
  second request on the same day, whatever the random values, returns the identical ordered
  list of templates, writes nothing and draws nothing (for a well-formed, non-empty catalog).
\<close>

theorem assign_idempotent_same_day:
  assumes wf: "catalog_wf c" and ne: "all_rotating_quests c \<noteq> []"
    and first: "assign_POST c (Some uid) t1 db s1 = ((OkResp st1 v1, db1), s1')"
    and day: "toDateString t2 = toDateString t1"
  shows "assign_POST c (Some uid) t2 db1 s2 =
    ((OkResp 200 \<lparr>resp_message = ''Returning existing assigned quests'',
                  assignedQuests_resp = assignedQuests_resp v1\<rparr>, db1), s2)"
proof -
  obtain u where u: "findOne_by_id uid db = Some u" and
    cases: "(existing_assignment c u (toDateString t1) = Some (assignedQuests_resp v1) \<and> db1 = db) \<or>
      (existing_assignment c u (toDateString t1) = None \<and>
       assignedQuests_resp v1 = fst (run_state (draw_quests c) s1) \<and>
       db1 = fst (updateOne_by_id uid (store_assignment (toDateString t1) (assignedQuests_resp v1)) db))"
    using assign_POST_ok_inv [OF first] by blast
  show ?thesis
  proof (cases "db1 = db \<and> existing_assignment c u (toDateString t1) = Some (assignedQuests_resp v1)")
    case True
    with u day show ?thesis by (simp add: assign_POST_existing)
  next
    case False
    with cases have none: "assignedQuests_resp v1 = fst (run_state (draw_quests c) s1)"
      and db1: "db1 = fst (updateOne_by_id uid (store_assignment (toDateString t1) (assignedQuests_resp v1)) db)"
      by auto
    have found: "findOne_by_id uid db1 = Some (store_assignment (toDateString t1) (assignedQuests_resp v1) u)"
      using u db1 by (simp add: updateOne_find_self)
    have "existing_assignment c (store_assignment (toDateString t1) (assignedQuests_resp v1) u)
        (toDateString t1) = Some (assignedQuests_resp v1)"
      using none wf draw_quests_in_catalog [of c s1] draw_quests_nonempty [OF ne, of s1]
      by (simp add: existing_assignment_stored)
    with found day show ?thesis by (simp add: assign_POST_existing)
  qed
qed

theorem assign_idempotent_same_day_witness:
  "\<exists>v1 db1 s1'. assign_POST sample_catalog (Some ''u1'') 1728000000000 [sample_user] (sconst 0) =
      ((OkResp 200 v1, db1), s1') \<and>
    assign_POST sample_catalog (Some ''u1'') 1728050000000 db1 (sconst 7) =
      ((OkResp 200 \<lparr>resp_message = ''Returning existing assigned quests'',
                    assignedQuests_resp = assignedQuests_resp v1\<rparr>, db1), sconst 7)"
proof -
  have "toDateString 1728050000000 = toDateString 1728000000000"
    by (simp add: toDateString_def ms_per_day_def)
  with assign_idempotent_same_day [OF sample_catalog_wf sample_catalog_nonempty sample_assign_first]
  show ?thesis using sample_assign_first by blast
qed

text \<open>
  C19. Without a usable assignment for today, the route draws and returns eight distinct
  templates, two of each rotating stat (when each category has at least two templates).
\<close>

theorem assign_fresh_draw_shape:
  assumes wf: "catalog_wf c" and "2 \<le> length (AGILITY_QUESTS c)" "2 \<le> length (VITALITY_QUESTS c)"
    "2 \<le> length (INTELLIGENCE_QUESTS c)" "2 \<le> length (SENSE_QUESTS c)"
    and u: "findOne_by_id uid db = Some u" and none: "existing_assignment c u (toDateString now) = None"
    and ok: "assign_POST c (Some uid) now db s = ((OkResp st v, db'), s')"
  shows "length (assignedQuests_resp v) = 8 \<and> distinct (assignedQuests_resp v) \<and>
    length (filter (\<lambda>q. stat q = Agility) (assignedQuests_resp v)) = 2 \<and>
    length (filter (\<lambda>q. stat q = Vitality) (assignedQuests_resp v)) = 2 \<and>
    length (filter (\<lambda>q. stat q = Intelligence) (assignedQuests_resp v)) = 2 \<and>
    length (filter (\<lambda>q. stat q = Sense) (assignedQuests_resp v)) = 2"
proof -
  have "assignedQuests_resp v = fst (run_state (draw_quests c) s)"
    using assign_POST_ok_inv [OF ok] u none by auto
  with draw_quests_shape [OF assms(1-5), of s] show ?thesis by simp
qed

theorem assign_fresh_draw_shape_witness:
  "\<exists>v db' s'. assign_POST sample_catalog (Some ''u1'') 1728000000000 [sample_user] (sconst 0) =
      ((OkResp 200 v, db'), s') \<and>
    length (assignedQuests_resp v) = 8 \<and> distinct (assignedQuests_resp v) \<and>
    length (filter (\<lambda>q. stat q = Agility) (assignedQuests_resp v)) = 2"
proof -
  have l: "2 \<le> length (AGILITY_QUESTS sample_catalog)" "2 \<le> length (VITALITY_QUESTS sample_catalog)"
    "2 \<le> length (INTELLIGENCE_QUESTS sample_catalog)" "2 \<le> length (SENSE_QUESTS sample_catalog)"
    by (simp_all add: sample_catalog_def)
  have u: "findOne_by_id ''u1'' [sample_user] = Some sample_user"
    by (simp add: findOne_by_id_def sample_user_def)
  have n: "existing_assignment sample_catalog sample_user (toDateString 1728000000000) = None"
    by (simp add: existing_assignment_def sample_user_def)
  from assign_fresh_draw_shape [OF sample_catalog_wf l u n sample_assign_first]
  show ?thesis using sample_assign_first by auto
qed

text \<open>
  C20. For an existing user and a well-formed, non-empty catalog, assignment always
  succeeds: the \<open>Failed to assign quests\<close> branch (\<open>modifiedCount === 0\<close>) is unreachable,
  because an update that changes nothing would store an assignment the route serves as it is.
\<close>

theorem assign_existing_user_succeeds:
  assumes wf: "catalog_wf c" and ne: "all_rotating_quests c \<noteq> []"
    and u: "findOne_by_id uid db = Some u"
  shows "\<exists>v db' s'. assign_POST c (Some uid) now db s = ((OkResp 200 v, db'), s')"
proof (cases "existing_assignment c u (toDateString now)")
  case (Some qs)
  with u show ?thesis by (simp add: assign_POST_existing)
next
  case None
  let ?qs = "fst (run_state (draw_quests c) s)"
  have "store_assignment (toDateString now) ?qs u \<noteq> u"
  proof
    assume eq: "store_assignment (toDateString now) ?qs u = u"
    have "existing_assignment c (store_assignment (toDateString now) ?qs u) (toDateString now) = Some ?qs"
      using wf draw_quests_in_catalog [of c s] draw_quests_nonempty [OF ne, of s]
      by (simp add: existing_assignment_stored)
    with eq None show False by simp
  qed
  with assign_POST_drawn [OF u None] show ?thesis by simp
qed

theorem assign_existing_user_succeeds_witness:
  "\<exists>v db' s'. assign_POST sample_catalog (Some ''u1'') 1728000000000 [sample_user] (sconst 0) =
      ((OkResp 200 v, db'), s')"
proof -
  have u: "findOne_by_id ''u1'' [sample_user] = Some sample_user"
    by (simp add: findOne_by_id_def sample_user_def)
  show ?thesis by (rule assign_existing_user_succeeds [OF sample_catalog_wf sample_catalog_nonempty u])
qed

end
