(* ===== verification/Register_Route.thy ===== *)
theory Register_Route
  imports User_Store
begin

text \<open>
  Credential registration: \<open>POST\<close> of \<open>health-leveling/src/app/api/auth/register/route.ts\<close>.
  The body must carry a non-empty email and password; the email must match
  \<open>/^[^\s@]+@[^\s@]+\.[^\s@]+$/\<close>, the password have at least six characters, and no user
  document may carry the email yet. The new document holds the bcrypt hash, \<open>level: 1\<close>
  and \<open>xp: 0\<close>. The hash function is a parameter (bcrypt is a library), and so is the
  \<open>ObjectId\<close> the driver generates; inserting an id that exists fails with the driver's
  duplicate-key error, which the route's \<open>catch\<close> turns into status 500.
  String lengths count the model's characters (JavaScript counts UTF-16 code units).
\<close>

record register_body =
  reg_email :: "string option"
  reg_password :: "string option"

record register_ok =
  reg_message :: string
  userId :: string

section \<open>The email pattern\<close>

text \<open>\<open>[^\s@]\<close>\<close>

definition email_plain :: "char \<Rightarrow> bool" where
  "email_plain ch \<longleftrightarrow> \<not> js_space ch \<and> ch \<noteq> CHR ''@''"

text \<open>
  \<open>emailRegex.test(email)\<close>, decided without backtracking: the text before the only
  \<open>@\<close> is non-empty, and the text after it has a dot with a character on each side.
\<close>

definition emailRegex_test :: "string \<Rightarrow> bool" where
  "emailRegex_test s =
     (case dropWhile (\<lambda>ch. ch \<noteq> CHR ''@'') s of
        [] \<Rightarrow> False
      | _ # r \<Rightarrow>
          (let l = takeWhile (\<lambda>ch. ch \<noteq> CHR ''@'') s
           in l \<noteq> [] \<and> list_all email_plain l \<and> list_all email_plain r \<and>
              CHR ''.'' \<in> set (butlast (tl r))))"

text \<open>The language of the regular expression, as the reference the decision is checked against.\<close>

definition email_regex_lang :: "string \<Rightarrow> bool" where
  "email_regex_lang s \<longleftrightarrow>
     (\<exists>l d1 d2. s = l @ CHR ''@'' # d1 @ CHR ''.'' # d2 \<and> l \<noteq> [] \<and> d1 \<noteq> [] \<and> d2 \<noteq> [] \<and>
        list_all email_plain l \<and> list_all email_plain d1 \<and> list_all email_plain d2)"

section \<open>The handler\<close>

definition registered_user :: "string \<Rightarrow> string \<Rightarrow> string \<Rightarrow> timestamp \<Rightarrow> user_doc" where
  "registered_user oid e hashed now =
     \<lparr>doc_id = oid, email = e, password = Some hashed, displayName = Some [], username = None,
      hasSetUsername = None, doc_level = Some 1, totalXP = None, xp = Some 0, stats = None,
      streakDays = None, lastQuestDate = None, questsCompletedToday = None,
      hasCompletedDailyStrength = None, assignedQuests = None, createdAt = Some now\<rparr>"

definition register_POST ::
  "(string \<Rightarrow> string) \<Rightarrow> string \<Rightarrow> register_body option \<Rightarrow> timestamp \<Rightarrow> users \<Rightarrow>
   register_ok response \<times> users" where
  "register_POST hash oid body now db =
     (case body of
        None \<Rightarrow> (ErrorResp 500 ''Internal server error'', db)
      | Some b \<Rightarrow>
          (case (reg_email b, reg_password b) of
             (Some e, Some p) \<Rightarrow>
               if e = [] \<or> p = [] then (ErrorResp 400 ''Missing email or password'', db)
               else if \<not> emailRegex_test e then (ErrorResp 400 ''Invalid email format'', db)
               else if length p < 6 then (ErrorResp 400 ''Password must be at least 6 characters'', db)
               else if find (\<lambda>d. email d = e) db \<noteq> None then (ErrorResp 409 ''User already exists!'', db)
               else if oid \<in> doc_id ` set db then (ErrorResp 500 ''Internal server error'', db)
               else (OkResp 201 \<lparr>reg_message = ''User registered successfully'', userId = oid\<rparr>,
                     insertOne (registered_user oid e (hash p) now) db)
           | _ \<Rightarrow> (ErrorResp 400 ''Missing email or password'', db)))"

section \<open>The email check decides the pattern\<close>

lemma email_split_at:
  assumes "list_all email_plain l"
  shows "takeWhile (\<lambda>ch. ch \<noteq> CHR ''@'') (l @ CHR ''@'' # r) = l"
    and "dropWhile (\<lambda>ch. ch \<noteq> CHR ''@'') (l @ CHR ''@'' # r) = CHR ''@'' # r"
  using assms by (simp_all add: list_all_iff email_plain_def takeWhile_append2 dropWhile_append2)

lemma emailRegex_test_sound: "emailRegex_test s \<Longrightarrow> email_regex_lang s"
proof -
  assume t: "emailRegex_test s"
  obtain x r where dw: "dropWhile (\<lambda>ch. ch \<noteq> CHR ''@'') s = x # r"
    using t by (cases "dropWhile (\<lambda>ch. ch \<noteq> CHR ''@'') s") (simp_all add: emailRegex_test_def)
  define l where "l = takeWhile (\<lambda>ch. ch \<noteq> CHR ''@'') s"
  have x: "x = CHR ''@''" using hd_dropWhile [of "\<lambda>ch. ch \<noteq> CHR ''@''" s] dw by simp
  have s: "s = l @ CHR ''@'' # r" using takeWhile_dropWhile_id [of "\<lambda>ch. ch \<noteq> CHR ''@''" s] dw x
    by (simp add: l_def)
  from t dw have l: "l \<noteq> []" "list_all email_plain l" and r: "list_all email_plain r"
    and dot: "CHR ''.'' \<in> set (butlast (tl r))"
    by (simp_all add: emailRegex_test_def l_def Let_def)
  obtain m1 m2 where m: "butlast (tl r) = m1 @ CHR ''.'' # m2" using dot by (metis split_list)
  have tne: "tl r \<noteq> []" using m by auto
  then have rne: "r \<noteq> []" by auto
  have tl: "tl r = m1 @ CHR ''.'' # m2 @ [last (tl r)]"
    using append_butlast_last_id [OF tne] m by simp
  have rr: "r = hd r # m1 @ CHR ''.'' # (m2 @ [last (tl r)])"
    using rne tl by (metis list.collapse)
  have "list_all email_plain (hd r # m1) \<and> list_all email_plain (m2 @ [last (tl r)])"
    using r by (subst (asm) rr) simp
  with l rr s show ?thesis unfolding email_regex_lang_def
    by (intro exI [of _ l] exI [of _ "hd r # m1"] exI [of _ "m2 @ [last (tl r)]"]) simp
qed

lemma emailRegex_test_complete: "email_regex_lang s \<Longrightarrow> emailRegex_test s"
proof -
  assume "email_regex_lang s"
  then obtain l d1 d2 where s: "s = l @ CHR ''@'' # d1 @ CHR ''.'' # d2" and ne: "l \<noteq> []" "d1 \<noteq> []" "d2 \<noteq> []"
    and p: "list_all email_plain l" "list_all email_plain d1" "list_all email_plain d2"
    unfolding email_regex_lang_def by blast
  have dot: "email_plain (CHR ''.'')" by (simp add: email_plain_def js_space_def)
  have "CHR ''.'' \<in> set (butlast (tl (d1 @ CHR ''.'' # d2)))"
    using ne(2,3) by (cases d1) (simp_all add: butlast_append)
  with ne p dot show ?thesis
    by (simp add: emailRegex_test_def s email_split_at)
qed
lemma register_POST_ok:
  "register_POST hash oid body now db = (OkResp st v, db') \<Longrightarrow>
   \<exists>b e p. body = Some b \<and> reg_email b = Some e \<and> reg_password b = Some p \<and> e \<noteq> [] \<and>
     emailRegex_test e \<and> 6 \<le> length p \<and> find (\<lambda>d. email d = e) db = None \<and>
     oid \<notin> doc_id ` set db \<and> st = 201 \<and> userId v = oid \<and>
     db' = insertOne (registered_user oid e (hash p) now) db"
  by (auto simp: register_POST_def split: option.splits prod.splits if_splits)

text \<open>
  The document registration inserts does not have the type \<open>UserDocument\<close> declares: it
  lacks \<open>totalXP\<close>, \<open>stats\<close> and the per-day fields, which the type makes required.
\<close>

lemma registered_user_not_UserDocument: "\<not> is_UserDocument (registered_user oid e h t)"
  by (simp add: is_UserDocument_def registered_user_def)

lemma register_POST_error:
  "register_POST hash oid body now db = (ErrorResp st m, db') \<Longrightarrow> db' = db"
  by (auto simp: register_POST_def split: option.splits prod.splits if_splits)

section \<open>Properties of registration\<close>

text \<open>
  The route's email check accepts exactly the strings of the pattern
  \<open>/^[^\s@]+@[^\s@]+\.[^\s@]+$/\<close>: a non-empty local part and a domain with a dot that
  has a character on each side, none of them white space or \<open>@\<close>.
\<close>

theorem emailRegex_test_iff: "emailRegex_test s \<longleftrightarrow> email_regex_lang s"
  using emailRegex_test_sound emailRegex_test_complete by blast

text \<open>
  C23. A registration whose email does not match the pattern is refused with status 400 and
  writes nothing (for a non-empty email and password).
\<close>

theorem register_rejects_bad_email:
  assumes "reg_email b = Some e" and "reg_password b = Some p" and "e \<noteq> []" and "p \<noteq> []"
    and "\<not> email_regex_lang e"
  shows "register_POST hash oid (Some b) now db = (ErrorResp 400 ''Invalid email format'', db)"
proof -
  have "\<not> emailRegex_test e" using assms(5) emailRegex_test_sound by blast
  with assms(1-4) show ?thesis by (simp add: register_POST_def)
qed

theorem register_rejects_bad_email_witness:
  "\<not> email_regex_lang ''hunter@mail'' \<and>
   register_POST id ''r1'' (Some \<lparr>reg_email = Some ''hunter@mail'', reg_password = Some ''secret1''\<rparr>)
     0 [] = (ErrorResp 400 ''Invalid email format'', [])"
proof -
  have n: "\<not> email_regex_lang ''hunter@mail''"
  proof
    assume "email_regex_lang ''hunter@mail''"
    then have "emailRegex_test ''hunter@mail''" by (rule emailRegex_test_complete)
    then show False by (simp add: emailRegex_test_def email_plain_def js_space_def)
  qed
  have "register_POST id ''r1'' (Some \<lparr>reg_email = Some ''hunter@mail'', reg_password = Some ''secret1''\<rparr>)
     0 [] = (ErrorResp 400 ''Invalid email format'', [])"
    by (rule register_rejects_bad_email [where e = "''hunter@mail''" and p = "''secret1''", OF _ _ _ _ n])
      simp_all
  with n show ?thesis by blast
qed

end
