(* ===== verification/Username_Route.thy ===== *)
theory Username_Route
  imports User_Store
begin

text \<open>
  Choosing a username: \<open>POST\<close> of \<open>health-leveling/src/app/api/user/username/route.ts\<close>,
  and the client-side check \<open>validateUsername\<close> of
  \<open>health-leveling/src/app/username-setup/page.tsx\<close>. The route trims the name, requires
  1 to 10 characters of \<open>[a-zA-Z0-9_]\<close>, refuses a name that some document already
  carries up to letter case (\<open>findOne\<close> with the anchored, case-insensitive pattern
  \<open>^name$\<close>; the name has no pattern metacharacters, so the match is equality up to
  ASCII case), and stores it with \<open>hasSetUsername: true\<close>.
\<close>

record username_body =
  ub_username :: "string option"

record username_ok =
  resp_username :: string

text \<open>\<open>[a-zA-Z0-9_]\<close>\<close>

definition username_char :: "char \<Rightarrow> bool" where
  "username_char ch \<longleftrightarrow>
     (let n = of_char ch :: nat in
        (48 \<le> n \<and> n \<le> 57) \<or> (65 \<le> n \<and> n \<le> 90) \<or> (97 \<le> n \<and> n \<le> 122) \<or> n = 95)"

text \<open>Lines 26--35: the length check, then \<open>/^[a-zA-Z0-9_]+$/\<close>.\<close>

definition username_format_ok :: "string \<Rightarrow> bool" where
  "username_format_ok t \<longleftrightarrow> t \<noteq> [] \<and> length t \<le> 10 \<and> list_all username_char t"

text \<open>Case-insensitive comparison of the \<open>i\<close> flag on ASCII letters.\<close>

definition ascii_lower :: "char \<Rightarrow> char" where
  "ascii_lower ch = (let n = of_char ch :: nat in if 65 \<le> n \<and> n \<le> 90 then char_of (n + 32) else ch)"

definition ci_equal :: "string \<Rightarrow> string \<Rightarrow> bool" where
  "ci_equal s t \<longleftrightarrow> map ascii_lower s = map ascii_lower t"

text \<open>Lines 40--46: \<open>findOne({username: {$regex: new RegExp(`^${name}$`, 'i')}})\<close>.\<close>

definition username_taken :: "string \<Rightarrow> users \<Rightarrow> bool" where
  "username_taken t db =
     (find (\<lambda>d. case username d of None \<Rightarrow> False | Some n \<Rightarrow> ci_equal n t) db \<noteq> None)"

definition set_username :: "string \<Rightarrow> user_doc \<Rightarrow> user_doc" where
  "set_username t u = u\<lparr>username := Some t, hasSetUsername := Some True\<rparr>"

definition username_POST ::
  "string option \<Rightarrow> username_body option \<Rightarrow> users \<Rightarrow> username_ok response \<times> users" where
  "username_POST sess body db =
     (case sess of
        None \<Rightarrow> (ErrorResp 401 ''Not authenticated'', db)
      | Some uid \<Rightarrow>
          (case body of
             None \<Rightarrow> (ErrorResp 500 ''Internal server error'', db)
           | Some b \<Rightarrow>
               (case ub_username b of
                  None \<Rightarrow> (ErrorResp 400 ''Username is required'', db)
                | Some raw \<Rightarrow>
                    if raw = [] then (ErrorResp 400 ''Username is required'', db)
                    else
                      (let t = js_trim raw in
                       if length t = 0 \<or> length t > 10
                       then (ErrorResp 400 ''Username must be between 1-10 characters'', db)
                       else if \<not> list_all username_char t
                       then (ErrorResp 400 ''Username can only contain letters, numbers, and underscores'', db)
                       else if username_taken t db then (ErrorResp 400 ''Username already taken'', db)
                       else (case updateOne_by_id uid (set_username t) db of
                               (db', n) \<Rightarrow>
                                 if n = 0 then (ErrorResp 500 ''Failed to update username'', db')
                                 else (OkResp 200 \<lparr>resp_username = t\<rparr>, db'))))))"

text \<open>\<open>validateUsername\<close> of the setup page (lines 16--37): whether the submit button is enabled.\<close>

definition validateUsername :: "string \<Rightarrow> bool" where
  "validateUsername v =
     (if length v = 0 then False
      else if length v > 10 then False
      else list_all username_char v)"

section \<open>Facts\<close>

lemma username_char_not_space: "username_char ch \<Longrightarrow> \<not> js_space ch"
  by (auto simp: username_char_def js_space_def Let_def)

lemma js_trim_id: "list_all (\<lambda>ch. \<not> js_space ch) s \<Longrightarrow> js_trim s = s"
proof -
  assume h: "list_all (\<lambda>ch. \<not> js_space ch) s"
  have "dropWhile js_space s = s" using h by (cases s) auto
  moreover have "dropWhile js_space (rev s) = rev s" using h by (cases "rev s") (auto simp: list_all_iff)
  ultimately show ?thesis by (simp add: js_trim_def)
qed

lemma set_username_id [simp]: "doc_id (set_username t u) = doc_id u"
  by (simp add: set_username_def)

lemma username_POST_ok:
  "username_POST sess body db = (OkResp st v, db') \<Longrightarrow>
   \<exists>uid b u. sess = Some uid \<and> body = Some b \<and> findOne_by_id uid db = Some u \<and>
     username_format_ok (resp_username v) \<and> \<not> username_taken (resp_username v) db \<and>
     db' = fst (updateOne_by_id uid (set_username (resp_username v)) db) \<and> st = 200"
  by (auto simp: username_POST_def username_format_ok_def Let_def dest: updateOne_modified_found
      split: option.splits prod.splits if_splits)

lemma username_POST_error:
  "username_POST sess body db = (ErrorResp st m, db') \<Longrightarrow> db' = db"
  by (auto simp: username_POST_def Let_def dest: updateOne_unmodified_pair
      split: option.splits prod.splits if_splits)

lemma ci_equal_refl [simp]: "ci_equal t t"
  by (simp add: ci_equal_def)

lemma not_taken_iff:
  "\<not> username_taken t db \<longleftrightarrow> (\<forall>d \<in> set db. \<forall>n. username d = Some n \<longrightarrow> \<not> ci_equal n t)"
  by (auto simp: username_taken_def find_None_iff split: option.splits)

section \<open>Properties of the username route\<close>

text \<open>
  C24. The setup page enables submission exactly for the names the route's format checks
  accept unchanged: \<open>validateUsername v\<close> holds iff trimming leaves \<open>v\<close> as it is and
  \<open>v\<close> has 1 to 10 characters of \<open>[a-zA-Z0-9_]\<close>.
\<close>

theorem validateUsername_iff_server:
  "validateUsername v \<longleftrightarrow> js_trim v = v \<and> username_format_ok v"
proof
  assume "validateUsername v"
  then have f: "username_format_ok v"
    by (auto simp: validateUsername_def username_format_ok_def split: if_splits)
  then have "list_all (\<lambda>ch. \<not> js_space ch) v"
    by (auto simp: username_format_ok_def list_all_iff dest: username_char_not_space)
  with f show "js_trim v = v \<and> username_format_ok v" by (simp add: js_trim_id)
next
  assume "js_trim v = v \<and> username_format_ok v"
  then show "validateUsername v" by (auto simp: validateUsername_def username_format_ok_def)
qed

text \<open>
  C25. After a successful request, the requesting user's documents are the only ones whose
  username equals the new name up to letter case.
\<close>

theorem username_success_unique:
  assumes "username_POST (Some uid) body db = (OkResp st v, db')"
  shows "\<forall>d \<in> set db'. \<forall>n. username d = Some n \<longrightarrow> ci_equal n (resp_username v) \<longrightarrow> doc_id d = uid"
proof (intro ballI allI impI)
  fix d n assume d: "d \<in> set db'" and n: "username d = Some n" and ci: "ci_equal n (resp_username v)"
  obtain b u where upd: "db' = fst (updateOne_by_id uid (set_username (resp_username v)) db)"
    and free: "\<not> username_taken (resp_username v) db"
    using username_POST_ok [OF assms] by blast
  from d upd have "d \<in> set db \<or> (\<exists>d0 \<in> set db. doc_id d0 = uid \<and> d = set_username (resp_username v) d0)"
    by (simp add: updateOne_set_cases)
  then show "doc_id d = uid"
  proof
    assume "d \<in> set db"
    with free n ci show ?thesis by (auto simp: not_taken_iff)
  qed auto
qed

theorem username_success_unique_witness:
  "\<exists>st v db'. username_POST (Some ''u1'') (Some \<lparr>ub_username = Some '' Hunter_1 ''\<rparr>)
      [sample_user\<lparr>username := None\<rparr>] = (OkResp st v, db') \<and> resp_username v = ''Hunter_1'' \<and>
    (\<forall>d \<in> set db'. \<forall>n. username d = Some n \<longrightarrow> ci_equal n (resp_username v) \<longrightarrow> doc_id d = ''u1'')"
proof -
  have r: "username_POST (Some ''u1'') (Some \<lparr>ub_username = Some '' Hunter_1 ''\<rparr>)
      [sample_user\<lparr>username := None\<rparr>] =
      (OkResp 200 \<lparr>resp_username = ''Hunter_1''\<rparr>,
       [set_username ''Hunter_1'' (sample_user\<lparr>username := None\<rparr>)])"
    by (simp add: username_POST_def js_trim_def js_space_def username_char_def username_taken_def
        updateOne_by_id_def set_username_def sample_user_def Let_def)
  from username_success_unique [OF r] r show ?thesis by auto
qed

text \<open>
  C26. A user who submits the username they already carry (in any letter case) is refused
  with \<open>Username already taken\<close>: the uniqueness query also finds the user's own document.
\<close>

theorem username_resubmit_rejected:
  assumes "findOne_by_id uid db = Some u" and "username u = Some n" and "ci_equal n t"
    and "username_format_ok t"
  shows "username_POST (Some uid) (Some \<lparr>ub_username = Some t\<rparr>) db =
           (ErrorResp 400 ''Username already taken'', db)"
proof -
  have "u \<in> set db" using findOne_by_id_Some [OF assms(1)] by simp
  then have "username_taken t db"
    using assms(2,3) not_taken_iff [of t db] by blast
  moreover have "list_all (\<lambda>ch. \<not> js_space ch) t"
    using assms(4) by (auto simp: username_format_ok_def list_all_iff dest: username_char_not_space)
  ultimately show ?thesis using assms(4)
    by (simp add: username_POST_def username_format_ok_def js_trim_id)
qed

theorem username_resubmit_rejected_witness:
  "username_POST (Some ''u1'') (Some \<lparr>ub_username = Some ''HUNTER''\<rparr>) [sample_user] =
     (ErrorResp 400 ''Username already taken'', [sample_user])"
  apply (rule username_resubmit_rejected [where u = sample_user and n = "''hunter''"])
     apply (simp add: findOne_by_id_def sample_user_def)
    apply (simp add: sample_user_def)
   apply code_simp
  apply code_simp
  done

end
