(* ===== verification/Client.thy ===== *)
theory Client
  imports Complete_Route Initialize_Route Assign_Route Username_Route
begin

text \<open>
  The decision logic of the two client pages of \<open>solo-leveling\<close> that drive the routes:
  \<open>app/dashboard/page.tsx\<close> (where the daily set is ticked off and submitted) and
  \<open>app/quest/page.tsx\<close> (where individual quests are completed). Rendering is not modelled;
  each handler is a function from the page state and the route's response to the new page
  state, the request it sends and the navigation it triggers. A thrown exception that the
  handler's \<open>catch\<close> swallows is the case that changes nothing.
\<close>

section \<open>Dashboard\<close>

datatype dash_nav = ToUsernameSetup | ToQuest | ShowStats user_doc | DashStay

text \<open>
  \<open>initializeUser\<close> (lines 22--66): the decision taken on the initialise response. An error
  response is thrown (\<open>!response.ok\<close>) and caught; a missing \<open>userData\<close> makes the property
  access throw, which is caught as well.
\<close>

definition dashboard_init :: "init_ok response \<Rightarrow> dash_nav" where
  "dashboard_init r =
     (case r of
        ErrorResp _ _ \<Rightarrow> DashStay
      | OkResp _ d \<Rightarrow>
          (case userData d of
             None \<Rightarrow> DashStay
           | Some u \<Rightarrow>
               if hasSetUsername u \<noteq> Some True then ToUsernameSetup
               else if hasCompletedDailyStrength u = Some True then ToQuest
               else ShowStats u))"

text \<open>The toggle of \<open>handleQuestComplete\<close> (lines 70--72).\<close>

definition dash_toggle :: "string list \<Rightarrow> string \<Rightarrow> string list" where
  "dash_toggle cq qn = (if qn \<in> set cq then filter (\<lambda>n. n \<noteq> qn) cq else cq @ [qn])"

text \<open>
  \<open>handleQuestComplete(questName)\<close> (lines 68--104): the new ticked list and the completion
  request it sends when four names are ticked.
\<close>

definition handleQuestComplete :: "string list \<Rightarrow> string \<Rightarrow> string list \<times> complete_body option" where
  "handleQuestComplete cq qn =
     (let nc = dash_toggle cq qn
      in (nc, if length nc = 4
              then Some \<lparr>completedQuests = Some nc, questType = Some ''daily_strength''\<rparr>
              else None))"

text \<open>A sequence of clicks from the initial empty list: the final list and the requests sent.\<close>

fun dash_clicks :: "string list \<Rightarrow> string list \<Rightarrow> string list \<times> complete_body list" where
  "dash_clicks cq [] = (cq, [])"
| "dash_clicks cq (qn # qns) =
     (case handleQuestComplete cq qn of
        (nc, req) \<Rightarrow>
          (case dash_clicks nc qns of
             (cq', sent) \<Rightarrow> (cq', (case req of None \<Rightarrow> sent | Some b \<Rightarrow> b # sent))))"

text \<open>
  The response handling of \<open>handleQuestComplete\<close> (lines 90--99): on success the streak the
  server returned is shown with the success screen; otherwise nothing changes.
\<close>

definition dash_complete_result :: "int \<times> bool \<Rightarrow> complete_ok response \<Rightarrow> int \<times> bool" where
  "dash_complete_result sc r =
     (case r of OkResp _ v \<Rightarrow> (resp_streakDays v, True) | ErrorResp _ _ \<Rightarrow> sc)"

section \<open>Quest page\<close>

text \<open>
  \<open>fetchASsignedQuests\<close> (lines 56--85): the templates the page lists. The error branch
  reads the undefined \<open>currentUser\<close>; the \<open>ReferenceError\<close> is caught, so the list stays.
\<close>

definition quest_fetch_assigned :: "quest_template list \<Rightarrow> assign_ok response \<Rightarrow> quest_template list" where
  "quest_fetch_assigned prev r = (case r of OkResp _ v \<Rightarrow> assignedQuests_resp v | ErrorResp _ _ \<Rightarrow> prev)"

text \<open>
  \<open>fetchUserData\<close> (lines 87--108): the completed names and the daily flag the page keeps.
  An array, even empty, is truthy; reading \<open>data.userData\<close> of an error response or of a
  missing document throws and is caught.
\<close>

definition quest_fetch_user :: "string list \<times> bool \<Rightarrow> init_ok response \<Rightarrow> string list \<times> bool" where
  "quest_fetch_user st r =
     (case r of
        ErrorResp _ _ \<Rightarrow> st
      | OkResp _ d \<Rightarrow>
          (case userData d of
             None \<Rightarrow> st
           | Some u \<Rightarrow>
               ((case questsCompletedToday u of Some l \<Rightarrow> l | None \<Rightarrow> fst st),
                hasCompletedDailyStrength u = Some True)))"

text \<open>
  \<open>checkDailyStrength\<close> (lines 34--50): whether the page sends the user back to the dashboard.
  A missing \<open>userData\<close> throws, and the \<open>catch\<close> also redirects.
\<close>

definition quest_check_daily :: "init_ok response \<Rightarrow> bool" where
  "quest_check_daily r =
     (case r of
        ErrorResp _ _ \<Rightarrow> False
      | OkResp _ d \<Rightarrow>
          (case userData d of
             None \<Rightarrow> True
           | Some u \<Rightarrow> hasCompletedDailyStrength u \<noteq> Some True))"

text \<open>\<open>s.includes(t)\<close>\<close>

definition js_includes :: "string \<Rightarrow> string \<Rightarrow> bool" where
  "js_includes s t = list_ex (\<lambda>i. take (length t) (drop i s) = t) [0..<Suc (length s)]"

text \<open>The request of \<open>handleCompletedQuest\<close> (lines 114--125) for the selected quest.\<close>

definition quest_complete_request :: "string option \<Rightarrow> complete_body option" where
  "quest_complete_request sel =
     (case sel of
        None \<Rightarrow> None
      | Some q \<Rightarrow> Some \<lparr>completedQuests = Some [q], questType = Some ''individual''\<rparr>)"

text \<open>
  The response handling of \<open>handleCompletedQuest\<close> (lines 126--144): the new completed list,
  and whether the page redirects to the dashboard.
\<close>

definition quest_complete_result :: "string list \<Rightarrow> complete_ok response \<Rightarrow> string list \<times> bool" where
  "quest_complete_result cq r =
     (case r of
        OkResp _ v \<Rightarrow> (case resp_questsCompletedToday v of None \<Rightarrow> [] | Some l \<Rightarrow> l, False)
      | ErrorResp _ m \<Rightarrow> (cq, js_includes m ''daily'' \<or> js_includes m ''strength''))"

section \<open>Username setup page\<close>

datatype setup_nav = SetupToDashboard | SetupError string

text \<open>
  \<open>handleSubmit\<close> (lines 45--58): the request it sends, if any; the name is trimmed again.
\<close>

definition username_submit :: "bool \<Rightarrow> string \<Rightarrow> username_body option" where
  "username_submit isValid v =
     (if \<not> isValid \<or> js_trim v = [] then None else Some \<lparr>ub_username = Some (js_trim v)\<rparr>)"

text \<open>The response handling of \<open>handleSubmit\<close> (lines 60--65).\<close>

definition username_submit_result :: "username_ok response \<Rightarrow> setup_nav" where
  "username_submit_result r =
     (case r of
        OkResp _ _ \<Rightarrow> SetupToDashboard
      | ErrorResp _ m \<Rightarrow> SetupError (if m = [] then ''Failed to set username'' else m))"

section \<open>Facts\<close>

lemma distinct_dash_toggle: "distinct cq \<Longrightarrow> distinct (dash_toggle cq qn)"
  by (simp add: dash_toggle_def)

lemma set_dash_toggle: "set (dash_toggle cq qn) \<subseteq> insert qn (set cq)"
  by (auto simp: dash_toggle_def)

lemma dash_clicks_sent:
  "distinct cq \<Longrightarrow> set cq \<subseteq> N \<Longrightarrow> set qns \<subseteq> N \<Longrightarrow>
   b \<in> set (snd (dash_clicks cq qns)) \<Longrightarrow>
   \<exists>nc. b = \<lparr>completedQuests = Some nc, questType = Some ''daily_strength''\<rparr> \<and>
     distinct nc \<and> set nc \<subseteq> N \<and> length nc = 4"
proof (induction qns arbitrary: cq)
  case Nil
  then show ?case by simp
next
  case (Cons qn qns)
  let ?nc = "dash_toggle cq qn"
  have d: "distinct ?nc" using Cons.prems(1) by (rule distinct_dash_toggle)
  have s: "set ?nc \<subseteq> N" using set_dash_toggle [of cq qn] Cons.prems(2,3) by auto
  have IH: "b \<in> set (snd (dash_clicks ?nc qns)) \<Longrightarrow> ?case"
    using Cons.IH [OF d s] Cons.prems(3) by simp
  show ?case
    using Cons.prems(4) d s IH
    by (auto simp: handleQuestComplete_def Let_def split: prod.splits if_splits)
qed

lemma distinct_card_eq_set:
  assumes "distinct nc" "distinct ns" "set nc \<subseteq> set ns" "length nc = length ns"
  shows "set nc = set ns"
proof -
  have "card (set nc) = card (set ns)" using assms by (simp add: distinct_card)
  then show ?thesis using assms(3) by (simp add: card_subset_eq)
qed

lemma individual_error_messages:
  "fst (complete_POST c sess (Some \<lparr>completedQuests = qs, questType = Some ''individual''\<rparr>) now db) =
     ErrorResp st m \<Longrightarrow>
   m \<in> {''Unauthorized'', ''User not found'', ''Individual quest requires exactly 1 '',
         msg_quest_done, ''Failed to update user''}"
  by (auto simp: complete_POST_def complete_branch_def individual_branch_def Let_def
      split: option.splits sum.splits prod.splits if_splits)

section \<open>Properties of the client pages\<close>

text \<open>
  C31. Client and server agree on the daily set: when the catalog's four daily names are
  distinct, every request the dashboard sends, for any sequence of clicks on daily quest cards
  starting from nothing ticked, carries exactly four names and every daily name, which is
  what the completion route's two name checks require.
\<close>

theorem dashboard_sends_valid_daily_sets:
  assumes "distinct (map name (DAILY_STRENGTH_QUESTS c))" and "length (DAILY_STRENGTH_QUESTS c) = 4"
    and "set clicks \<subseteq> set (map name (DAILY_STRENGTH_QUESTS c))"
  shows "\<forall>b \<in> set (snd (dash_clicks [] clicks)).
           questType b = Some ''daily_strength'' \<and>
           (\<exists>qs. completedQuests b = Some qs \<and> length qs = 4 \<and> daily_names_ok c qs)"
proof
  fix b assume "b \<in> set (snd (dash_clicks [] clicks))"
  then obtain nc where b: "b = \<lparr>completedQuests = Some nc, questType = Some ''daily_strength''\<rparr>"
    and nc: "distinct nc" "set nc \<subseteq> set (map name (DAILY_STRENGTH_QUESTS c))" "length nc = 4"
    using dash_clicks_sent [of "[]" _ clicks b] assms(3) by auto
  have "set nc = set (map name (DAILY_STRENGTH_QUESTS c))"
    using distinct_card_eq_set [OF nc(1) assms(1) nc(2)] nc(3) assms(2) by simp
  then have "daily_names_ok c nc" by (simp add: daily_names_ok_def list_all_iff)
  with b nc(3) show "questType b = Some ''daily_strength'' \<and>
      (\<exists>qs. completedQuests b = Some qs \<and> length qs = 4 \<and> daily_names_ok c qs)" by simp
qed

theorem dashboard_sends_valid_daily_sets_witness:
  "snd (dash_clicks [] [''Push-ups'', ''Sit-ups'', ''Sit-ups'', ''Squats'', ''Run'', ''Sit-ups'']) =
     [\<lparr>completedQuests = Some [''Push-ups'', ''Squats'', ''Run'', ''Sit-ups''],
       questType = Some ''daily_strength''\<rparr>] \<and>
   daily_names_ok sample_catalog [''Push-ups'', ''Squats'', ''Run'', ''Sit-ups'']"
proof -
  have h: "distinct (map name (DAILY_STRENGTH_QUESTS sample_catalog))"
    "length (DAILY_STRENGTH_QUESTS sample_catalog) = 4"
    "set [''Push-ups'', ''Sit-ups'', ''Sit-ups'', ''Squats'', ''Run'', ''Sit-ups''] \<subseteq>
       set (map name (DAILY_STRENGTH_QUESTS sample_catalog))"
    by (simp_all add: sample_catalog_def mk_quest_def)
  have sent: "snd (dash_clicks [] [''Push-ups'', ''Sit-ups'', ''Sit-ups'', ''Squats'', ''Run'', ''Sit-ups'']) =
     [\<lparr>completedQuests = Some [''Push-ups'', ''Squats'', ''Run'', ''Sit-ups''],
       questType = Some ''daily_strength''\<rparr>]"
    by (simp add: handleQuestComplete_def dash_toggle_def Let_def)
  from dashboard_sends_valid_daily_sets [OF h] sent show ?thesis by simp
qed

text \<open>
  The quest page's fallback to the dashboard on an error mentioning \<open>daily\<close> or
  \<open>strength\<close> (line 140) never fires: no error of the completion route for an individual
  request contains either word (the route does not require the daily set before individual
  quests, and the page's only guard is the check on load).
\<close>

theorem quest_page_daily_fallback_unreachable:
  "snd (quest_complete_result cq
          (fst (complete_POST c sess (Some \<lparr>completedQuests = qs, questType = Some ''individual''\<rparr>) now db))) =
   False"
proof (cases "fst (complete_POST c sess (Some \<lparr>completedQuests = qs, questType = Some ''individual''\<rparr>) now db)")
  case (ErrorResp st m)
  then have "m \<in> {''Unauthorized'', ''User not found'', ''Individual quest requires exactly 1 '',
      msg_quest_done, ''Failed to update user''}"
    by (rule individual_error_messages)
  then have "\<not> js_includes m ''daily'' \<and> \<not> js_includes m ''strength''"
    unfolding insert_iff empty_iff
    by (elim disjE) (simp_all add: js_includes_def msg_quest_done_def upt_rec)
  with ErrorResp show ?thesis by (simp add: quest_complete_result_def)
next
  case (OkResp st v)
  then show ?thesis by (simp add: quest_complete_result_def)
qed

end
