(* ===== verification/System.thy ===== *)
theory System
  imports Client Auth Assign_Route Username_Route
begin

text \<open>
  The whole back end as one state machine. The state is the \<open>users\<close> collection and the
  stream of \<open>Math.random\<close> values the server process still has to draw; a step is one
  request to one of the routes (registration, the adapter's creation of an OAuth user,
  initialise, assign, complete, set username) by a signed-in user, whatever the route
  answers. Requests are handled one at a time, as the spec assumes (section 5).
  Reachability from the empty collection is an inductive predicate; the invariants below are
  proved by rule induction over it, one lemma per route.
\<close>

record sys_state =
  sys_db :: users
  sys_gen :: rng

datatype request =
    ReqRegister string register_body timestamp
  | ReqAdapterCreate string string string
  | ReqInitialize string timestamp
  | ReqAssign string timestamp
  | ReqComplete string complete_body timestamp
  | ReqUsername string username_body

text \<open>
  \<open>createUser\<close> of the MongoDB adapter, called by NextAuth on the first Google sign-in of an
  email that no user carries: a document with the profile's email and name and no gaming
  fields. The adapter is a library; this is its documented effect.
\<close>

definition adapter_createUser :: "string \<Rightarrow> string \<Rightarrow> string \<Rightarrow> users \<Rightarrow> users" where
  "adapter_createUser oid e nm db =
     (if oid \<in> doc_id ` set db \<or> find (\<lambda>d. email d = e) db \<noteq> None then db
      else insertOne \<lparr>doc_id = oid, email = e, password = None, displayName = Some nm,
             username = None, hasSetUsername = None, doc_level = None, totalXP = None, xp = None,
             stats = None, streakDays = None, lastQuestDate = None, questsCompletedToday = None,
             hasCompletedDailyStrength = None, assignedQuests = None, createdAt = None\<rparr> db)"

fun sys_exec :: "catalog \<Rightarrow> (string \<Rightarrow> string) \<Rightarrow> request \<Rightarrow> sys_state \<Rightarrow> sys_state" where
  "sys_exec c hash (ReqRegister oid b now) s =
     s\<lparr>sys_db := snd (register_POST hash oid (Some b) now (sys_db s))\<rparr>"
| "sys_exec c hash (ReqAdapterCreate oid e nm) s =
     s\<lparr>sys_db := adapter_createUser oid e nm (sys_db s)\<rparr>"
| "sys_exec c hash (ReqInitialize uid now) s =
     s\<lparr>sys_db := snd (initialize_POST (Some uid) now (sys_db s))\<rparr>"
| "sys_exec c hash (ReqAssign uid now) s =
     (case assign_POST c (Some uid) now (sys_db s) (sys_gen s) of
        ((r, db'), g') \<Rightarrow> \<lparr>sys_db = db', sys_gen = g'\<rparr>)"
| "sys_exec c hash (ReqComplete uid b now) s =
     s\<lparr>sys_db := snd (complete_POST c (Some uid) (Some b) now (sys_db s))\<rparr>"
| "sys_exec c hash (ReqUsername uid b) s =
     s\<lparr>sys_db := snd (username_POST (Some uid) (Some b) (sys_db s))\<rparr>"

inductive reachable :: "catalog \<Rightarrow> (string \<Rightarrow> string) \<Rightarrow> sys_state \<Rightarrow> bool" for c hash where
  reach_init: "reachable c hash \<lparr>sys_db = [], sys_gen = g\<rparr>"
| reach_step: "reachable c hash s \<Longrightarrow> reachable c hash (sys_exec c hash rq s)"

text \<open>A sequence of requests handled one after the other.\<close>

definition sys_run :: "catalog \<Rightarrow> (string \<Rightarrow> string) \<Rightarrow> request list \<Rightarrow> sys_state \<Rightarrow> sys_state" where
  "sys_run c hash rqs s = fold (sys_exec c hash) rqs s"

text \<open>A sample trace: two registrations, then both users ask for the same name up to case.\<close>

definition demo_requests :: "request list" where
  "demo_requests =
     [ReqRegister ''r1'' \<lparr>reg_email = Some ''a@x.io'', reg_password = Some ''secret1''\<rparr> 0,
      ReqRegister ''r2'' \<lparr>reg_email = Some ''b@x.io'', reg_password = Some ''secret2''\<rparr> 0,
      ReqUsername ''r1'' \<lparr>ub_username = Some ''Hunter''\<rparr>,
      ReqUsername ''r2'' \<lparr>ub_username = Some ''HUNTER''\<rparr>]"

section \<open>The invariant\<close>

text \<open>The stored level is the one \<open>calculateLevel\<close> derives from the stored experience.\<close>

definition lvl_ok :: "user_doc \<Rightarrow> bool" where
  "lvl_ok d \<longleftrightarrow>
     (case doc_level d of
        None \<Rightarrow> totalXP d = None
      | Some l \<Rightarrow> l = level (calculateLevel (js_num_or (totalXP d) 0)))"

text \<open>Two documents whose usernames are equal up to letter case are the same user.\<close>

definition names_unique :: "users \<Rightarrow> bool" where
  "names_unique db \<longleftrightarrow>
     (\<forall>d1 \<in> set db. \<forall>d2 \<in> set db. \<forall>a b.
        username d1 = Some a \<longrightarrow> username d2 = Some b \<longrightarrow> ci_equal a b \<longrightarrow> doc_id d1 = doc_id d2)"

definition sys_inv :: "users \<Rightarrow> bool" where
  "sys_inv db \<longleftrightarrow>
     distinct (map doc_id db) \<and> distinct (map email db) \<and> list_all lvl_ok db \<and> names_unique db"

text \<open>The fields the invariant's keys read: the id, the email and the username.\<close>

definition doc_keys :: "user_doc \<Rightarrow> string \<times> string \<times> string option" where
  "doc_keys d = (doc_id d, email d, username d)"

text \<open>No document disappears and none loses experience (\<open>totalXP || 0\<close>).\<close>

definition xp_kept :: "users \<Rightarrow> users \<Rightarrow> bool" where
  "xp_kept db db' \<longleftrightarrow>
     (\<forall>i d. findOne_by_id i db = Some d \<longrightarrow>
        (\<exists>d'. findOne_by_id i db' = Some d' \<and> js_num_or (totalXP d) 0 \<le> js_num_or (totalXP d') 0))"

text \<open>
  The stored assignment is in the current format: template ids (never the old whole-object
  entries) that all resolve against the catalog.
\<close>

definition stored_ids_ok :: "catalog \<Rightarrow> user_doc \<Rightarrow> bool" where
  "stored_ids_ok c d =
     (case assignedQuests d of
        None \<Rightarrow> True
      | Some a \<Rightarrow> list_all (\<lambda>q. case q of StoredId i \<Rightarrow> getQuestTemplateById c i \<noteq> None
                                         | StoredObject _ \<Rightarrow> False) (quests a))"

text \<open>
  A credentials account (a document with a stored password hash) carries an email of the
  form the registration pattern describes.
\<close>

definition cred_email_ok :: "user_doc \<Rightarrow> bool" where
  "cred_email_ok d \<longleftrightarrow> password d = None \<or> email_regex_lang (email d)"

text \<open>The dashboard's daily request: the four daily names, in catalog order.\<close>

definition daily_request :: "catalog \<Rightarrow> complete_body" where
  "daily_request c = \<lparr>completedQuests = Some (map name (DAILY_STRENGTH_QUESTS c)),
                      questType = Some ''daily_strength''\<rparr>"

section \<open>Updates that keep the keys\<close>

lemma updateOne_map:
  "(\<And>d. g (f d) = g d) \<Longrightarrow> map g (fst (updateOne_by_id i f db)) = map g db"
  unfolding updateOne_by_id_def
  by (induction db) (auto split: prod.splits)

lemma list_all_update:
  "list_all P db \<Longrightarrow> (\<And>d. P d \<Longrightarrow> P (f d)) \<Longrightarrow> list_all P (fst (updateOne_by_id i f db))"
  using updateOne_set [of i f db] by (fastforce simp: list_all_iff)

lemma names_unique_sub:
  assumes sub: "\<forall>d' \<in> set db'. username d' = None \<or>
                  (\<exists>d \<in> set db. doc_id d = doc_id d' \<and> username d = username d')"
    and nu: "names_unique db"
  shows "names_unique db'"
proof (unfold names_unique_def, intro ballI allI impI)
  fix d1 d2 a b
  assume d1: "d1 \<in> set db'" and d2: "d2 \<in> set db'" and u1: "username d1 = Some a"
    and u2: "username d2 = Some b" and ci: "ci_equal a b"
  obtain e1 where e1: "e1 \<in> set db" "doc_id e1 = doc_id d1" "username e1 = username d1"
    using sub d1 u1 by fastforce
  obtain e2 where e2: "e2 \<in> set db" "doc_id e2 = doc_id d2" "username e2 = username d2"
    using sub d2 u2 by fastforce
  have "username e1 = Some a" "username e2 = Some b" using e1(3) e2(3) u1 u2 by simp_all
  then have "doc_id e1 = doc_id e2"
    using nu e1(1) e2(1) ci unfolding names_unique_def by blast
  with e1(2) e2(2) show "doc_id d1 = doc_id d2" by simp
qed

lemma sys_inv_insert:
  assumes "sys_inv db" and "doc_id d \<notin> doc_id ` set db" and "\<forall>x \<in> set db. email x \<noteq> email d"
    and "lvl_ok d" and "username d = None"
  shows "sys_inv (insertOne d db)"
proof -
  have "names_unique (db @ [d])"
    using assms(5) names_unique_sub [of "db @ [d]" db] assms(1) by (auto simp: sys_inv_def)
  moreover have "distinct (map doc_id (db @ [d]))" "distinct (map email (db @ [d]))"
    using assms(1-3) by (auto simp: sys_inv_def)
  moreover have "list_all lvl_ok (db @ [d])" using assms(1,4) by (simp add: sys_inv_def)
  ultimately show ?thesis by (simp add: sys_inv_def insertOne_def)
qed

lemma sys_inv_update:
  assumes "sys_inv db" and "\<And>d. doc_keys (f d) = doc_keys d" and "\<And>d. lvl_ok d \<Longrightarrow> lvl_ok (f d)"
  shows "sys_inv (fst (updateOne_by_id i f db))"
proof -
  let ?db' = "fst (updateOne_by_id i f db)"
  have "map doc_id ?db' = map doc_id db" "map email ?db' = map email db"
    using assms(2) by (simp_all add: updateOne_map doc_keys_def)
  moreover have "list_all lvl_ok ?db'"
    using assms(1) by (intro list_all_update) (simp_all add: sys_inv_def assms(3))
  moreover have "names_unique ?db'"
  proof (rule names_unique_sub [where db = db])
    show "names_unique db" using assms(1) by (simp add: sys_inv_def)
    show "\<forall>d' \<in> set ?db'. username d' = None \<or>
        (\<exists>d \<in> set db. doc_id d = doc_id d' \<and> username d = username d')"
      using updateOne_set_cases [of _ i f db] assms(2) by (fastforce simp: doc_keys_def)
  qed
  ultimately show ?thesis using assms(1) by (simp add: sys_inv_def)
qed
section \<open>Every route keeps the invariant\<close>

lemma registered_user_keys [simp]:
  "doc_id (registered_user oid e h now) = oid" "email (registered_user oid e h now) = e"
  "username (registered_user oid e h now) = None"
  by (simp_all add: registered_user_def)

lemma lvl_ok_registered: "lvl_ok (registered_user oid e h now)"
  by (simp add: lvl_ok_def registered_user_def level_of_calculateLevel level_spec_def)

lemma sys_inv_register:
  assumes "sys_inv db"
  shows "sys_inv (snd (register_POST hash oid body now db))"
proof (cases "register_POST hash oid body now db")
  case (Pair r db')
  show ?thesis
  proof (cases r)
    case (ErrorResp st m)
    then show ?thesis using Pair register_POST_error [of hash oid body now db st m db'] assms by simp
  next
    case (OkResp st v)
    then obtain e p where "find (\<lambda>d. email d = e) db = None" "oid \<notin> doc_id ` set db"
      and db': "db' = insertOne (registered_user oid e (hash p) now) db"
      using Pair register_POST_ok [of hash oid body now db st v db'] by auto
    moreover have "\<forall>x \<in> set db. email x \<noteq> e"
      using calculation(1) by (simp add: find_None_iff)
    ultimately have "sys_inv (insertOne (registered_user oid e (hash p) now) db)"
      using assms by (intro sys_inv_insert) (simp_all add: lvl_ok_registered)
    with Pair db' show ?thesis by simp
  qed
qed

lemma sys_inv_adapter:
  "sys_inv db \<Longrightarrow> sys_inv (adapter_createUser oid e nm db)"
  by (auto simp: adapter_createUser_def find_None_iff lvl_ok_def intro!: sys_inv_insert)

lemma initialize_POST_db:
  "snd (initialize_POST (Some uid) now db) =
     (if checkIfUserHasGamingStats uid db then db else initializeUserGamingStats uid db) \<or>
   snd (initialize_POST (Some uid) now db) =
     fst (updateOne_by_id uid reset_today
       (if checkIfUserHasGamingStats uid db then db else initializeUserGamingStats uid db))"
  by (simp add: initialize_POST_def Let_def split: option.splits)

lemma sys_inv_initialize:
  assumes "sys_inv db"
  shows "sys_inv (snd (initialize_POST (Some uid) now db))"
proof -
  let ?db1 = "if checkIfUserHasGamingStats uid db then db else initializeUserGamingStats uid db"
  have k: "doc_keys (set_DEFAULT_USER_STATS d) = doc_keys d" "doc_keys (reset_today d) = doc_keys d" for d
    by (simp_all add: doc_keys_def set_DEFAULT_USER_STATS_def reset_today_def)
  have l: "lvl_ok (set_DEFAULT_USER_STATS d)" "lvl_ok d \<Longrightarrow> lvl_ok (reset_today d)" for d
    by (simp add: lvl_ok_def set_DEFAULT_USER_STATS_def level_of_calculateLevel level_spec_def)
      (simp add: lvl_ok_def split: option.splits)
  have "sys_inv ?db1"
    using assms sys_inv_update [OF assms k(1) l(1)] by (simp add: initializeUserGamingStats_def)
  then have "sys_inv (fst (updateOne_by_id uid reset_today ?db1))"
    using k(2) l(2) by (rule sys_inv_update)
  with \<open>sys_inv ?db1\<close> show ?thesis using initialize_POST_db [of uid now db] by metis
qed

lemma updateOne_pair_fst: "updateOne_by_id i f db = (db', n) \<Longrightarrow> db' = fst (updateOne_by_id i f db)"
  by simp

lemma draw_quests_in_catalog_pair:
  "run_state (draw_quests c) g = (qs, g') \<Longrightarrow> set qs \<subseteq> set (all_rotating_quests c)"
  using draw_quests_in_catalog [of c g] by simp

lemma assign_POST_db:
  "snd (fst (assign_POST c (Some uid) now db g)) = db \<or>
   (\<exists>qs. set qs \<subseteq> set (all_rotating_quests c) \<and>
      snd (fst (assign_POST c (Some uid) now db g)) =
        fst (updateOne_by_id uid (store_assignment (toDateString now) qs) db))"
  by (auto simp: assign_POST_def dest: updateOne_unmodified_pair updateOne_pair_fst
      draw_quests_in_catalog_pair split: option.splits prod.splits)

lemma sys_inv_assign:
  assumes "sys_inv db"
  shows "sys_inv (snd (fst (assign_POST c (Some uid) now db g)))"
proof -
  have "sys_inv (fst (updateOne_by_id uid (store_assignment (toDateString now) qs) db))" for qs
    using assms by (rule sys_inv_update) (simp_all add: doc_keys_def store_assignment_def lvl_ok_def split: option.splits)
  with assign_POST_db [of c uid now db g] assms show ?thesis by (elim disjE exE conjE) simp_all
qed

lemma complete_POST_db_found:
  "snd (complete_POST c (Some uid) (Some b) now db) = db \<or>
   (\<exists>u x st k. findOne_by_id uid db = Some u \<and> complete_branch c u b now = Inr (x, st, k) \<and>
      snd (complete_POST c (Some uid) (Some b) now db) =
        fst (updateOne_by_id uid (complete_update b now (x, st, k)) db))"
  by (auto simp: complete_POST_def dest: updateOne_unmodified_pair updateOne_pair_fst
      split: option.splits sum.splits prod.splits)

lemma complete_update_keys: "doc_keys (complete_update b now r u) = doc_keys u"
  by (cases r) (simp add: doc_keys_def complete_update_def Let_def)

lemma lvl_ok_complete_update: "lvl_ok (complete_update b now r u)"
  by (cases r) (simp add: lvl_ok_def complete_update_def Let_def)

lemma sys_inv_complete:
  assumes "sys_inv db"
  shows "sys_inv (snd (complete_POST c (Some uid) (Some b) now db))"
proof -
  have "sys_inv (fst (updateOne_by_id uid (complete_update b now r) db))" for r
    using assms complete_update_keys lvl_ok_complete_update by (rule sys_inv_update)
  with complete_POST_db_found [of c uid b now db] assms show ?thesis
    by (elim disjE exE conjE) simp_all
qed

lemma ci_equal_sym: "ci_equal a b \<Longrightarrow> ci_equal b a"
  by (simp add: ci_equal_def)

lemma names_unique_set_username:
  assumes nu: "names_unique db" and free: "\<not> username_taken t db"
  shows "names_unique (fst (updateOne_by_id uid (set_username t) db))"
proof (unfold names_unique_def, intro ballI allI impI)
  fix d1 d2 a b
  assume d1: "d1 \<in> set (fst (updateOne_by_id uid (set_username t) db))"
    and d2: "d2 \<in> set (fst (updateOne_by_id uid (set_username t) db))"
    and u1: "username d1 = Some a" and u2: "username d2 = Some b" and ci: "ci_equal a b"
  have new: "username (set_username t d) = Some t" for d by (simp add: set_username_def)
  have old: "\<forall>d \<in> set db. \<forall>n. username d = Some n \<longrightarrow> \<not> ci_equal n t"
    using free by (simp add: not_taken_iff)
  consider "d1 \<in> set db" "d2 \<in> set db"
    | e1 where "e1 \<in> set db" "doc_id e1 = uid" "d1 = set_username t e1" "d2 \<in> set db"
    | e2 where "d1 \<in> set db" "e2 \<in> set db" "doc_id e2 = uid" "d2 = set_username t e2"
    | e1 e2 where "doc_id e1 = uid" "d1 = set_username t e1" "doc_id e2 = uid" "d2 = set_username t e2"
    using updateOne_set_cases [OF d1] updateOne_set_cases [OF d2] by blast
  then show "doc_id d1 = doc_id d2"
  proof cases
    case 1
    then show ?thesis using nu u1 u2 ci unfolding names_unique_def by blast
  next
    case 2
    then have "a = t" using u1 new by simp
    with ci have "ci_equal b t" by (simp add: ci_equal_sym)
    with 2(4) u2 old show ?thesis by blast
  next
    case 3
    then have "b = t" using u2 new by simp
    with ci have "ci_equal a t" by simp
    with 3(1) u1 old show ?thesis by blast
  next
    case 4
    then show ?thesis by simp
  qed
qed

lemma sys_inv_username:
  assumes "sys_inv db"
  shows "sys_inv (snd (username_POST (Some uid) (Some b) db))"
proof (cases "username_POST (Some uid) (Some b) db")
  case (Pair r db')
  show ?thesis
  proof (cases r)
    case (ErrorResp st m)
    then show ?thesis using Pair username_POST_error [of "Some uid" "Some b" db st m db'] assms by simp
  next
    case (OkResp st v)
    then have free: "\<not> username_taken (resp_username v) db"
      and db': "db' = fst (updateOne_by_id uid (set_username (resp_username v)) db)"
      using Pair username_POST_ok [of "Some uid" "Some b" db st v db'] by auto
    have "map doc_id db' = map doc_id db" "map email db' = map email db"
      unfolding db' by (simp_all add: updateOne_map set_username_def)
    moreover have "list_all lvl_ok db'"
      unfolding db' using assms[unfolded sys_inv_def]
      by (intro list_all_update) (simp_all add: lvl_ok_def set_username_def split: option.splits)
    moreover have "names_unique db'"
      using names_unique_set_username [OF _ free] assms by (simp add: db' sys_inv_def)
    ultimately show ?thesis using Pair assms by (simp add: sys_inv_def)
  qed
qed

lemma reachable_sys_inv: "reachable c hash s \<Longrightarrow> sys_inv (sys_db s)"
proof (induction rule: reachable.induct)
  case (reach_init g)
  then show ?case by (simp add: sys_inv_def names_unique_def)
next
  case (reach_step s rq)
  then show ?case
  proof (cases rq)
    case (ReqAssign uid now)
    then show ?thesis using reach_step.IH sys_inv_assign [of "sys_db s" c uid now "sys_gen s"]
      by (cases "assign_POST c (Some uid) now (sys_db s) (sys_gen s)") auto
  qed (simp_all add: sys_inv_register sys_inv_adapter sys_inv_initialize sys_inv_complete
      sys_inv_username)
qed

lemma reachable_run: "reachable c hash s \<Longrightarrow> reachable c hash (sys_run c hash rqs s)"
  unfolding sys_run_def by (induction rqs arbitrary: s) (auto intro: reach_step)

section \<open>No route loses experience\<close>

lemma xp_kept_refl: "xp_kept db db"
  by (auto simp: xp_kept_def)

lemma xp_kept_trans: "xp_kept db1 db2 \<Longrightarrow> xp_kept db2 db3 \<Longrightarrow> xp_kept db1 db3"
  unfolding xp_kept_def by (meson order_trans)

lemma xp_kept_update:
  assumes "\<And>d. doc_id (f d) = doc_id d"
    and "\<And>d0. findOne_by_id i db = Some d0 \<Longrightarrow> js_num_or (totalXP d0) 0 \<le> js_num_or (totalXP (f d0)) 0"
  shows "xp_kept db (fst (updateOne_by_id i f db))"
  unfolding xp_kept_def
proof (intro allI impI)
  fix j d assume d: "findOne_by_id j db = Some d"
  show "\<exists>d'. findOne_by_id j (fst (updateOne_by_id i f db)) = Some d' \<and>
      js_num_or (totalXP d) 0 \<le> js_num_or (totalXP d') 0"
  proof (cases "j = i")
    case True
    then show ?thesis using d assms by (simp add: updateOne_find_self)
  next
    case False
    then show ?thesis using d assms(1) by (simp add: updateOne_find_other)
  qed
qed

lemma find_append_Some: "find P xs = Some d \<Longrightarrow> find P (xs @ ys) = Some d"
  by (induction xs) auto

lemma xp_kept_insert: "xp_kept db (insertOne x db)"
  by (auto simp: xp_kept_def findOne_by_id_def insertOne_def find_append_Some)

lemma reward_names_mono:
  assumes "catalog_wf c"
  shows "fst acc \<le> fst (reward_names c qs acc)"
proof (induction qs arbitrary: acc)
  case Nil
  then show ?case by (simp add: reward_names_def)
next
  case (Cons q qs)
  obtain x st where acc: "acc = (x, st)" by (cases acc)
  show ?case
  proof (cases "find_quest_by_name c q")
    case None
    then have "reward_names c (q # qs) acc = reward_names c qs (x, st)"
      by (simp add: reward_names_def acc)
    with Cons.IH [of "(x, st)"] acc show ?thesis by simp
  next
    case (Some qt)
    then have "reward_names c (q # qs) acc =
        reward_names c qs (x + xpReward qt, add_stat (stat qt) (statReward qt) st)"
      by (simp add: reward_names_def acc)
    moreover have "0 \<le> xpReward qt"
      using find_quest_by_name_Some [OF Some] catalog_wf_rewards(2) [OF assms] by blast
    ultimately show ?thesis using Cons.IH [of "(x + xpReward qt, add_stat (stat qt) (statReward qt) st)"] acc
      by simp
  qed
qed

lemma complete_branch_xp_mono:
  assumes "catalog_wf c" and "complete_branch c u b now = Inr (x, st, k)"
  shows "js_num_or (totalXP u) 0 \<le> x"
proof -
  have "0 \<le> sum_list (map xpReward (DAILY_STRENGTH_QUESTS c))"
    by (intro sum_list_nonneg) (auto dest: catalog_wf_rewards(1) [OF assms(1)])
  then show ?thesis
    using assms(2) reward_names_mono [OF assms(1), of "(js_num_or (totalXP u) 0, current_stats u)"]
    by (auto simp: complete_branch_def daily_strength_branch_def individual_branch_def Let_def
        split: if_splits option.splits sum.splits prod.splits) (metis fst_conv)
qed

lemma xp_kept_register: "xp_kept db (snd (register_POST hash oid body now db))"
proof (cases "register_POST hash oid body now db")
  case (Pair r db')
  then show ?thesis
  proof (cases r)
    case (ErrorResp st m)
    then show ?thesis using Pair register_POST_error [of hash oid body now db st m db']
      by (simp add: xp_kept_refl)
  next
    case (OkResp st v)
    then show ?thesis using Pair register_POST_ok [of hash oid body now db st v db']
      by (auto simp: xp_kept_insert)
  qed
qed

lemma xp_kept_adapter: "xp_kept db (adapter_createUser oid e nm db)"
  by (simp add: adapter_createUser_def xp_kept_refl xp_kept_insert)

lemma xp_kept_initialize:
  assumes "sys_inv db"
  shows "xp_kept db (snd (initialize_POST (Some uid) now db))"
proof -
  let ?db1 = "if checkIfUserHasGamingStats uid db then db else initializeUserGamingStats uid db"
  have "xp_kept db ?db1"
  proof (cases "checkIfUserHasGamingStats uid db")
    case True
    then show ?thesis by (simp add: xp_kept_refl)
  next
    case False
    have "js_num_or (totalXP d0) 0 \<le> js_num_or (totalXP (set_DEFAULT_USER_STATS d0)) 0"
      if d0: "findOne_by_id uid db = Some d0" for d0
    proof -
      have "doc_level d0 = None" using False d0 by (simp add: checkIfUserHasGamingStats_def)
      moreover have "lvl_ok d0"
        using assms findOne_by_id_Some [OF d0] by (auto simp: sys_inv_def list_all_iff)
      ultimately show ?thesis by (simp add: lvl_ok_def set_DEFAULT_USER_STATS_def)
    qed
    then show ?thesis using False
      by (simp add: initializeUserGamingStats_def xp_kept_update set_DEFAULT_USER_STATS_def)
  qed
  moreover have "xp_kept ?db1 (fst (updateOne_by_id uid reset_today ?db1))"
    by (rule xp_kept_update) simp_all
  ultimately have "xp_kept db (fst (updateOne_by_id uid reset_today ?db1))" by (rule xp_kept_trans)
  with \<open>xp_kept db ?db1\<close> show ?thesis using initialize_POST_db [of uid now db] by (elim disjE) simp_all
qed

lemma xp_kept_assign: "xp_kept db (snd (fst (assign_POST c (Some uid) now db g)))"
proof -
  have "xp_kept db (fst (updateOne_by_id uid (store_assignment (toDateString now) qs) db))" for qs
    by (rule xp_kept_update) (simp_all add: store_assignment_def)
  with assign_POST_db [of c uid now db g] show ?thesis
    by (elim disjE exE conjE) (simp_all add: xp_kept_refl)
qed

lemma xp_kept_complete:
  assumes "catalog_wf c"
  shows "xp_kept db (snd (complete_POST c (Some uid) (Some b) now db))"
proof -
  have "xp_kept db (fst (updateOne_by_id uid (complete_update b now (x, st, k)) db))"
    if u: "findOne_by_id uid db = Some u" and br: "complete_branch c u b now = Inr (x, st, k)" for u x st k
  proof (rule xp_kept_update)
    show "doc_id (complete_update b now (x, st, k) d) = doc_id d" for d
      using complete_update_keys [of b now "(x, st, k)" d] by (simp add: doc_keys_def)
    show "js_num_or (totalXP d0) 0 \<le> js_num_or (totalXP (complete_update b now (x, st, k) d0)) 0"
      if "findOne_by_id uid db = Some d0" for d0
      using that u complete_branch_xp_mono [OF assms br] by (simp add: complete_update_def Let_def)
  qed
  with complete_POST_db_found [of c uid b now db] show ?thesis
    by (elim disjE exE conjE) (simp_all add: xp_kept_refl)
qed

lemma xp_kept_username: "xp_kept db (snd (username_POST (Some uid) (Some b) db))"
proof (cases "username_POST (Some uid) (Some b) db")
  case (Pair r db')
  then show ?thesis
  proof (cases r)
    case (ErrorResp st m)
    then show ?thesis using Pair username_POST_error [of "Some uid" "Some b" db st m db']
      by (simp add: xp_kept_refl)
  next
    case (OkResp st v)
    then have "db' = fst (updateOne_by_id uid (set_username (resp_username v)) db)"
      using Pair username_POST_ok [of "Some uid" "Some b" db st v db'] by auto
    moreover have "xp_kept db (fst (updateOne_by_id uid (set_username (resp_username v)) db))"
      by (rule xp_kept_update) (simp_all add: set_username_def)
    ultimately show ?thesis using Pair by simp
  qed
qed

lemma xp_kept_step:
  "reachable c hash s \<Longrightarrow> catalog_wf c \<Longrightarrow> xp_kept (sys_db s) (sys_db (sys_exec c hash rq s))"
proof (cases rq)
  case (ReqAssign uid now)
  then show ?thesis using xp_kept_assign [of "sys_db s" c uid now "sys_gen s"]
    by (cases "assign_POST c (Some uid) now (sys_db s) (sys_gen s)") auto
qed (auto simp: xp_kept_register xp_kept_adapter xp_kept_initialize reachable_sys_inv
       xp_kept_complete xp_kept_username)

section \<open>Stored assignments keep their format\<close>

lemma list_all_insert: "list_all P db \<Longrightarrow> P d \<Longrightarrow> list_all P (insertOne d db)"
  by (simp add: insertOne_def)

lemma stored_ids_keep: "assignedQuests (f d) = assignedQuests d \<Longrightarrow> stored_ids_ok c (f d) = stored_ids_ok c d"
  by (simp add: stored_ids_ok_def)

lemma stored_ids_store:
  "catalog_wf c \<Longrightarrow> set qs \<subseteq> set (all_rotating_quests c) \<Longrightarrow>
   stored_ids_ok c (store_assignment today qs u)"
  by (auto simp: stored_ids_ok_def store_assignment_def list_all_iff getQuestTemplateById_member)

lemma stored_ids_register:
  assumes "list_all (stored_ids_ok c) db"
  shows "list_all (stored_ids_ok c) (snd (register_POST hash oid body now db))"
proof (cases "register_POST hash oid body now db")
  case (Pair r db')
  show ?thesis
  proof (cases r)
    case (ErrorResp st m)
    then show ?thesis using Pair register_POST_error [of hash oid body now db st m db'] assms by simp
  next
    case (OkResp st v)
    then show ?thesis using Pair register_POST_ok [of hash oid body now db st v db'] assms
      by (auto intro!: list_all_insert simp: stored_ids_ok_def registered_user_def)
  qed
qed

lemma stored_ids_adapter: "list_all (stored_ids_ok c) db \<Longrightarrow>
   list_all (stored_ids_ok c) (adapter_createUser oid e nm db)"
  by (simp add: adapter_createUser_def list_all_insert stored_ids_ok_def)

lemma stored_ids_initialize:
  assumes "list_all (stored_ids_ok c) db"
  shows "list_all (stored_ids_ok c) (snd (initialize_POST (Some uid) now db))"
proof -
  let ?db1 = "if checkIfUserHasGamingStats uid db then db else initializeUserGamingStats uid db"
  have "list_all (stored_ids_ok c) ?db1"
    using assms by (auto simp: initializeUserGamingStats_def stored_ids_ok_def set_DEFAULT_USER_STATS_def
        intro!: list_all_update)
  moreover have "list_all (stored_ids_ok c) (fst (updateOne_by_id uid reset_today ?db1))"
    using calculation by (rule list_all_update) (simp add: stored_ids_keep)
  ultimately show ?thesis using initialize_POST_db [of uid now db] by (elim disjE) simp_all
qed

lemma stored_ids_assign:
  assumes "catalog_wf c" and "list_all (stored_ids_ok c) db"
  shows "list_all (stored_ids_ok c) (snd (fst (assign_POST c (Some uid) now db g)))"
proof -
  have "list_all (stored_ids_ok c) (fst (updateOne_by_id uid (store_assignment (toDateString now) qs) db))"
    if "set qs \<subseteq> set (all_rotating_quests c)" for qs
    using assms(2) by (rule list_all_update) (rule stored_ids_store [OF assms(1) that])
  with assign_POST_db [of c uid now db g] assms(2) show ?thesis by (elim disjE exE conjE) simp_all
qed

lemma assignedQuests_complete_update [simp]: "assignedQuests (complete_update b now r u) = assignedQuests u"
  by (cases r) (simp add: complete_update_def Let_def)

lemma stored_ids_complete:
  assumes "list_all (stored_ids_ok c) db"
  shows "list_all (stored_ids_ok c) (snd (complete_POST c (Some uid) (Some b) now db))"
proof -
  have "list_all (stored_ids_ok c) (fst (updateOne_by_id uid (complete_update b now r) db))" for r
    using assms by (rule list_all_update) (simp add: stored_ids_keep)
  with complete_POST_db_found [of c uid b now db] assms show ?thesis
    by (elim disjE exE conjE) simp_all
qed

lemma stored_ids_username:
  assumes "list_all (stored_ids_ok c) db"
  shows "list_all (stored_ids_ok c) (snd (username_POST (Some uid) (Some b) db))"
proof (cases "username_POST (Some uid) (Some b) db")
  case (Pair r db')
  show ?thesis
  proof (cases r)
    case (ErrorResp st m)
    then show ?thesis using Pair username_POST_error [of "Some uid" "Some b" db st m db'] assms by simp
  next
    case (OkResp st v)
    then have "db' = fst (updateOne_by_id uid (set_username (resp_username v)) db)"
      using Pair username_POST_ok [of "Some uid" "Some b" db st v db'] by auto
    moreover have "list_all (stored_ids_ok c) (fst (updateOne_by_id uid (set_username (resp_username v)) db))"
      using assms by (rule list_all_update) (simp add: stored_ids_keep set_username_def)
    ultimately show ?thesis using Pair by simp
  qed
qed

lemma reachable_stored_ids:
  "reachable c hash s \<Longrightarrow> catalog_wf c \<Longrightarrow> list_all (stored_ids_ok c) (sys_db s)"
proof (induction rule: reachable.induct)
  case (reach_init g)
  then show ?case by simp
next
  case (reach_step s rq)
  then have IH: "list_all (stored_ids_ok c) (sys_db s)" by simp
  show ?case
  proof (cases rq)
    case (ReqAssign uid now)
    then show ?thesis using stored_ids_assign [OF reach_step.prems IH, of uid now "sys_gen s"]
      by (cases "assign_POST c (Some uid) now (sys_db s) (sys_gen s)") auto
  qed (simp_all add: IH stored_ids_register stored_ids_adapter stored_ids_initialize
         stored_ids_complete stored_ids_username)
qed

lemma list_all_stored_ids:
  "list_all (\<lambda>q. case q of StoredId i \<Rightarrow> P i | StoredObject _ \<Rightarrow> False) qs \<Longrightarrow>
   \<exists>ids. qs = map StoredId ids \<and> list_all P ids"
proof (induction qs)
  case Nil
  then show ?case by simp
next
  case (Cons q qs)
  then obtain ids where "qs = map StoredId ids" "list_all P ids" by auto
  with Cons.prems show ?case by (cases q) (auto intro: exI [of _ "_ # ids"])
qed

section \<open>Credentials accounts keep a well-formed email\<close>

lemma cred_email_update:
  assumes "list_all cred_email_ok db"
    and "\<And>d. email (f d) = email d" and "\<And>d. password (f d) = password d"
  shows "list_all cred_email_ok (fst (updateOne_by_id i f db))"
  using assms(1) by (rule list_all_update) (simp add: cred_email_ok_def assms(2,3))

text \<open>
  The invariant holds relative to the soundness of the route's email check, which the
  property below discharges with \<open>emailRegex_test_sound\<close>.
\<close>

lemma cred_email_register:
  assumes sound: "\<And>e. emailRegex_test e \<Longrightarrow> email_regex_lang e"
    and "list_all cred_email_ok db"
  shows "list_all cred_email_ok (snd (register_POST hash oid body now db))"
proof (cases "register_POST hash oid body now db")
  case (Pair r db')
  show ?thesis
  proof (cases r)
    case (ErrorResp st m)
    then show ?thesis using Pair register_POST_error [of hash oid body now db st m db'] assms by simp
  next
    case (OkResp st v)
    then obtain e p where "emailRegex_test e"
      and db': "db' = insertOne (registered_user oid e (hash p) now) db"
      using Pair register_POST_ok [of hash oid body now db st v db'] by auto
    then show ?thesis
      using Pair assms(2) sound [of e] by (simp add: list_all_insert cred_email_ok_def)
  qed
qed

lemma cred_email_step:
  assumes sound: "\<And>e. emailRegex_test e \<Longrightarrow> email_regex_lang e"
    and "list_all cred_email_ok (sys_db s)"
  shows "list_all cred_email_ok (sys_db (sys_exec c hash rq s))"
proof (cases rq)
  case (ReqRegister oid b now)
  then show ?thesis using cred_email_register [OF sound assms(2)] by simp
next
  case (ReqAdapterCreate oid e nm)
  then show ?thesis using assms(2)
    by (simp add: adapter_createUser_def list_all_insert cred_email_ok_def)
next
  case (ReqInitialize uid now)
  let ?db1 = "if checkIfUserHasGamingStats uid (sys_db s) then sys_db s
              else initializeUserGamingStats uid (sys_db s)"
  have "list_all cred_email_ok ?db1"
    using cred_email_update [OF assms(2), of set_DEFAULT_USER_STATS uid] assms(2)
    by (simp add: initializeUserGamingStats_def set_DEFAULT_USER_STATS_def)
  moreover have "list_all cred_email_ok (fst (updateOne_by_id uid reset_today ?db1))"
    using calculation by (rule cred_email_update) (simp_all add: reset_today_def)
  ultimately show ?thesis
    using ReqInitialize initialize_POST_db [of uid now "sys_db s"] by (elim disjE) simp_all
next
  case (ReqAssign uid now)
  have "list_all cred_email_ok (fst (updateOne_by_id uid (store_assignment (toDateString now) qs) (sys_db s)))"
    for qs using assms(2) by (rule cred_email_update) (simp_all add: store_assignment_def)
  with assign_POST_db [of c uid now "sys_db s" "sys_gen s"] assms(2)
  have "list_all cred_email_ok (snd (fst (assign_POST c (Some uid) now (sys_db s) (sys_gen s))))"
    by (elim disjE exE conjE) simp_all
  then show ?thesis using ReqAssign
    by (cases "assign_POST c (Some uid) now (sys_db s) (sys_gen s)") auto
next
  case (ReqComplete uid b now)
  have "list_all cred_email_ok (fst (updateOne_by_id uid (complete_update b now r) (sys_db s)))" for r
    using assms(2) by (rule cred_email_update) (simp_all add: complete_update_def Let_def split: prod.splits)
  with complete_POST_db_found [of c uid b now "sys_db s"] assms(2) ReqComplete show ?thesis
    by (elim disjE exE conjE) simp_all
next
  case (ReqUsername uid b)
  show ?thesis
  proof (cases "username_POST (Some uid) (Some b) (sys_db s)")
    case (Pair r db')
    have "list_all cred_email_ok (fst (updateOne_by_id uid (set_username t) (sys_db s)))" for t
      using assms(2) by (rule cred_email_update) (simp_all add: set_username_def)
    then show ?thesis
      using Pair ReqUsername assms(2) username_POST_ok [of "Some uid" "Some b" "sys_db s" _ _ db']
        username_POST_error [of "Some uid" "Some b" "sys_db s" _ _ db']
      by (cases r) auto
  qed
qed

lemma reachable_cred_email:
  assumes sound: "\<And>e. emailRegex_test e \<Longrightarrow> email_regex_lang e"
  shows "reachable c hash s \<Longrightarrow> list_all cred_email_ok (sys_db s)"
  by (induction rule: reachable.induct) (simp_all add: cred_email_step [OF sound])

section \<open>The sample trace\<close>

lemma demo_run:
  "sys_db (sys_run sample_catalog id demo_requests \<lparr>sys_db = [], sys_gen = sconst 0\<rparr>) =
     [set_username ''Hunter'' (registered_user ''r1'' ''a@x.io'' ''secret1'' 0),
      registered_user ''r2'' ''b@x.io'' ''secret2'' 0]"
  by (simp add: sys_run_def demo_requests_def register_POST_def emailRegex_test_def email_plain_def
      js_space_def insertOne_def username_POST_def js_trim_def username_char_def username_taken_def
      ci_equal_def ascii_lower_def char_of_def bit_0 updateOne_by_id_def set_username_def registered_user_def Let_def)

lemma distinct_map_eq:
  "distinct (map f xs) \<Longrightarrow> x \<in> set xs \<Longrightarrow> y \<in> set xs \<Longrightarrow> f x = f y \<Longrightarrow> x = y"
  by (auto simp: distinct_map inj_on_def)

lemma reachable_demo: "reachable sample_catalog id (sys_run sample_catalog id demo_requests \<lparr>sys_db = [], sys_gen = sconst 0\<rparr>)"
  by (rule reachable_run) (rule reach_init)

section \<open>Properties of the whole system\<close>

text \<open>
  C33. In every reachable state no two user documents share an id or an email: registration
  and the adapter refuse a used email, and no route changes either field.
\<close>

theorem reachable_ids_emails_unique:
  "reachable c hash s \<Longrightarrow> distinct (map doc_id (sys_db s)) \<and> distinct (map email (sys_db s))"
  using reachable_sys_inv by (simp add: sys_inv_def)

theorem reachable_ids_emails_unique_witness:
  "map email (sys_db (sys_run sample_catalog id demo_requests \<lparr>sys_db = [], sys_gen = sconst 0\<rparr>)) =
     [''a@x.io'', ''b@x.io''] \<and>
   distinct (map doc_id (sys_db (sys_run sample_catalog id demo_requests \<lparr>sys_db = [], sys_gen = sconst 0\<rparr>))) \<and>
   distinct (map email (sys_db (sys_run sample_catalog id demo_requests \<lparr>sys_db = [], sys_gen = sconst 0\<rparr>)))"
  using reachable_ids_emails_unique [OF reachable_demo] demo_run
  by (simp add: set_username_def registered_user_def)

text \<open>
  C34. In every reachable state two documents whose usernames are equal up to letter case
  belong to the same user: the username route's case-insensitive query is the only writer of
  usernames, and it refuses a name that is taken.
\<close>

theorem reachable_usernames_unique:
  assumes "reachable c hash s"
  shows "\<forall>d1 \<in> set (sys_db s). \<forall>d2 \<in> set (sys_db s). \<forall>a b.
           username d1 = Some a \<longrightarrow> username d2 = Some b \<longrightarrow> ci_equal a b \<longrightarrow> d1 = d2"
proof -
  have "sys_inv (sys_db s)" using assms by (rule reachable_sys_inv)
  then have "distinct (map doc_id (sys_db s))" and "names_unique (sys_db s)"
    by (simp_all add: sys_inv_def)
  then show ?thesis unfolding names_unique_def by (blast dest: distinct_map_eq)
qed

theorem reachable_usernames_unique_witness:
  "map username (sys_db (sys_run sample_catalog id demo_requests \<lparr>sys_db = [], sys_gen = sconst 0\<rparr>)) =
     [Some ''Hunter'', None] \<and>
   username (registered_user ''r2'' ''b@x.io'' ''secret2'' 0) \<noteq> Some ''HUNTER''"
proof -
  let ?d1 = "set_username ''Hunter'' (registered_user ''r1'' ''a@x.io'' ''secret1'' 0)"
  let ?d2 = "registered_user ''r2'' ''b@x.io'' ''secret2'' 0"
  have in_db: "?d1 \<in> set (sys_db (sys_run sample_catalog id demo_requests \<lparr>sys_db = [], sys_gen = sconst 0\<rparr>))"
    "?d2 \<in> set (sys_db (sys_run sample_catalog id demo_requests \<lparr>sys_db = [], sys_gen = sconst 0\<rparr>))"
    using demo_run by simp_all
  have "username ?d2 = Some ''HUNTER'' \<longrightarrow> ?d2 = ?d1"
    using reachable_usernames_unique [OF reachable_demo] in_db
    by (simp add: set_username_def ci_equal_def ascii_lower_def char_of_def bit_0)
  moreover have "?d2 \<noteq> ?d1" by (simp add: set_username_def registered_user_def)
  ultimately show ?thesis using demo_run by (simp add: set_username_def registered_user_def)
qed

text \<open>
  C35. In every reachable state the stored \<open>level\<close> of a document is the level
  \<open>calculateLevel\<close> derives from its stored \<open>totalXP\<close> (missing counting as 0), and a
  document without a level has no experience: the level is never ground truth of its own.
\<close>

theorem reachable_level_derived:
  assumes "reachable c hash s" and "d \<in> set (sys_db s)"
  shows "doc_level d = None \<and> totalXP d = None \<or>
         doc_level d = Some (level (calculateLevel (js_num_or (totalXP d) 0)))"
proof -
  have "lvl_ok d" using reachable_sys_inv [OF assms(1)] assms(2) by (simp add: sys_inv_def list_all_iff)
  then show ?thesis by (auto simp: lvl_ok_def split: option.splits)
qed

theorem reachable_level_derived_witness:
  "doc_level (registered_user ''r2'' ''b@x.io'' ''secret2'' 0) =
     Some (level (calculateLevel (js_num_or (totalXP (registered_user ''r2'' ''b@x.io'' ''secret2'' 0)) 0)))"
proof -
  have "registered_user ''r2'' ''b@x.io'' ''secret2'' 0 \<in>
      set (sys_db (sys_run sample_catalog id demo_requests \<lparr>sys_db = [], sys_gen = sconst 0\<rparr>))"
    using demo_run by simp
  from reachable_level_derived [OF reachable_demo this] show ?thesis
    by (simp add: registered_user_def)
qed

text \<open>
  C36. For a catalog with non-negative rewards, no request removes a user document or lowers
  its experience, whichever route serves it: a step from a reachable state keeps every
  document findable by its id with at least the experience it had.
\<close>

theorem step_xp_monotone:
  assumes "reachable c hash s" and "catalog_wf c" and "findOne_by_id uid (sys_db s) = Some d"
  shows "\<exists>d'. findOne_by_id uid (sys_db (sys_exec c hash rq s)) = Some d' \<and>
           js_num_or (totalXP d) 0 \<le> js_num_or (totalXP d') 0"
  using xp_kept_step [OF assms(1,2)] assms(3) by (simp add: xp_kept_def)

theorem step_xp_monotone_witness:
  "\<exists>d'. findOne_by_id ''r1'' (sys_db (sys_exec sample_catalog id (ReqComplete ''r1'' daily_body 1728000000000)
       (sys_run sample_catalog id demo_requests \<lparr>sys_db = [], sys_gen = sconst 0\<rparr>))) = Some d' \<and>
     0 \<le> js_num_or (totalXP d') 0"
proof -
  have f: "findOne_by_id ''r1'' (sys_db (sys_run sample_catalog id demo_requests \<lparr>sys_db = [], sys_gen = sconst 0\<rparr>)) =
      Some (set_username ''Hunter'' (registered_user ''r1'' ''a@x.io'' ''secret1'' 0))"
    using demo_run by (simp add: findOne_by_id_def)
  show ?thesis
    using step_xp_monotone [OF reachable_demo sample_catalog_wf f,
        where rq = "ReqComplete ''r1'' daily_body 1728000000000"]
    by (simp add: set_username_def registered_user_def)
qed

lemma demo_findOne_r1:
  "findOne_by_id ''r1'' (sys_db (sys_run sample_catalog id demo_requests \<lparr>sys_db = [], sys_gen = sconst 0\<rparr>)) =
     Some (set_username ''Hunter'' (registered_user ''r1'' ''a@x.io'' ''secret1'' 0))"
  using demo_run by (simp add: findOne_by_id_def)

text \<open>
  C21. In every reachable state every credentials account, a document with a stored
  password, has an email of the form \<open>local@domain.tld\<close> that the registration pattern
  \<open>/^[^\\s@]+@[^\\s@]+\\.[^\\s@]+$/\<close> describes: registration stores a password only with a
  checked email, Google accounts created by the adapter carry no password, and no other route
  writes the email or the password of a stored document.
\<close>

theorem reachable_credential_emails_valid:
  assumes "reachable c hash s" and "d \<in> set (sys_db s)" and "password d \<noteq> None"
  shows "email_regex_lang (email d)"
  using reachable_cred_email [OF emailRegex_test_sound assms(1)] assms(2,3)
  by (auto simp: list_all_iff cred_email_ok_def)

theorem reachable_credential_emails_valid_witness:
  "set_username ''Hunter'' (registered_user ''r1'' ''a@x.io'' ''secret1'' 0) \<in>
     set (sys_db (sys_run sample_catalog id demo_requests \<lparr>sys_db = [], sys_gen = sconst 0\<rparr>)) \<and>
   password (set_username ''Hunter'' (registered_user ''r1'' ''a@x.io'' ''secret1'' 0)) = Some ''secret1'' \<and>
   email_regex_lang ''a@x.io''"
proof -
  have m: "set_username ''Hunter'' (registered_user ''r1'' ''a@x.io'' ''secret1'' 0) \<in>
      set (sys_db (sys_run sample_catalog id demo_requests \<lparr>sys_db = [], sys_gen = sconst 0\<rparr>))"
    using demo_run by simp
  have p: "password (set_username ''Hunter'' (registered_user ''r1'' ''a@x.io'' ''secret1'' 0)) = Some ''secret1''"
    by (simp add: set_username_def registered_user_def)
  have "email_regex_lang (email (set_username ''Hunter'' (registered_user ''r1'' ''a@x.io'' ''secret1'' 0)))"
    using reachable_credential_emails_valid [OF reachable_demo m] p by simp
  with m p show ?thesis by (simp add: set_username_def registered_user_def)
qed

text \<open>
  C22. Every assignment stored in a reachable state is a list of template ids (the current
  \<open>StoredId\<close> format, never the legacy whole-template objects) and each id resolves against
  the catalog: the assign route's reuse path can always rebuild the day's quests.
\<close>

theorem reachable_assignments_resolve:
  assumes "reachable c hash s" and "catalog_wf c" and "d \<in> set (sys_db s)"
    and "assignedQuests d = Some a"
  shows "\<exists>ids. quests a = map StoredId ids \<and> list_all (\<lambda>i. getQuestTemplateById c i \<noteq> None) ids"
proof -
  have "stored_ids_ok c d"
    using reachable_stored_ids [OF assms(1,2)] assms(3) by (simp add: list_all_iff)
  with assms(4) show ?thesis by (simp add: stored_ids_ok_def list_all_stored_ids)
qed

theorem reachable_assignments_resolve_witness:
  "\<exists>ids. quests \<lparr>date = toDateString 0, quests = map (StoredId \<circ> quest_id)
                     (fst (run_state (draw_quests sample_catalog) (sconst 0)))\<rparr> = map StoredId ids \<and>
     list_all (\<lambda>i. getQuestTemplateById sample_catalog i \<noteq> None) ids"
proof -
  let ?s = "sys_run sample_catalog id demo_requests \<lparr>sys_db = [], sys_gen = sconst 0\<rparr>"
  let ?d1 = "set_username ''Hunter'' (registered_user ''r1'' ''a@x.io'' ''secret1'' 0)"
  let ?qs = "fst (run_state (draw_quests sample_catalog) (sys_gen ?s))"
  have g: "sys_gen ?s = sconst 0"
    by (simp add: sys_run_def demo_requests_def)
  have a: "assign_POST sample_catalog (Some ''r1'') 0 (sys_db ?s) (sys_gen ?s) =
      ((OkResp 200 \<lparr>resp_message = ''New quests assigned successfully'', assignedQuests_resp = ?qs\<rparr>,
        fst (updateOne_by_id ''r1'' (store_assignment (toDateString 0) ?qs) (sys_db ?s))),
       snd (run_state (draw_quests sample_catalog) (sys_gen ?s)))"
    by (rule assign_POST_drawn [OF demo_findOne_r1])
      (simp_all add: existing_assignment_def store_assignment_def set_username_def registered_user_def)
  have "findOne_by_id ''r1'' (fst (updateOne_by_id ''r1'' (store_assignment (toDateString 0) ?qs) (sys_db ?s))) =
      Some (store_assignment (toDateString 0) ?qs ?d1)"
    using demo_findOne_r1 by (simp add: updateOne_find_self)
  then have mem: "store_assignment (toDateString 0) ?qs ?d1 \<in>
      set (sys_db (sys_exec sample_catalog id (ReqAssign ''r1'' 0) ?s))"
    using a findOne_by_id_Some by simp
  have r: "reachable sample_catalog id (sys_exec sample_catalog id (ReqAssign ''r1'' 0) ?s)"
    by (rule reach_step [OF reachable_demo])
  show ?thesis
    using reachable_assignments_resolve [OF r sample_catalog_wf mem] g
    by (simp add: store_assignment_def)
qed

text \<open>
  C29. No user is ever locked out of the daily set: from every reachable state, on any day
  after the user's last completion, the dashboard's daily request succeeds and records the
  daily set as completed on that day.
\<close>

theorem daily_set_eventually_accepted:
  assumes "reachable c hash s" and "catalog_wf c" and u: "findOne_by_id uid (sys_db s) = Some u"
    and later: "\<forall>d. lastQuestDate u = Some d \<longrightarrow> toDateString d < toDateString t"
  shows "\<exists>u'. findOne_by_id uid (sys_db (sys_exec c hash (ReqComplete uid (daily_request c) t) s)) = Some u' \<and>
           hasCompletedDailyStrength u' = Some True \<and> lastQuestDate u' = Some t \<and>
           reachable c hash (sys_exec c hash (ReqComplete uid (daily_request c) t) s)"
proof -
  have "length (map name (DAILY_STRENGTH_QUESTS c)) = 4" using assms(2) by (simp add: catalog_wf_def)
  moreover have "\<forall>d. lastQuestDate u = Some d \<longrightarrow> toDateString d \<noteq> toDateString t" using later by auto
  ultimately obtain v x st k where ok: "complete_POST c (Some uid) (Some (daily_request c)) t (sys_db s) =
      (OkResp 200 v, fst (updateOne_by_id uid (complete_update (daily_request c) t (x, st, k)) (sys_db s)))"
    using complete_POST_daily_new_day [OF u, of "daily_request c" _ c t] daily_names_ok_all [of c]
    by (auto simp: daily_request_def)
  have "findOne_by_id uid (fst (updateOne_by_id uid (complete_update (daily_request c) t (x, st, k)) (sys_db s))) =
      Some (complete_update (daily_request c) t (x, st, k) u)"
    using u by (simp add: updateOne_find_self)
  moreover have "sys_db (sys_exec c hash (ReqComplete uid (daily_request c) t) s) =
      fst (updateOne_by_id uid (complete_update (daily_request c) t (x, st, k)) (sys_db s))"
    using ok by simp
  moreover have "questType (daily_request c) = Some ''daily_strength''" by (simp add: daily_request_def)
  ultimately show ?thesis using reach_step [OF assms(1), of "ReqComplete uid (daily_request c) t"] by simp
qed

theorem daily_set_eventually_accepted_witness:
  "\<exists>u'. findOne_by_id ''r1'' (sys_db (sys_exec sample_catalog id
       (ReqComplete ''r1'' (daily_request sample_catalog) 1728000000000)
       (sys_run sample_catalog id demo_requests \<lparr>sys_db = [], sys_gen = sconst 0\<rparr>))) = Some u' \<and>
     hasCompletedDailyStrength u' = Some True \<and> lastQuestDate u' = Some 1728000000000"
  using daily_set_eventually_accepted [OF reachable_demo sample_catalog_wf demo_findOne_r1,
      where t = 1728000000000]
  by (simp add: set_username_def registered_user_def) blast

end
