(* ===== verification/Pages.thy ===== *)
theory Pages
  imports Auth Username_Route Initialize_Route Level
begin

text \<open>
  The remaining pages and components of the two applications, as the values they compute
  from what the routes return: the profile page of \<open>health-leveling\<close>
  (\<open>app/profile/page.tsx\<close>), the quest list components (\<open>components/QuestStatContainerProps.tsx\<close>,
  \<open>components/QuestCard.tsx\<close>) and the sign-in and registration form of \<open>solo-leveling\<close>
  (\<open>app/page.tsx\<close>). Markup and styling are not modelled; a value the markup reads and a
  property access that throws during rendering are.
\<close>

section \<open>Profile page\<close>

text \<open>
  \<open>calculateLevel(userData.totalXP)\<close> (line 89) on a document without \<open>totalXP\<close>: the loop
  test \<open>undefined >= 100\<close> is false, so the level is 1, \<open>currentXP\<close> is \<open>undefined\<close>
  (\<open>None\<close>) and 100 is required.
\<close>

definition profile_level :: "int option \<Rightarrow> int \<times> int option \<times> int" where
  "profile_level v =
     (case v of
        None \<Rightarrow> (1, None, 100)
      | Some x \<Rightarrow> (level (calculateLevel x), Some x, xpRequired (calculateLevel x)))"

text \<open>What the profile shows (lines 116--215); \<open>None\<close> for a number is \<open>NaN\<close>/\<open>undefined\<close>.\<close>

record profile_display =
  pd_level :: int
  pd_currentXP :: "int option"
  pd_xpRequired :: int
  pd_toNext :: "int option"
  pd_streak :: int
  pd_username :: string
  pd_email :: string
  pd_totalXP :: "int option"
  pd_stats :: stats_rec

datatype profile_outcome = ProfileBlank | ProfileCrash | ProfileShown profile_display

text \<open>
  The render of lines 81--215: nothing without user data; otherwise the display, unless
  \<open>userData.stats.strength\<close> (line 180) reads a field of a missing \<open>stats\<close>, which throws.
  \<open>x || 'Not Provided'\<close> shows the text for an empty string, and for \<open>totalXP\<close> also for 0.
\<close>

definition profile_render :: "user_doc option \<Rightarrow> profile_outcome" where
  "profile_render ud =
     (case ud of
        None \<Rightarrow> ProfileBlank
      | Some u \<Rightarrow>
          (case stats u of
             None \<Rightarrow> ProfileCrash
           | Some st \<Rightarrow>
               (case profile_level (totalXP u) of (lv, cur, req) \<Rightarrow>
                  ProfileShown
                    \<lparr>pd_level = lv, pd_currentXP = cur, pd_xpRequired = req,
                     pd_toNext = map_option (\<lambda>x. req - x) cur,
                     pd_streak = js_num_or (streakDays u) 0,
                     pd_username = js_str_or (username u) ''Not Provided'',
                     pd_email = js_str_or (Some (email u)) ''Not Provided'',
                     pd_totalXP = (case totalXP u of Some x \<Rightarrow> if x = 0 then None else Some x | None \<Rightarrow> None),
                     pd_stats = st\<rparr>)))"

text \<open>
  \<open>fetchUserData\<close> (lines 49--71): the user data the page renders, from the initialise
  response.
\<close>

definition profile_fetch :: "init_ok response \<Rightarrow> user_doc option" where
  "profile_fetch r = (case r of OkResp _ d \<Rightarrow> userData d | ErrorResp _ _ \<Rightarrow> None)"

section \<open>Quest list components\<close>

text \<open>\<open>getStatImage(stat)\<close> (lines 30--38): the image of a category, by lower-cased name.\<close>

definition getStatImage :: "string \<Rightarrow> string" where
  "getStatImage s =
     (let k = map ascii_lower s in
      if k = ''agility'' then ''/images/quests/agility.jpg''
      else if k = ''vitality'' then ''/images/quests/vitality.png''
      else if k = ''intelligence'' then ''/images/quests/intelligence.png''
      else if k = ''sense'' then ''/images/quests/sense.jpg''
      else [])"

text \<open>\<open>quests.every(quest => completedQuests.includes(quest.name))\<close> (line 39).\<close>

definition allQuestsCompleted :: "quest_template list \<Rightarrow> string list \<Rightarrow> bool" where
  "allQuestsCompleted qs completed = list_all (\<lambda>q. name q \<in> set completed) qs"

text \<open>A rendered card (\<open>QuestCard\<close>): name, the progress \<open>[done/target unit]\<close>, animation.\<close>

record card_view =
  cv_name :: string
  cv_done :: int
  cv_target :: int
  cv_unit :: "string option"
  cv_animating :: bool
  cv_textInput :: bool

text \<open>
  \<open>QuestCard\<close> (lines 16--73) for one template. The container passes
  \<open>hasTextInput={quest.hasTextInput}\<close>, a field the templates do not have (they carry
  \<open>requiresNote\<close>), so the default \<open>false\<close> applies and the note field is never shown.
\<close>

definition quest_card :: "quest_template \<Rightarrow> string list \<Rightarrow> string list \<Rightarrow> card_view" where
  "quest_card q completed animating =
     \<lparr>cv_name = name q, cv_done = (if name q \<in> set completed then target q else 0),
      cv_target = target q, cv_unit = quest_unit q, cv_animating = name q \<in> set animating,
      cv_textInput = False\<rparr>"

datatype stat_panel = PanelDone string | PanelCards string "card_view list"

text \<open>
  \<open>QuestStatContainer\<close> (lines 13--87): the completion message when every quest of the
  category is done, otherwise a card for each quest that is not done or still animating.
\<close>

definition quest_stat_container ::
  "string \<Rightarrow> quest_template list \<Rightarrow> string list \<Rightarrow> string list \<Rightarrow> stat_panel" where
  "quest_stat_container statName qs completed animating =
     (if allQuestsCompleted qs completed then PanelDone (getStatImage statName)
      else PanelCards (getStatImage statName)
             (map (\<lambda>q. quest_card q completed animating)
                (filter (\<lambda>q. \<not> (name q \<in> set completed \<and> name q \<notin> set animating)) qs)))"

section \<open>Sign-in and registration form\<close>

record landing_state =
  isRegister :: bool
  l_email :: string
  l_password :: string
  l_confirm :: string
  l_error :: string

datatype landing_request = SendRegister register_body | SendSignIn credentials

text \<open>
  \<open>onSubmit\<close> (lines 39--49, 51--55, 72--76): the request the form sends, or the error it
  shows without sending anything.
\<close>

definition landing_submit :: "landing_state \<Rightarrow> landing_state \<times> landing_request option" where
  "landing_submit st =
     (if isRegister st then
        (if l_password st \<noteq> l_confirm st
         then (st\<lparr>l_error := ''Passwords do not match''\<rparr>, None)
         else (st\<lparr>l_error := []\<rparr>,
               Some (SendRegister \<lparr>reg_email = Some (l_email st), reg_password = Some (l_password st)\<rparr>)))
      else (st\<lparr>l_error := []\<rparr>,
            Some (SendSignIn \<lparr>cred_email = Some (l_email st), cred_password = Some (l_password st)\<rparr>)))"

text \<open>The handling of the registration response (lines 56--66): success switches to sign-in.\<close>

definition landing_register_result :: "landing_state \<Rightarrow> register_ok response \<Rightarrow> landing_state" where
  "landing_register_result st r =
     (case r of
        OkResp _ _ \<Rightarrow> st\<lparr>isRegister := False, l_email := [], l_password := [], l_confirm := []\<rparr>
      | ErrorResp _ m \<Rightarrow> st\<lparr>l_error := (if m = [] then ''Registration failed'' else m)\<rparr>)"

text \<open>The handling of the sign-in result (lines 78--80).\<close>

definition landing_signin_result :: "landing_state \<Rightarrow> auth_user option \<Rightarrow> landing_state" where
  "landing_signin_result st a =
     (case a of None \<Rightarrow> st\<lparr>l_error := ''Invalid email or password''\<rparr> | Some _ \<Rightarrow> st)"

text \<open>\<open>toggleMode\<close> (lines 88--94).\<close>

definition toggleMode :: "landing_state \<Rightarrow> landing_state" where
  "toggleMode st = st\<lparr>isRegister := \<not> isRegister st, l_error := [], l_email := [], l_password := [],
                      l_confirm := []\<rparr>"

section \<open>Facts\<close>

text \<open>What initialise returns to a user who registered with credentials: the stored document.\<close>

lemma initialize_after_register:
  assumes "register_POST hash oid body t db = (OkResp st r, db')"
  shows "\<exists>e h. initialize_POST (Some oid) now db' =
           (OkResp 200 \<lparr>userData = Some (registered_user oid e h t), wasInitialized = False\<rparr>, db')"
proof -
  obtain e p where fresh: "oid \<notin> doc_id ` set db"
    and db': "db' = insertOne (registered_user oid e (hash p) t) db"
    using register_POST_ok [OF assms] by blast
  have f: "findOne_by_id oid db' = Some (registered_user oid e (hash p) t)"
    using findOne_after_insert [OF fresh] db' by (simp add: registered_user_def)
  show ?thesis
    using initialize_POST_has_stats [OF f] by (simp add: registered_user_def)
qed

section \<open>Properties of the pages\<close>

text \<open>
  C13. The profile page cannot be shown to a user who registered with credentials: the
  registration stores no \<open>stats\<close>, initialise leaves the document as it is (it has a level),
  and rendering \<open>userData.stats.strength\<close> then throws.
\<close>

theorem profile_crashes_after_registration:
  assumes "register_POST hash oid body t db = (OkResp st r, db')"
  shows "profile_render (profile_fetch (fst (initialize_POST (Some oid) now db'))) = ProfileCrash"
proof -
  obtain e h where "initialize_POST (Some oid) now db' =
      (OkResp 200 \<lparr>userData = Some (registered_user oid e h t), wasInitialized = False\<rparr>, db')"
    using initialize_after_register [OF assms] by blast
  then show ?thesis by (simp add: profile_fetch_def profile_render_def registered_user_def)
qed

theorem profile_crashes_after_registration_witness:
  "profile_render (profile_fetch (fst (initialize_POST (Some ''r1'') 0
      [registered_user ''r1'' ''hunter@mail.com'' ''secret1'' 0]))) = ProfileCrash"
proof -
  have r: "register_POST id ''r1''
      (Some \<lparr>reg_email = Some ''hunter@mail.com'', reg_password = Some ''secret1''\<rparr>) 0 [] =
      (OkResp 201 \<lparr>reg_message = ''User registered successfully'', userId = ''r1''\<rparr>,
       [registered_user ''r1'' ''hunter@mail.com'' ''secret1'' 0])"
    by (simp add: register_POST_def emailRegex_test_def email_plain_def js_space_def insertOne_def)
  show ?thesis using profile_crashes_after_registration [OF r] by simp
qed

end
