(* ===== verification/Progression_Spec.thy ===== *)
theory Progression_Spec
  imports Complete_Route Initialize_Route
begin

text \<open>
  The contract of the progression engine as the specification states it (sections 3, 4.3
  and 4.4 of \<open>spec.md\<close>), over an abstract \<open>UserProgression\<close>, and the refinement of
  that contract by the completion route of \<open>Complete_Route\<close>. The abstraction
  \<open>prog_of\<close> reads a stored user document the way the handler reads it (the \<open>||\<close>
  defaults of lines 30--36 of \<open>quests/complete/route.ts\<close>); \<open>prog_ready\<close> names
  the documents on which it is faithful, which the initialise route establishes for the
  current day.
\<close>

section \<open>The abstract progression engine\<close>

record progression =
  cumulativeExperience :: int
  pstats :: stats_rec
  pstreakDays :: int
  lastCompletionDate :: "day option"
  completedToday :: "string list"
  dailySetCompletedToday :: bool

datatype prog_error = InvalidRequest | AlreadyCompleted | UnknownQuest

datatype completion = CompleteDaily "string list" | CompleteIndividual string

text \<open>A reward applied to the stat of one category, every other stat unchanged.\<close>

definition stats_add :: "stat \<Rightarrow> int \<Rightarrow> stats_rec \<Rightarrow> stats_rec" where
  "stats_add k r s =
     \<lparr>strength = strength s + (if k = Strength then r else 0),
      agility = agility s + (if k = Agility then r else 0),
      vitality = vitality s + (if k = Vitality then r else 0),
      intelligence = intelligence s + (if k = Intelligence then r else 0),
      sense = sense s + (if k = Sense then r else 0)\<rparr>"

text \<open>The daily reset policy \<open>normalize(progression, today)\<close> (section 4.4).\<close>

definition normalize :: "progression \<Rightarrow> day \<Rightarrow> progression" where
  "normalize p today =
     (case lastCompletionDate p of
        None \<Rightarrow> p
      | Some d \<Rightarrow> if d = today then p else p\<lparr>completedToday := [], dailySetCompletedToday := False\<rparr>)"

text \<open>
  The streak transition (section 4.3). The specification calls the case of a previous
  completion today unreachable; it is reached after an individual completion earlier the
  same day, and the definition keeps the streak there.
\<close>

definition streak_transition :: "day option \<Rightarrow> int \<Rightarrow> day \<Rightarrow> int" where
  "streak_transition prev k today =
     (case prev of
        None \<Rightarrow> 1
      | Some d \<Rightarrow> if d = today - 1 then k + 1 else if d = today then k else 1)"

definition completeDaily ::
  "catalog \<Rightarrow> string list \<Rightarrow> day \<Rightarrow> progression \<Rightarrow> prog_error + progression" where
  "completeDaily c names today p0 =
     (let p = normalize p0 today; ds = DAILY_STRENGTH_QUESTS c in
      if \<not> (length names = 4 \<and> set names = set (map name ds)) then Inl InvalidRequest
      else if dailySetCompletedToday p then Inl AlreadyCompleted
      else Inr (p\<lparr>cumulativeExperience := cumulativeExperience p + sum_list (map xpReward ds),
                  pstats := stats_add Strength (sum_list (map statReward ds)) (pstats p),
                  pstreakDays := streak_transition (lastCompletionDate p) (pstreakDays p) today,
                  lastCompletionDate := Some today,
                  dailySetCompletedToday := True\<rparr>))"

definition completeIndividual ::
  "catalog \<Rightarrow> string \<Rightarrow> day \<Rightarrow> progression \<Rightarrow> prog_error + progression" where
  "completeIndividual c n today p0 =
     (let p = normalize p0 today in
      if n \<in> set (completedToday p) then Inl AlreadyCompleted
      else (case find_quest_by_name c n of
              None \<Rightarrow> Inl UnknownQuest
            | Some q \<Rightarrow>
                Inr (p\<lparr>cumulativeExperience := cumulativeExperience p + xpReward q,
                       pstats := stats_add (stat q) (statReward q) (pstats p),
                       completedToday := completedToday p @ [n],
                       lastCompletionDate := Some today\<rparr>)))"

primrec spec_complete ::
  "catalog \<Rightarrow> completion \<Rightarrow> day \<Rightarrow> progression \<Rightarrow> prog_error + progression" where
  "spec_complete c (CompleteDaily ns) today p = completeDaily c ns today p"
| "spec_complete c (CompleteIndividual n) today p = completeIndividual c n today p"

text \<open>
  The catalog requirement of section 9: no rotating quest shares its name with a quest of
  the daily set.
\<close>

definition daily_names_separate :: "catalog \<Rightarrow> bool" where
  "daily_names_separate c \<longleftrightarrow>
     list_all (\<lambda>q. name q \<notin> set (map name (DAILY_STRENGTH_QUESTS c))) (all_rotating_quests c)"

text \<open>An individual completion names a rotating quest; the daily set always resolves.\<close>

primrec completion_known :: "catalog \<Rightarrow> completion \<Rightarrow> bool" where
  "completion_known c (CompleteDaily ns) = True"
| "completion_known c (CompleteIndividual n) = (find_quest_by_name c n \<noteq> None)"

section \<open>Abstraction of the stored document\<close>

text \<open>
  The request a completion body stands for: the \<open>daily_strength\<close> type with its names,
  or the \<open>individual\<close> type with exactly one name; other bodies have no counterpart.
\<close>

definition completion_of :: "complete_body \<Rightarrow> completion option" where
  "completion_of b =
     (case completedQuests b of
        None \<Rightarrow> None
      | Some qs \<Rightarrow>
          if questType b = Some ''daily_strength'' then Some (CompleteDaily qs)
          else if questType b = Some ''individual'' \<and> length qs = 1 then Some (CompleteIndividual (hd qs))
          else None)"

text \<open>
  The progression a document stands for, read as the handler reads it. The stored list of
  completed names also holds the daily names after a daily completion (line 132 stores the
  submitted list); the daily set is tracked by \<open>hasCompletedDailyStrength\<close>, so the
  abstraction drops those names.
\<close>

definition prog_of :: "catalog \<Rightarrow> user_doc \<Rightarrow> progression" where
  "prog_of c u =
     \<lparr>cumulativeExperience = js_num_or (totalXP u) 0, pstats = current_stats u,
      pstreakDays = js_num_or (streakDays u) 0,
      lastCompletionDate = map_option toDateString (lastQuestDate u),
      completedToday = filter (\<lambda>n. n \<notin> set (map name (DAILY_STRENGTH_QUESTS c))) (completed_today u),
      dailySetCompletedToday = (hasCompletedDailyStrength u = Some True)\<rparr>"

definition stats_nonneg :: "stats_rec \<Rightarrow> bool" where
  "stats_nonneg s \<longleftrightarrow>
     0 \<le> strength s \<and> 0 \<le> agility s \<and> 0 \<le> vitality s \<and> 0 \<le> intelligence s \<and> 0 \<le> sense s"

definition stats_pos :: "stats_rec \<Rightarrow> bool" where
  "stats_pos s \<longleftrightarrow>
     0 < strength s \<and> 0 < agility s \<and> 0 < vitality s \<and> 0 < intelligence s \<and> 0 < sense s"

text \<open>
  A document is ready for a completion at \<open>now\<close> when its stats are non-negative, a
  document without a completion has no streak and no completions, and the per-day fields of
  a document last completed on another day have been cleared.
\<close>

definition prog_ready :: "timestamp \<Rightarrow> user_doc \<Rightarrow> bool" where
  "prog_ready now u \<longleftrightarrow>
     (case stats u of None \<Rightarrow> True | Some st \<Rightarrow> stats_nonneg st) \<and>
     (case lastQuestDate u of
        None \<Rightarrow> js_num_or (streakDays u) 0 = 0 \<and> completed_today u = [] \<and>
                hasCompletedDailyStrength u \<noteq> Some True
      | Some d \<Rightarrow> toDateString d = toDateString now \<or>
                  (completed_today u = [] \<and> hasCompletedDailyStrength u \<noteq> Some True))"

section \<open>Stats read back\<close>

lemma add_stat_spec: "add_stat k r s = stats_add k r s"
  by (cases s, cases k) (simp_all add: stats_add_def)

lemma stats_add_Strength: "stats_add Strength r s = s\<lparr>strength := strength s + r\<rparr>"
  by (cases s) (simp add: stats_add_def)

lemma js_num_or_zero_default: "js_num_or v 0 = 0 \<Longrightarrow> js_num_or v d = d"
  by (cases v) auto

lemma stats_pos_current:
  "(case stats u of None \<Rightarrow> True | Some st \<Rightarrow> stats_nonneg st) \<Longrightarrow> stats_pos (current_stats u)"
  by (cases "stats u") (auto simp: current_stats_def stats_nonneg_def stats_pos_def)

lemma current_stats_stored: "stats u = Some st \<Longrightarrow> stats_pos st \<Longrightarrow> current_stats u = st"
  by (simp add: current_stats_def stats_pos_def)

lemma stats_pos_add_stat: "stats_pos st \<Longrightarrow> 0 \<le> r \<Longrightarrow> stats_pos (add_stat s r st)"
  by (cases s) (simp_all add: stats_pos_def)

lemma stats_pos_add_strength:
  "stats_pos st \<Longrightarrow> 0 \<le> r \<Longrightarrow> stats_pos (st\<lparr>strength := strength st + r\<rparr>)"
  by (simp add: stats_pos_def)

lemma daily_reward_nonneg:
  "catalog_wf c \<Longrightarrow> 0 \<le> sum_list (map statReward (DAILY_STRENGTH_QUESTS c))"
  by (rule sum_list_nonneg) (auto dest: catalog_wf_rewards(1))

lemma daily_set_names:
  assumes "catalog_wf c" and "length qs = 4" and "daily_names_ok c qs"
  shows "set qs = set (map name (DAILY_STRENGTH_QUESTS c))"
proof -
  have "mset qs = mset (map name (DAILY_STRENGTH_QUESTS c))"
    by (rule mset_eq_of_names) (use assms in \<open>auto simp: catalog_wf_def daily_names_ok_def list_all_iff\<close>)
  then show ?thesis by (metis set_mset_mset)
qed

section \<open>The updated document, abstracted\<close>

lemma prog_of_daily_update:
  assumes "questType b = Some ''daily_strength''" and "completedQuests b = Some qs"
    and "set qs \<subseteq> set (map name (DAILY_STRENGTH_QUESTS c))" and "stats_pos st"
  shows "prog_of c (complete_update b now (x, st, k) u) =
    \<lparr>cumulativeExperience = x, pstats = st, pstreakDays = k,
     lastCompletionDate = Some (toDateString now), completedToday = [],
     dailySetCompletedToday = True\<rparr>"
proof -
  have "filter (\<lambda>n. n \<notin> set (map name (DAILY_STRENGTH_QUESTS c))) qs = []"
    using assms(3) by (auto simp: filter_empty_conv)
  then show ?thesis
    using assms by (simp add: prog_of_def current_stats_stored new_completed_def completed_today_def)
qed

lemma prog_of_individual_update:
  assumes "questType b = Some ''individual''" and "completedQuests b = Some [n]"
    and "n \<notin> set (map name (DAILY_STRENGTH_QUESTS c))" and "stats_pos st"
  shows "prog_of c (complete_update b now (x, st, k) u) =
    (prog_of c u)\<lparr>cumulativeExperience := x, pstats := st,
       lastCompletionDate := Some (toDateString now),
       completedToday := completedToday (prog_of c u) @ [n]\<rparr>"
  using assms by (simp add: prog_of_def current_stats_stored new_completed_def completed_today_def)

text \<open>On a ready document the daily reset policy has nothing left to do.\<close>

lemma normalize_ready: "prog_ready now u \<Longrightarrow> normalize (prog_of c u) (toDateString now) = prog_of c u"
  by (auto simp: normalize_def prog_ready_def prog_of_def split: option.splits)

section \<open>Each accepted branch implements the contract\<close>

lemma daily_branch_refines:
  assumes wf: "catalog_wf c" and ready: "prog_ready now u"
    and b: "questType b = Some ''daily_strength''" "completedQuests b = Some qs"
    and br: "complete_branch c u b now = Inr (x, st, k)"
  shows "completeDaily c qs (toDateString now) (prog_of c u) =
           Inr (prog_of c (complete_update b now (x, st, k) u))"
proof -
  let ?ds = "DAILY_STRENGTH_QUESTS c"
  have dbr: "daily_strength_branch c u (Some qs) now (js_num_or (totalXP u) 0) (current_stats u)
      (js_num_or (streakDays u) 1) = Inr (x, st, k)"
    using br b by (simp add: complete_branch_daily)
  then have l: "length qs = 4" and ok: "daily_names_ok c qs"
    by (auto simp: daily_strength_branch_def split: if_splits)
  have names: "set qs = set (map name ?ds)" using daily_set_names [OF wf l ok] .
  have x: "x = js_num_or (totalXP u) 0 + sum_list (map xpReward ?ds)"
    and st: "st = (current_stats u)\<lparr>strength := strength (current_stats u) + sum_list (map statReward ?ds)\<rparr>"
    using dbr l ok by (auto simp: daily_strength_branch_def Let_def split: option.splits if_splits)
  have "stats_pos (current_stats u)"
    using ready by (intro stats_pos_current) (simp add: prog_ready_def)
  then have pos: "stats_pos st"
    unfolding st by (intro stats_pos_add_strength daily_reward_nonneg wf)
  have post: "prog_of c (complete_update b now (x, st, k) u) =
      \<lparr>cumulativeExperience = x, pstats = st, pstreakDays = k,
       lastCompletionDate = Some (toDateString now), completedToday = [],
       dailySetCompletedToday = True\<rparr>"
    using b names pos by (intro prog_of_daily_update) auto
  show ?thesis
  proof (cases "lastQuestDate u")
    case None
    then have "k = 1" and "completed_today u = []" and "hasCompletedDailyStrength u \<noteq> Some True"
      using dbr ready l ok
      by (auto simp: daily_strength_branch_def prog_ready_def Let_def intro: js_num_or_zero_default)
    with None show ?thesis
      using l names unfolding post
      by (simp add: x st completeDaily_def normalize_def prog_of_def streak_transition_def Let_def
          stats_add_Strength)
  next
    case (Some d)
    then have new: "toDateString d \<noteq> toDateString now"
      and k: "k = (if toDateString d = toDateString now - 1 then js_num_or (streakDays u) 0 + 1 else 1)"
      using dbr l ok by (auto simp: daily_strength_branch_def Let_def split: if_splits)
    with Some show ?thesis
      using l names unfolding post
      by (simp add: x st completeDaily_def normalize_def prog_of_def streak_transition_def Let_def
          stats_add_Strength)
  qed
qed

lemma individual_branch_refines:
  assumes wf: "catalog_wf c" and sep: "daily_names_separate c" and ready: "prog_ready now u"
    and b: "questType b = Some ''individual''" "completedQuests b = Some [n]"
    and br: "complete_branch c u b now = Inr (x, st, k)"
  shows "completeIndividual c n (toDateString now) (prog_of c u) =
    (case find_quest_by_name c n of
       None \<Rightarrow> Inl UnknownQuest
     | Some q \<Rightarrow> Inr (prog_of c (complete_update b now (x, st, k) u)))"
proof -
  have nb: "n \<notin> set (completed_today u)"
    and r: "(x, st) = reward_names c [n] (js_num_or (totalXP u) 0, current_stats u)"
    using br b by (auto simp: complete_branch_individual individual_branch_def split: if_splits sum.splits prod.splits)
  have fresh: "n \<notin> set (completedToday (prog_of c u))" using nb by (simp add: prog_of_def)
  show ?thesis
  proof (cases "find_quest_by_name c n")
    case None
    with fresh normalize_ready [OF ready] show ?thesis by (simp add: completeIndividual_def)
  next
    case (Some q)
    then have q: "q \<in> set (all_rotating_quests c)" "name q = n" by (auto dest: find_quest_by_name_Some)
    then have nd: "n \<notin> set (map name (DAILY_STRENGTH_QUESTS c))"
      using sep by (auto simp: daily_names_separate_def list_all_iff)
    have x: "x = js_num_or (totalXP u) 0 + xpReward q"
      and st: "st = add_stat (stat q) (statReward q) (current_stats u)"
      using r Some by (simp_all add: reward_names_def)
    have "stats_pos (current_stats u)"
      using ready by (intro stats_pos_current) (simp add: prog_ready_def)
    then have pos: "stats_pos st"
      unfolding st using catalog_wf_rewards(2) [OF wf q(1)] by (simp add: stats_pos_add_stat)
    have spec: "completeIndividual c n (toDateString now) (prog_of c u) =
        Inr ((prog_of c u)\<lparr>cumulativeExperience := cumulativeExperience (prog_of c u) + xpReward q,
           pstats := stats_add (stat q) (statReward q) (pstats (prog_of c u)),
           completedToday := completedToday (prog_of c u) @ [n],
           lastCompletionDate := Some (toDateString now)\<rparr>)"
      using Some fresh normalize_ready [OF ready] by (simp add: completeIndividual_def Let_def)
    have sel: "cumulativeExperience (prog_of c u) = js_num_or (totalXP u) 0"
      "pstats (prog_of c u) = current_stats u"
      by (simp_all add: prog_of_def)
    show ?thesis
      using Some spec prog_of_individual_update [OF b nd pos] by (simp add: sel x st add_stat_spec)
  qed
qed

lemma complete_branch_refines:
  assumes wf: "catalog_wf c" and sep: "daily_names_separate c" and ready: "prog_ready now u"
    and r: "completion_of b = Some r" and br: "complete_branch c u b now = Inr (x, st, k)"
  shows "spec_complete c r (toDateString now) (prog_of c u) =
    (if completion_known c r then Inr (prog_of c (complete_update b now (x, st, k) u))
     else Inl UnknownQuest)"
proof -
  obtain qs where qs: "completedQuests b = Some qs"
    using r by (cases "completedQuests b") (auto simp: completion_of_def)
  show ?thesis
  proof (cases "questType b = Some ''daily_strength''")
    case True
    then have "r = CompleteDaily qs" using r qs by (simp add: completion_of_def)
    with daily_branch_refines [OF wf ready True qs br] show ?thesis by simp
  next
    case False
    then have ind: "questType b = Some ''individual''" and "length qs = 1"
      and rn: "r = CompleteIndividual (hd qs)"
      using r qs by (auto simp: completion_of_def split: if_splits)
    then have qs1: "completedQuests b = Some [hd qs]" using qs by (cases qs) auto
    from individual_branch_refines [OF wf sep ready ind qs1 br] rn show ?thesis
      by (simp split: option.splits)
  qed
qed

text \<open>A successful request, abstracted: the stored document and the level of the response.\<close>

lemma complete_POST_ok_refines:
  assumes wf: "catalog_wf c" and sep: "daily_names_separate c"
    and u: "findOne_by_id uid db = Some u" and ready: "prog_ready now u"
    and r: "completion_of b = Some r"
    and ok: "complete_POST c (Some uid) (Some b) now db = (OkResp s v, db')"
  shows "\<exists>u' x. findOne_by_id uid db' = Some u' \<and> levelInfo v = calculateLevel x \<and>
     cumulativeExperience (prog_of c u') = x \<and>
     spec_complete c r (toDateString now) (prog_of c u) =
       (if completion_known c r then Inr (prog_of c u') else Inl UnknownQuest)"
proof -
  obtain b' u0 x st k where "Some b = Some b'" and u0: "findOne_by_id uid db = Some u0"
    and br: "complete_branch c u0 b' now = Inr (x, st, k)"
    and db': "db' = fst (updateOne_by_id uid (complete_update b' now (x, st, k)) db)"
    and lv: "levelInfo v = calculateLevel x"
    using complete_POST_ok_inv [OF ok] by blast
  then have "b' = b" and "u0 = u" using u by simp_all
  with br db' have br': "complete_branch c u b now = Inr (x, st, k)"
    and f: "findOne_by_id uid db' = Some (complete_update b now (x, st, k) u)"
    using u by (simp_all add: updateOne_find_self)
  have "cumulativeExperience (prog_of c (complete_update b now (x, st, k) u)) = x"
    by (simp add: prog_of_def)
  with f lv complete_branch_refines [OF wf sep ready r br'] show ?thesis by blast
qed

lemma completed_today_grows: "questsCompletedToday u \<noteq> Some (completed_today u @ [n])"
  by (cases "questsCompletedToday u") (simp_all add: completed_today_def)

lemma spec_accepts_branch:
  assumes wf: "catalog_wf c" and sep: "daily_names_separate c" and ready: "prog_ready now u"
    and r: "completion_of b = Some r"
    and acc: "spec_complete c r (toDateString now) (prog_of c u) = Inr p'"
    and day: "case r of CompleteDaily _ \<Rightarrow> map_option toDateString (lastQuestDate u) \<noteq> Some (toDateString now)
              | CompleteIndividual _ \<Rightarrow> True"
  shows "\<exists>x st k. complete_branch c u b now = Inr (x, st, k) \<and> complete_update b now (x, st, k) u \<noteq> u"
proof -
  obtain qs where qs: "completedQuests b = Some qs"
    using r by (cases "completedQuests b") (auto simp: completion_of_def)
  show ?thesis
  proof (cases "questType b = Some ''daily_strength''")
    case True
    then have rd: "r = CompleteDaily qs" using r qs by (simp add: completion_of_def)
    then have l: "length qs = 4" and ok: "daily_names_ok c qs"
      using acc by (auto simp: completeDaily_def Let_def daily_names_ok_def list_all_iff split: if_splits)
    have new: "\<forall>d. lastQuestDate u = Some d \<longrightarrow> toDateString d \<noteq> toDateString now"
      using day rd by auto
    then obtain x st k where "daily_strength_branch c u (Some qs) now (js_num_or (totalXP u) 0)
        (current_stats u) (js_num_or (streakDays u) 1) = Inr (x, st, k)"
      using daily_branch_new_day [OF l ok] by blast
    then have br: "complete_branch c u b now = Inr (x, st, k)"
      using True qs by (simp add: complete_branch_daily)
    have "lastQuestDate u \<noteq> Some now" using new by auto
    then have "complete_update b now (x, st, k) u \<noteq> u" by (metis complete_update_simps(2))
    with br show ?thesis by blast
  next
    case False
    then have ind: "questType b = Some ''individual''" and "length qs = 1"
      and rn: "r = CompleteIndividual (hd qs)"
      using r qs by (auto simp: completion_of_def split: if_splits)
    then have qs1: "completedQuests b = Some [hd qs]" using qs by (cases qs) auto
    obtain q where q: "find_quest_by_name c (hd qs) = Some q"
      and fresh: "hd qs \<notin> set (completedToday (prog_of c u))"
      using acc rn normalize_ready [OF ready]
      by (auto simp: completeIndividual_def Let_def split: if_splits option.splits)
    have "hd qs \<notin> set (map name (DAILY_STRENGTH_QUESTS c))"
      using find_quest_by_name_Some [OF q] sep by (auto simp: daily_names_separate_def list_all_iff)
    then have "hd qs \<notin> set (completed_today u)" using fresh by (simp add: prog_of_def)
    then obtain x st where "individual_branch c u (Some [hd qs]) (js_num_or (totalXP u) 0)
        (current_stats u) = Inr (x, st)"
      by (cases "reward_names c [hd qs] (js_num_or (totalXP u) 0, current_stats u)")
        (simp add: individual_branch_def)
    then have br: "complete_branch c u b now = Inr (x, st, js_num_or (streakDays u) 1)"
      using ind qs1 by (simp add: complete_branch_individual)
    have qc: "questsCompletedToday (complete_update b now (x, st, js_num_or (streakDays u) 1) u) =
        Some (completed_today u @ [hd qs])"
      using ind qs1 by (simp add: new_completed_def)
    have "complete_update b now (x, st, js_num_or (streakDays u) 1) u \<noteq> u"
    proof
      assume "complete_update b now (x, st, js_num_or (streakDays u) 1) u = u"
      with qc have "questsCompletedToday u = Some (completed_today u @ [hd qs])" by (simp only:)
      with completed_today_grows show False by blast
    qed
    with br show ?thesis by blast
  qed
qed

section \<open>The completion route refines the progression engine\<close>

text \<open>
  C16. Refinement: on a document that is ready for the current day, every request the
  completion route accepts is a transition of the specified engine. The route stores the
  document that abstracts to the engine's result (experience, stats, streak, last completion
  date, completed quests, daily flag) and answers with the level derived from the new
  experience. An individual request must name a rotating quest (the engine rejects an
  unknown name; the route accepts it, see the findings).
\<close>

theorem complete_POST_refines_spec:
  assumes "catalog_wf c" and "daily_names_separate c"
    and "findOne_by_id uid db = Some u" and "prog_ready now u"
    and "completion_of b = Some r" and "completion_known c r"
    and "complete_POST c (Some uid) (Some b) now db = (OkResp s v, db')"
  shows "\<exists>u'. findOne_by_id uid db' = Some u' \<and>
           spec_complete c r (toDateString now) (prog_of c u) = Inr (prog_of c u') \<and>
           levelInfo v = calculateLevel (cumulativeExperience (prog_of c u'))"
proof -
  obtain u' x where "findOne_by_id uid db' = Some u'" and "levelInfo v = calculateLevel x"
    and "cumulativeExperience (prog_of c u') = x"
    and "spec_complete c r (toDateString now) (prog_of c u) =
       (if completion_known c r then Inr (prog_of c u') else Inl UnknownQuest)"
    using complete_POST_ok_refines [OF assms(1-5,7)] by blast
  with assms(6) show ?thesis by auto
qed

theorem complete_POST_refines_spec_witness:
  "\<exists>s v db' u'. complete_POST sample_catalog (Some ''u1'') (Some daily_body) 1728000000000
      [sample_user] = (OkResp s v, db') \<and> findOne_by_id ''u1'' db' = Some u' \<and>
    spec_complete sample_catalog (CompleteDaily [''Push-ups'', ''Sit-ups'', ''Squats'', ''Run''])
      (toDateString 1728000000000) (prog_of sample_catalog sample_user) = Inr (prog_of sample_catalog u')"
proof -
  obtain s v db' where ok: "complete_POST sample_catalog (Some ''u1'') (Some daily_body) 1728000000000
      [sample_user] = (OkResp s v, db')"
    using sample_daily_ok by blast
  have sep: "daily_names_separate sample_catalog"
    by (simp add: daily_names_separate_def sample_catalog_def mk_quest_def all_rotating_quests_def)
  have ready: "prog_ready 1728000000000 sample_user"
    by (simp add: prog_ready_def sample_user_def default_stats_def stats_nonneg_def completed_today_def)
  have r: "completion_of daily_body = Some (CompleteDaily [''Push-ups'', ''Sit-ups'', ''Squats'', ''Run''])"
    by (simp add: completion_of_def daily_body_def)
  have u: "findOne_by_id ''u1'' [sample_user] = Some sample_user"
    by (simp add: findOne_by_id_def sample_user_def)
  from complete_POST_refines_spec [OF sample_catalog_wf sep u ready r _ ok] ok show ?thesis
    by auto
qed

text \<open>
  C17. Errors: on a ready document, a request the engine rejects as an invalid request or
  as already completed is rejected by the route too, and the collection is left as it was.
  (An unknown quest name is the one rejection the route does not make.)
\<close>

theorem spec_rejects_complete_POST_rejects:
  assumes "catalog_wf c" and "daily_names_separate c"
    and "findOne_by_id uid db = Some u" and "prog_ready now u"
    and "completion_of b = Some r"
    and "spec_complete c r (toDateString now) (prog_of c u) = Inl e" and "e \<noteq> UnknownQuest"
  shows "\<exists>st m. complete_POST c (Some uid) (Some b) now db = (ErrorResp st m, db)"
proof (cases "complete_POST c (Some uid) (Some b) now db")
  case (Pair resp db')
  show ?thesis
  proof (cases resp)
    case (ErrorResp st m)
    with Pair have "db' = db" using complete_POST_error_inv by fastforce
    with Pair ErrorResp show ?thesis by blast
  next
    case (OkResp s v)
    with Pair complete_POST_ok_refines [OF assms(1-5)] assms(6,7) show ?thesis
      by (auto split: if_splits)
  qed
qed

theorem spec_rejects_complete_POST_rejects_witness:
  "\<exists>st m. complete_POST sample_catalog (Some ''u1'') (Some daily_body) 1728003600000
      [sample_user\<lparr>lastQuestDate := Some 1728000000000, hasCompletedDailyStrength := Some True\<rparr>] =
    (ErrorResp st m,
     [sample_user\<lparr>lastQuestDate := Some 1728000000000, hasCompletedDailyStrength := Some True\<rparr>])"
proof -
  let ?u = "sample_user\<lparr>lastQuestDate := Some 1728000000000, hasCompletedDailyStrength := Some True\<rparr>"
  have sep: "daily_names_separate sample_catalog"
    by (simp add: daily_names_separate_def sample_catalog_def mk_quest_def all_rotating_quests_def)
  have ready: "prog_ready 1728003600000 ?u"
    by (simp add: prog_ready_def sample_user_def default_stats_def stats_nonneg_def
        toDateString_def ms_per_day_def)
  have r: "completion_of daily_body = Some (CompleteDaily [''Push-ups'', ''Sit-ups'', ''Squats'', ''Run''])"
    by (simp add: completion_of_def daily_body_def)
  have u: "findOne_by_id ''u1'' [?u] = Some ?u"
    by (simp add: findOne_by_id_def sample_user_def)
  have "spec_complete sample_catalog (CompleteDaily [''Push-ups'', ''Sit-ups'', ''Squats'', ''Run''])
      (toDateString 1728003600000) (prog_of sample_catalog ?u) = Inl AlreadyCompleted"
    by (simp add: completeDaily_def normalize_def prog_of_def sample_user_def sample_catalog_def
        mk_quest_def toDateString_def ms_per_day_def Let_def)
  from spec_rejects_complete_POST_rejects [OF sample_catalog_wf sep u ready r this] show ?thesis
    by simp
qed

text \<open>
  C14. Completeness: on a ready document, every transition of the engine is taken by the
  route, which answers 200 and stores a document abstracting to the engine's result. The
  exception is a daily-set request on a day that already has an individual completion:
  the engine accepts it, the route rejects it (C1).
\<close>

theorem spec_accepts_complete_POST_accepts:
  assumes "catalog_wf c" and "daily_names_separate c"
    and "findOne_by_id uid db = Some u" and "prog_ready now u"
    and "completion_of b = Some r"
    and "spec_complete c r (toDateString now) (prog_of c u) = Inr p'"
    and "case r of CompleteDaily _ \<Rightarrow> map_option toDateString (lastQuestDate u) \<noteq> Some (toDateString now)
         | CompleteIndividual _ \<Rightarrow> True"
  shows "\<exists>v db' u'. complete_POST c (Some uid) (Some b) now db = (OkResp 200 v, db') \<and>
           findOne_by_id uid db' = Some u' \<and> prog_of c u' = p'"
proof -
  obtain x st k where br: "complete_branch c u b now = Inr (x, st, k)"
    and ne: "complete_update b now (x, st, k) u \<noteq> u"
    using spec_accepts_branch [OF assms(1,2,4,5,6,7)] by blast
  have "findOne_by_id uid (fst (updateOne_by_id uid (complete_update b now (x, st, k)) db)) =
      Some (complete_update b now (x, st, k) u)"
    using assms(3) by (simp add: updateOne_find_self)
  moreover have "prog_of c (complete_update b now (x, st, k) u) = p'"
    using complete_branch_refines [OF assms(1,2,4,5) br] assms(6) by (simp split: if_splits)
  ultimately show ?thesis using complete_POST_accepted [OF assms(3) br ne] by blast
qed

theorem spec_accepts_complete_POST_accepts_witness:
  "\<exists>v db' u'. complete_POST sample_catalog (Some ''u1'') (Some (individual_body ''Read'')) 0
      [sample_user] = (OkResp 200 v, db') \<and> findOne_by_id ''u1'' db' = Some u' \<and>
    completedToday (prog_of sample_catalog u') = [''Read''] \<and>
    cumulativeExperience (prog_of sample_catalog u') = 20"
proof -
  have sep: "daily_names_separate sample_catalog"
    by (simp add: daily_names_separate_def sample_catalog_def mk_quest_def all_rotating_quests_def)
  have ready: "prog_ready 0 sample_user"
    by (simp add: prog_ready_def sample_user_def default_stats_def stats_nonneg_def completed_today_def)
  have r: "completion_of (individual_body ''Read'') = Some (CompleteIndividual ''Read'')"
    by (simp add: completion_of_def individual_body_def)
  have u: "findOne_by_id ''u1'' [sample_user] = Some sample_user"
    by (simp add: findOne_by_id_def sample_user_def)
  obtain p' where p': "spec_complete sample_catalog (CompleteIndividual ''Read'') (toDateString 0)
      (prog_of sample_catalog sample_user) = Inr p'"
    and c: "completedToday p' = [''Read'']" and x: "cumulativeExperience p' = 20"
    by (simp add: completeIndividual_def normalize_def prog_of_def sample_user_def sample_catalog_def
        mk_quest_def find_quest_by_name_def all_rotating_quests_def completed_today_def Let_def)
  from spec_accepts_complete_POST_accepts [OF sample_catalog_wf sep u ready r p'] c x show ?thesis
    by auto
qed

section \<open>The streak counts days with any completion\<close>

text \<open>
  Both the route and the engine of the specification take the previous completion date from
  \<open>lastQuestDate\<close>, which an individual completion sets too. A daily set on day N, only an
  individual quest on day N+1 and the daily set again on day N+2 give a streak of 2, although
  the daily set was not completed on consecutive days (the glossary's definition of a streak).
\<close>

lemma streak_counts_individual_day:
  "\<exists>v1 db1 v2 db2 v3 db3.
     complete_POST sample_catalog (Some ''u1'') (Some daily_body) 1728000000000 [sample_user] =
       (OkResp 200 v1, db1) \<and>
     complete_POST sample_catalog (Some ''u1'') (Some (individual_body ''Read'')) 1728086400000 db1 =
       (OkResp 200 v2, db2) \<and>
     complete_POST sample_catalog (Some ''u1'') (Some daily_body) 1728172800000 db2 =
       (OkResp 200 v3, db3) \<and>
     resp_streakDays v3 = 2"
  by (simp add: complete_eval_simps)

lemma spec_streak_counts_individual_day:
  "\<exists>p1 p2 p3.
     completeDaily sample_catalog [''Push-ups'', ''Sit-ups'', ''Squats'', ''Run''] 20000
       (prog_of sample_catalog sample_user) = Inr p1 \<and>
     completeIndividual sample_catalog ''Read'' 20001 p1 = Inr p2 \<and>
     completeDaily sample_catalog [''Push-ups'', ''Sit-ups'', ''Squats'', ''Run''] 20002 p2 = Inr p3 \<and>
     pstreakDays p3 = 2"
  by (simp add: completeDaily_def completeIndividual_def normalize_def streak_transition_def prog_of_def
      sample_user_def sample_catalog_def mk_quest_def find_quest_by_name_def all_rotating_quests_def
      completed_today_def Let_def)

end
