(* ===== verification/Progression_System.thy ===== *)
theory Progression_System
  imports System Progression_Spec
begin

text \<open>
  The refinement of \<open>Progression_Spec\<close> in the running system: every reachable collection
  holds documents with non-negative stats whose per-day fields are empty before a first
  completion (\<open>prog_sane\<close>), and the initialise route, which the client pages call before
  they send a completion, turns such a document into one that is ready for the day.
\<close>

definition prog_sane :: "user_doc \<Rightarrow> bool" where
  "prog_sane u \<longleftrightarrow>
     (case stats u of None \<Rightarrow> True | Some st \<Rightarrow> stats_nonneg st) \<and>
     (case lastQuestDate u of
        None \<Rightarrow> js_num_or (streakDays u) 0 = 0 \<and> completed_today u = [] \<and>
                hasCompletedDailyStrength u \<noteq> Some True
      | Some _ \<Rightarrow> True)"

section \<open>The stats after a completion\<close>

lemma stats_pos_nonneg: "stats_pos st \<Longrightarrow> stats_nonneg st"
  by (simp add: stats_pos_def stats_nonneg_def)

lemma reward_names_pos:
  assumes "catalog_wf c"
  shows "stats_pos (snd acc) \<Longrightarrow> stats_pos (snd (reward_names c qs acc))"
proof (induction qs arbitrary: acc)
  case Nil
  then show ?case by (simp add: reward_names_def)
next
  case (Cons q qs)
  obtain x st where acc: "acc = (x, st)" by (cases acc)
  show ?case
  proof (cases "find_quest_by_name c q")
    case None
    then have "reward_names c (q # qs) acc = reward_names c qs (x, st)"
      by (simp add: reward_names_def acc)
    with Cons acc show ?thesis by simp
  next
    case (Some qt)
    then have "reward_names c (q # qs) acc =
        reward_names c qs (x + xpReward qt, add_stat (stat qt) (statReward qt) st)"
      by (simp add: reward_names_def acc)
    moreover have "0 \<le> statReward qt"
      using find_quest_by_name_Some [OF Some] catalog_wf_rewards(2) [OF assms] by blast
    ultimately show ?thesis
      using Cons.IH [of "(x + xpReward qt, add_stat (stat qt) (statReward qt) st)"] Cons.prems acc
      by (simp add: stats_pos_add_stat)
  qed
qed

lemma complete_branch_stats_pos:
  assumes wf: "catalog_wf c" and s: "case stats u of None \<Rightarrow> True | Some st \<Rightarrow> stats_nonneg st"
    and br: "complete_branch c u b now = Inr (x, st, k)"
  shows "stats_pos st"
proof -
  have p: "stats_pos (current_stats u)" using s by (rule stats_pos_current)
  then have "stats_pos ((current_stats u)\<lparr>strength := strength (current_stats u) +
      sum_list (map statReward (DAILY_STRENGTH_QUESTS c))\<rparr>)"
    by (intro stats_pos_add_strength daily_reward_nonneg wf)
  moreover have "stats_pos (snd (reward_names c qs (js_num_or (totalXP u) 0, current_stats u)))" for qs
    using p by (intro reward_names_pos wf) simp
  ultimately show ?thesis
    using br p by (auto simp: complete_branch_def daily_strength_branch_def individual_branch_def Let_def
        split: if_splits option.splits sum.splits prod.splits) (metis snd_conv)
qed

section \<open>Every route keeps the documents sane\<close>

lemma prog_sane_keep:
  "stats (f d) = stats d \<Longrightarrow> lastQuestDate (f d) = lastQuestDate d \<Longrightarrow>
   streakDays (f d) = streakDays d \<Longrightarrow> questsCompletedToday (f d) = questsCompletedToday d \<Longrightarrow>
   hasCompletedDailyStrength (f d) = hasCompletedDailyStrength d \<Longrightarrow> prog_sane (f d) = prog_sane d"
  by (simp add: prog_sane_def completed_today_def split: option.splits)

lemma prog_sane_default: "prog_sane (set_DEFAULT_USER_STATS d)"
  by (simp add: prog_sane_def set_DEFAULT_USER_STATS_def default_stats_def stats_nonneg_def
      completed_today_def)

lemma prog_sane_reset: "prog_sane d \<Longrightarrow> prog_sane (reset_today d)"
  by (simp add: prog_sane_def completed_today_def split: option.splits)

lemma sane_register:
  assumes "list_all prog_sane db"
  shows "list_all prog_sane (snd (register_POST hash oid body now db))"
proof (cases "register_POST hash oid body now db")
  case (Pair r db')
  show ?thesis
  proof (cases r)
    case (ErrorResp st m)
    then show ?thesis using Pair register_POST_error [of hash oid body now db st m db'] assms by simp
  next
    case (OkResp st v)
    then show ?thesis using Pair register_POST_ok [of hash oid body now db st v db'] assms
      by (auto intro!: list_all_insert simp: prog_sane_def registered_user_def completed_today_def)
  qed
qed

lemma sane_adapter:
  "list_all prog_sane db \<Longrightarrow> list_all prog_sane (adapter_createUser oid e nm db)"
  by (simp add: adapter_createUser_def list_all_insert prog_sane_def completed_today_def)

lemma sane_initialize:
  assumes "list_all prog_sane db"
  shows "list_all prog_sane (snd (initialize_POST (Some uid) now db))"
proof -
  let ?db1 = "if checkIfUserHasGamingStats uid db then db else initializeUserGamingStats uid db"
  have "list_all prog_sane ?db1"
    using assms by (auto simp: initializeUserGamingStats_def prog_sane_default intro!: list_all_update)
  moreover have "list_all prog_sane (fst (updateOne_by_id uid reset_today ?db1))"
    using calculation by (rule list_all_update) (rule prog_sane_reset)
  ultimately show ?thesis using initialize_POST_db [of uid now db] by (elim disjE) simp_all
qed

lemma sane_assign:
  assumes "list_all prog_sane db"
  shows "list_all prog_sane (snd (fst (assign_POST c (Some uid) now db g)))"
proof -
  have "list_all prog_sane (fst (updateOne_by_id uid (store_assignment (toDateString now) qs) db))" for qs
    using assms by (rule list_all_update) (simp add: prog_sane_keep store_assignment_def)
  with assign_POST_db [of c uid now db g] assms show ?thesis by (elim disjE exE conjE) simp_all
qed

lemma sane_complete:
  assumes wf: "catalog_wf c" and "list_all prog_sane db"
  shows "list_all prog_sane (snd (complete_POST c (Some uid) (Some b) now db))"
proof -
  have "list_all prog_sane (fst (updateOne_by_id uid (complete_update b now (x, st, k)) db))"
    if "findOne_by_id uid db = Some u" and "complete_branch c u b now = Inr (x, st, k)" for u x st k
  proof (rule list_all_update [OF assms(2)])
    have "prog_sane u" using that(1) assms(2) by (auto dest!: findOne_by_id_Some simp: list_all_iff)
    then have "stats_pos st"
      using that(2) by (intro complete_branch_stats_pos [OF wf]) (simp_all add: prog_sane_def)
    then show "prog_sane (complete_update b now (x, st, k) d)" for d
      by (simp add: prog_sane_def stats_pos_nonneg)
  qed
  with complete_POST_db_found [of c uid b now db] assms(2) show ?thesis
    by (elim disjE exE conjE) simp_all
qed

lemma sane_username:
  assumes "list_all prog_sane db"
  shows "list_all prog_sane (snd (username_POST (Some uid) (Some b) db))"
proof (cases "username_POST (Some uid) (Some b) db")
  case (Pair r db')
  show ?thesis
  proof (cases r)
    case (ErrorResp st m)
    then show ?thesis using Pair username_POST_error [of "Some uid" "Some b" db st m db'] assms by simp
  next
    case (OkResp st v)
    then have "db' = fst (updateOne_by_id uid (set_username (resp_username v)) db)"
      using Pair username_POST_ok [of "Some uid" "Some b" db st v db'] by auto
    moreover have "list_all prog_sane (fst (updateOne_by_id uid (set_username (resp_username v)) db))"
      using assms by (rule list_all_update) (simp add: prog_sane_keep set_username_def)
    ultimately show ?thesis using Pair by simp
  qed
qed

lemma reachable_prog_sane:
  "reachable c hash s \<Longrightarrow> catalog_wf c \<Longrightarrow> list_all prog_sane (sys_db s)"
proof (induction rule: reachable.induct)
  case (reach_init g)
  then show ?case by simp
next
  case (reach_step s rq)
  then have IH: "list_all prog_sane (sys_db s)" by simp
  show ?case
  proof (cases rq)
    case (ReqAssign uid now)
    then show ?thesis using sane_assign [OF IH, of c uid now "sys_gen s"]
      by (cases "assign_POST c (Some uid) now (sys_db s) (sys_gen s)") auto
  qed (simp_all add: IH reach_step.prems sane_register sane_adapter sane_initialize
         sane_complete sane_username)
qed

section \<open>The initialise route prepares the day\<close>

lemma initialize_ready:
  assumes sane: "list_all prog_sane db"
    and init: "initialize_POST (Some uid) now db = (OkResp st d, db1)" and ud: "userData d = Some u"
  shows "findOne_by_id uid db1 = Some u \<and> prog_ready now u"
proof (cases "findOne_by_id uid db")
  case None
  have "doc_id (set_DEFAULT_USER_STATS e) = doc_id e" for e by (simp add: set_DEFAULT_USER_STATS_def)
  then have "getUserWithGamingStats uid (initializeUserGamingStats uid db) = None"
    using None by (simp add: getUserWithGamingStats_def initializeUserGamingStats_def updateOne_find_self)
  with None init ud show ?thesis
    by (auto simp: initialize_POST_def checkIfUserHasGamingStats_def Let_def)
next
  case (Some u0)
  have s0: "prog_sane u0" using sane findOne_by_id_Some [OF Some] by (simp add: list_all_iff)
  show ?thesis
  proof (cases "doc_level u0")
    case None
    have "doc_id (set_DEFAULT_USER_STATS e) = doc_id e" for e by (simp add: set_DEFAULT_USER_STATS_def)
    then have "findOne_by_id uid (fst (updateOne_by_id uid set_DEFAULT_USER_STATS db)) =
        Some (set_DEFAULT_USER_STATS u0)"
      using Some by (simp add: updateOne_find_self)
    with initialize_POST_fresh [OF Some None] init ud show ?thesis
      by (auto simp: prog_ready_def set_DEFAULT_USER_STATS_def default_stats_def stats_nonneg_def
          completed_today_def)
  next
    case (Some l)
    have f: "findOne_by_id uid (fst (updateOne_by_id uid reset_today db)) = Some (reset_today u0)"
      using \<open>findOne_by_id uid db = Some u0\<close> by (simp add: updateOne_find_self)
    from initialize_POST_has_stats [OF \<open>findOne_by_id uid db = Some u0\<close>] Some init ud f s0
      \<open>findOne_by_id uid db = Some u0\<close>
    show ?thesis
      by (auto simp: prog_sane_def prog_ready_def completed_today_def reset_today_def
          split: option.splits if_splits)
  qed
qed

text \<open>
  For a user with gaming stats, the document initialise returns is the specification's daily
  reset policy applied to the stored one: \<open>normalize\<close> of its abstraction.
\<close>

lemma initialize_refines_normalize:
  assumes "findOne_by_id uid db = Some u" and "doc_level u \<noteq> None"
    and "initialize_POST (Some uid) now db = (OkResp st d, db1)" and "userData d = Some u'"
  shows "prog_of c u' = normalize (prog_of c u) (toDateString now)"
proof (cases "lastQuestDate u")
  case None
  then show ?thesis
    using initialize_POST_has_stats [OF assms(1,2), of now] assms(3,4) by (simp add: normalize_def prog_of_def)
next
  case (Some t)
  show ?thesis
  proof (cases "toDateString t = toDateString now")
    case True
    then show ?thesis
      using Some initialize_POST_has_stats [OF assms(1,2), of now] assms(3,4)
      by (simp add: normalize_def prog_of_def)
  next
    case False
    then show ?thesis
      using Some initialize_POST_has_stats [OF assms(1,2), of now] assms(3,4)
      by (auto simp: normalize_def prog_of_def completed_today_def reset_today_def current_stats_def)
  qed
qed

section \<open>The running system refines the progression engine\<close>

text \<open>
  C32. Composition: from every reachable state, a completion the route accepts after the
  initialise call of the same day (which the dashboard and the quest page make before they
  send one) is a transition of the specified engine from the document that initialise
  returned to the document the route stores.
\<close>

theorem initialize_then_complete_refines:
  assumes "reachable c hash s" and "catalog_wf c" and "daily_names_separate c"
    and "initialize_POST (Some uid) now (sys_db s) = (OkResp st0 d, db1)" and "userData d = Some u"
    and "completion_of b = Some r" and "completion_known c r"
    and "complete_POST c (Some uid) (Some b) now db1 = (OkResp s2 v, db2)"
  shows "\<exists>u'. findOne_by_id uid db2 = Some u' \<and>
           spec_complete c r (toDateString now) (prog_of c u) = Inr (prog_of c u')"
proof -
  have "findOne_by_id uid db1 = Some u \<and> prog_ready now u"
    using initialize_ready [OF reachable_prog_sane [OF assms(1,2)] assms(4,5)] .
  with complete_POST_ok_refines [OF assms(2,3) _ _ assms(6,8)] assms(7) show ?thesis
    by (auto split: if_splits)
qed

theorem initialize_then_complete_refines_witness:
  "\<exists>st0 d db1 u s2 v db2 u'.
     initialize_POST (Some ''r1'') 1728000000000
       (sys_db (sys_run sample_catalog id demo_requests \<lparr>sys_db = [], sys_gen = sconst 0\<rparr>)) =
       (OkResp st0 d, db1) \<and> userData d = Some u \<and>
     complete_POST sample_catalog (Some ''r1'') (Some daily_body) 1728000000000 db1 = (OkResp s2 v, db2) \<and>
     findOne_by_id ''r1'' db2 = Some u' \<and>
     spec_complete sample_catalog (CompleteDaily [''Push-ups'', ''Sit-ups'', ''Squats'', ''Run''])
       (toDateString 1728000000000) (prog_of sample_catalog u) = Inr (prog_of sample_catalog u')"
proof -
  let ?s = "sys_run sample_catalog id demo_requests \<lparr>sys_db = [], sys_gen = sconst 0\<rparr>"
  let ?d1 = "set_username ''Hunter'' (registered_user ''r1'' ''a@x.io'' ''secret1'' 0)"
  have sep: "daily_names_separate sample_catalog"
    by (simp add: daily_names_separate_def sample_catalog_def mk_quest_def all_rotating_quests_def)
  have init: "initialize_POST (Some ''r1'') 1728000000000 (sys_db ?s) =
      (OkResp 200 \<lparr>userData = Some ?d1, wasInitialized = False\<rparr>, sys_db ?s)"
    using initialize_POST_has_stats [OF demo_findOne_r1]
    by (simp add: set_username_def registered_user_def)
  have r: "completion_of daily_body = Some (CompleteDaily [''Push-ups'', ''Sit-ups'', ''Squats'', ''Run''])"
    by (simp add: completion_of_def daily_body_def)
  have "\<exists>s2 v db2. complete_POST sample_catalog (Some ''r1'') (Some daily_body) 1728000000000 (sys_db ?s) =
      (OkResp s2 v, db2)"
    unfolding demo_run by (simp add: complete_eval_simps set_username_def registered_user_def)
  then obtain s2 v db2 where ok: "complete_POST sample_catalog (Some ''r1'') (Some daily_body)
      1728000000000 (sys_db ?s) = (OkResp s2 v, db2)" by blast
  from initialize_then_complete_refines [OF reachable_demo sample_catalog_wf sep init _ r _ ok] init ok
  show ?thesis by auto
qed

end
