(* ===== verification/Auth_UI.thy ===== *)
theory Auth_UI
  imports Auth
begin

text \<open>
  The sign-in surface around the NextAuth configuration: the two option objects of
  \<open>lib/auth.ts\<close> as values (providers, session strategy, sign-in page, callbacks), the
  \<open>AuthButton\<close> and \<open>Navigation\<close> components of \<open>health-leveling\<close>, and the session status
  that \<open>useSession()\<close> hands to every page. A component is the function from its props and
  the session to what it shows and to the action a click triggers.
\<close>

section \<open>The NextAuth options\<close>

datatype provider = GoogleProvider | CredentialsProvider

text \<open>
  \<open>session.strategy\<close> with the callbacks that go with it: \<open>jwt\<close> and \<open>session\<close> over the
  token, or \<open>session\<close> over the adapter's user.
\<close>

datatype session_mode =
    JwtSessions "jwt_token \<Rightarrow> signin_user option \<Rightarrow> jwt_token" "session \<Rightarrow> jwt_token \<Rightarrow> session"
  | DatabaseSessions "session \<Rightarrow> string \<Rightarrow> session"

record auth_options =
  ao_providers :: "provider list"
  ao_authorize :: "(string \<Rightarrow> string \<Rightarrow> bool) \<Rightarrow> credentials option \<Rightarrow> users \<Rightarrow> auth_user option"
  ao_signInPage :: string
  ao_redirect :: "string \<Rightarrow> string \<Rightarrow> string"
  ao_session :: session_mode

text \<open>\<open>authOptions\<close> of \<open>health-leveling/src/lib/auth.ts\<close> (lines 9--76).\<close>

definition health_authOptions :: auth_options where
  "health_authOptions =
     \<lparr>ao_providers = [GoogleProvider, CredentialsProvider], ao_authorize = authorize,
      ao_signInPage = ''/'', ao_redirect = redirect,
      ao_session = JwtSessions jwt_callback session_callback_jwt\<rparr>"

text \<open>\<open>authOptions\<close> of \<open>solo-leveling/src/lib/auth.ts\<close> (lines 9--71).\<close>

definition solo_authOptions :: auth_options where
  "solo_authOptions =
     \<lparr>ao_providers = [GoogleProvider, CredentialsProvider], ao_authorize = authorize,
      ao_signInPage = ''/'', ao_redirect = redirect,
      ao_session = DatabaseSessions session_callback_db\<rparr>"

text \<open>
  The id a route handler sees after a credentials sign-in that \<open>authorize\<close> accepted, in a
  session whose user object is present. With JSON web tokens NextAuth calls \<open>jwt\<close> with the
  authorised user and \<open>session\<close> with the token. The credentials provider of NextAuth 4
  works with JSON web tokens only: it issues a token cookie and writes no database session,
  so under the database strategy the session lookup finds nothing.
\<close>

definition credentials_session_uid :: "auth_options \<Rightarrow> auth_user \<Rightarrow> string option" where
  "credentials_session_uid opts a =
     (case ao_session opts of
        JwtSessions jcb scb \<Rightarrow>
          session_uid (scb \<lparr>sess_user = Some \<lparr>su_email = Some (au_email a), su_name = Some (au_name a),
                                               su_uid = None\<rparr>\<rparr>
                          (jcb \<lparr>tok_id = None\<rparr> (Some (signin_of a))))
      | DatabaseSessions _ \<Rightarrow> None)"

section \<open>Session status\<close>

text \<open>\<open>useSession()\<close>: \<open>status\<close> and whether \<open>data\<close> holds a session.\<close>

datatype session_status = StatusLoading | StatusAuthenticated | StatusUnauthenticated

section \<open>AuthButton\<close>

datatype auth_variant = VariantGoogle | VariantHeader

datatype auth_button_view =
    ABLoading
  | ABSignOut
  | ABSignIn
  | ABGoogle string

datatype auth_action = DoSignOut | DoSignIn | DoSignInWith string string

text \<open>
  What \<open>AuthButton\<close> shows (lines 11--60): the header variant shows a loading line, a
  sign-out button with a session, a sign-in button without; the default variant is the
  Google button, labelled by its children or \<open>Continue with Google\<close>.
\<close>

definition auth_button :: "auth_variant \<Rightarrow> session_status \<Rightarrow> bool \<Rightarrow> string \<Rightarrow> auth_button_view" where
  "auth_button v st hasSession children =
     (case v of
        VariantHeader \<Rightarrow>
          if st = StatusLoading then ABLoading else if hasSession then ABSignOut else ABSignIn
      | VariantGoogle \<Rightarrow> ABGoogle (if children = [] then ''Continue with Google'' else children))"

text \<open>The click handlers: \<open>signOut()\<close>, \<open>signIn()\<close>, \<open>signIn('google', {callbackUrl: '/dashboard'})\<close>.\<close>

primrec auth_button_click :: "auth_button_view \<Rightarrow> auth_action option" where
  "auth_button_click ABLoading = None"
| "auth_button_click ABSignOut = Some DoSignOut"
| "auth_button_click ABSignIn = Some DoSignIn"
| "auth_button_click (ABGoogle _) = Some (DoSignInWith ''google'' ''/dashboard'')"

section \<open>Navigation\<close>

datatype nav_button = QuestPanelButton | ProfileButton

text \<open>The route each button pushes (\<open>handleQuestClick\<close>, \<open>handleProfileClick\<close>, lines 10--16).\<close>

primrec nav_target :: "nav_button \<Rightarrow> string" where
  "nav_target QuestPanelButton = ''/quest''"
| "nav_target ProfileButton = ''/profile''"

text \<open>The highlighted button: the one whose route is the current path (lines 19--38).\<close>

definition nav_active :: "string \<Rightarrow> nav_button \<Rightarrow> bool" where
  "nav_active pathName b \<longleftrightarrow> pathName = nav_target b"

text \<open>The render of \<open>Navigation\<close> (lines 5--41): both buttons in order, each with its highlight.\<close>

definition navigation_view :: "string \<Rightarrow> (nav_button \<times> bool) list" where
  "navigation_view pathName = map (\<lambda>b. (b, nav_active pathName b)) [QuestPanelButton, ProfileButton]"

section \<open>Facts\<close>

text \<open>
  With the \<open>health-leveling\<close> options a credentials sign-in reaches the routes with the
  authorised document's id (with the \<open>solo-leveling\<close> options, by definition, with none).
\<close>

lemma health_credentials_session_uid:
  "credentials_session_uid health_authOptions a = (if au_id a = [] then None else Some (au_id a))"
  by (simp add: credentials_session_uid_def health_authOptions_def jwt_callback_def
      session_callback_jwt_def session_uid_def signin_of_def)

lemma nav_active_unique: "nav_active p b \<Longrightarrow> nav_active p b' \<Longrightarrow> b = b'"
  by (cases b; cases b') (simp_all add: nav_active_def)

lemma auth_button_header_click:
  "auth_button_click (auth_button VariantHeader st hasSession ch) =
     (if st = StatusLoading then None else if hasSession then Some DoSignOut else Some DoSignIn)"
  by (simp add: auth_button_def)

end
