(* ===== verification/Page_Views.thy ===== *)
theory Page_Views
  imports Client Pages Auth_UI
begin

text \<open>
  The page state and the rendered values of the client pages beyond their route calls
  (\<open>Client\<close>): the quest page of \<open>solo-leveling\<close> (its React state as a record, every handler
  as a state transition, the render as a value), the dashboard's render, the sign-in form's
  render and the username setup page of \<open>health-leveling\<close>. Markup and styling are not
  modelled; what the markup shows (counts, lists, labels, which buttons are enabled) is.
\<close>

section \<open>Quest page\<close>

datatype quest_tab = TabTodo | TabCompleted

text \<open>The \<open>useState\<close> hooks of \<open>QuestPanel\<close> (lines 16--23).\<close>

record quest_page =
  qp_assigned :: "quest_template list"
  qp_loading :: bool
  qp_selected :: "string option"
  qp_completed :: "string list"
  qp_animating :: "string list"
  qp_dailyDone :: bool
  qp_tab :: quest_tab

definition quest_page_init :: quest_page where
  "quest_page_init =
     \<lparr>qp_assigned = [], qp_loading = True, qp_selected = None, qp_completed = [],
      qp_animating = [], qp_dailyDone = False, qp_tab = TabTodo\<rparr>"

text \<open>
  The two loading effects with their state updates: \<open>fetchASsignedQuests\<close> ends with
  \<open>setLoading(false)\<close> (lines 70--82), \<open>fetchUserData\<close> sets the completed list and the
  daily flag (lines 98--101).
\<close>

definition quest_page_assigned :: "quest_page \<Rightarrow> assign_ok response \<Rightarrow> quest_page" where
  "quest_page_assigned p r =
     p\<lparr>qp_assigned := quest_fetch_assigned (qp_assigned p) r, qp_loading := False\<rparr>"

definition quest_page_user :: "quest_page \<Rightarrow> init_ok response \<Rightarrow> quest_page" where
  "quest_page_user p r =
     (case quest_fetch_user (qp_completed p, qp_dailyDone p) r of
        (cq, dd) \<Rightarrow> p\<lparr>qp_completed := cq, qp_dailyDone := dd\<rparr>)"

text \<open>\<open>handleQuestClick\<close> (lines 110--112), \<open>handleCloseModal\<close> (151--153), the tab buttons (189, 196).\<close>

definition handleQuestClick :: "string \<Rightarrow> quest_page \<Rightarrow> quest_page" where
  "handleQuestClick qn p = p\<lparr>qp_selected := Some qn\<rparr>"

definition handleCloseModal :: "quest_page \<Rightarrow> quest_page" where
  "handleCloseModal p = p\<lparr>qp_selected := None\<rparr>"

definition setActiveTab :: "quest_tab \<Rightarrow> quest_page \<Rightarrow> quest_page" where
  "setActiveTab t p = p\<lparr>qp_tab := t\<rparr>"

text \<open>
  \<open>handleCompletedQuest\<close> in its three steps: the click (lines 115--125: nothing without a
  selection, otherwise the quest starts animating and the request is sent), the response
  (lines 126--144), and on success the timer 300 ms later (lines 132--135), which stops the
  animation and closes the modal. After a failure the modal stays open.
\<close>

definition quest_complete_start :: "quest_page \<Rightarrow> quest_page \<times> complete_body option" where
  "quest_complete_start p =
     (case qp_selected p of
        None \<Rightarrow> (p, None)
      | Some q \<Rightarrow> (p\<lparr>qp_animating := qp_animating p @ [q]\<rparr>, quest_complete_request (Some q)))"

definition quest_complete_response ::
  "string \<Rightarrow> quest_page \<Rightarrow> complete_ok response \<Rightarrow> quest_page \<times> bool" where
  "quest_complete_response q p r =
     (case quest_complete_result (qp_completed p) r of
        (cq, toDash) \<Rightarrow>
          (case r of
             OkResp _ _ \<Rightarrow> (p\<lparr>qp_completed := cq\<rparr>, toDash)
           | ErrorResp _ _ \<Rightarrow> (p\<lparr>qp_animating := filter (\<lambda>n. n \<noteq> q) (qp_animating p)\<rparr>, toDash)))"

definition quest_complete_timeout :: "string \<Rightarrow> quest_page \<Rightarrow> quest_page" where
  "quest_complete_timeout q p = p\<lparr>qp_animating := filter (\<lambda>n. n \<noteq> q) (qp_animating p), qp_selected := None\<rparr>"

text \<open>
  The guard effect of the quest page (lines 26--53) and of the profile page (lines 19--46,
  the same code): wait while the session loads, send a visitor without a session home, and
  send a user whose daily set is not done to the dashboard (\<open>checkDailyStrength\<close>).
\<close>

definition daily_guard :: "session_status \<Rightarrow> bool \<Rightarrow> init_ok response \<Rightarrow> string option" where
  "daily_guard st hasSession r =
     (if st = StatusLoading then None
      else if \<not> hasSession then Some ''/''
      else if quest_check_daily r then Some ''/dashboard'' else None)"

section \<open>Quest page render\<close>

text \<open>The value of \<open>quest.stat\<close>: the lower-case category name the page filters by.\<close>

primrec stat_key :: "stat \<Rightarrow> string" where
  "stat_key Strength = ''strength''"
| "stat_key Agility = ''agility''"
| "stat_key Vitality = ''vitality''"
| "stat_key Intelligence = ''intelligence''"
| "stat_key Sense = ''sense''"

definition rotating_stat_names :: "string list" where
  "rotating_stat_names = [''agility'', ''vitality'', ''intelligence'', ''sense'']"

datatype quest_body =
    NoQuestsAssigned
  | TodoPanels "(string \<times> stat_panel) list"
  | NothingCompleted
  | CompletedSections "quest_template list option" "(string \<times> quest_template list) list"

record quest_view =
  qv_todoCount :: nat
  qv_completedCount :: nat
  qv_body :: quest_body
  qv_modal :: "string option"

datatype quest_screen = QuestLoading | QuestBlank | QuestShown quest_view

text \<open>
  The to-do tab (lines 208--230): a \<open>QuestStatContainer\<close> for each rotating category with
  assigned quests, in the page's order.
\<close>

definition todo_panels :: "quest_page \<Rightarrow> (string \<times> stat_panel) list" where
  "todo_panels p =
     concat (map (\<lambda>s. let qs = filter (\<lambda>q. stat_key (stat q) = s) (qp_assigned p) in
                      if qs = [] then []
                      else [(s, quest_stat_container s qs (qp_completed p) (qp_animating p))])
               rotating_stat_names)"

text \<open>The completed tab (lines 231--311): the daily set when done, then each category.\<close>

definition completed_sections :: "quest_page \<Rightarrow> (string \<times> quest_template list) list" where
  "completed_sections p =
     concat (map (\<lambda>s. let qs = filter (\<lambda>q. stat_key (stat q) = s \<and> name q \<in> set (qp_completed p))
                                  (qp_assigned p) in
                      if qs = [] then [] else [(s, qs)])
               rotating_stat_names)"

text \<open>The render of \<open>QuestPanel\<close> (lines 155--336).\<close>

definition quest_page_view :: "catalog \<Rightarrow> session_status \<Rightarrow> bool \<Rightarrow> quest_page \<Rightarrow> quest_screen" where
  "quest_page_view c st hasSession p =
     (if st = StatusLoading \<or> qp_loading p then QuestLoading
      else if \<not> hasSession then QuestBlank
      else QuestShown
        \<lparr>qv_todoCount = length (filter (\<lambda>q. name q \<notin> set (qp_completed p)) (qp_assigned p)),
         qv_completedCount = length (qp_completed p),
         qv_body =
           (if qp_tab p = TabTodo then
              (if qp_assigned p = [] then NoQuestsAssigned else TodoPanels (todo_panels p))
            else if qp_completed p = [] \<and> \<not> qp_dailyDone p then NothingCompleted
            else CompletedSections (if qp_dailyDone p then Some (DAILY_STRENGTH_QUESTS c) else None)
                   (completed_sections p)),
         qv_modal = qp_selected p\<rparr>)"

section \<open>Dashboard render\<close>

text \<open>The state the dashboard renders from (lines 16--20).\<close>

record dash_page =
  dp_userStats :: "user_doc option"
  dp_completed :: "string list"
  dp_showSuccess :: bool
  dp_newStreakDay :: int

text \<open>One line of the goal list: name, \<open>[done/target unit]\<close> and the checkbox.\<close>

record goal_row =
  gr_name :: string
  gr_done :: int
  gr_target :: int
  gr_unit :: "string option"
  gr_checked :: bool

datatype dash_screen =
    DashChecking
  | DashToHome
  | DashLoadingStats
  | DashGoals "goal_row list" "int option"

text \<open>
  The render of \<open>DashBoard\<close> (lines 106--236): the login check, the redirect home without a
  session, the loading line until the stats arrive, then a row per daily quest and, after a
  successful submission, the success screen with the new streak.
\<close>

definition dashboard_view :: "catalog \<Rightarrow> session_status \<Rightarrow> bool \<Rightarrow> dash_page \<Rightarrow> dash_screen" where
  "dashboard_view c st hasSession dp =
     (if st = StatusLoading then DashChecking
      else if \<not> hasSession then DashToHome
      else (case dp_userStats dp of
              None \<Rightarrow> DashLoadingStats
            | Some _ \<Rightarrow>
                DashGoals
                  (map (\<lambda>q. \<lparr>gr_name = name q,
                              gr_done = (if name q \<in> set (dp_completed dp) then target q else 0),
                              gr_target = target q, gr_unit = quest_unit q,
                              gr_checked = name q \<in> set (dp_completed dp)\<rparr>)
                     (DAILY_STRENGTH_QUESTS c))
                  (if dp_showSuccess dp then Some (dp_newStreakDay dp) else None)))"

text \<open>The close button of the success screen (line 209).\<close>

definition dash_success_close :: string where
  "dash_success_close = ''/quest''"

section \<open>Sign-in form render\<close>

record landing_view =
  lv_showConfirm :: bool
  lv_error :: "string option"
  lv_submitLabel :: string
  lv_submitDisabled :: bool
  lv_toggleLabel :: string
  lv_google :: auth_button_view

datatype landing_screen = LandingLoading | LandingToDashboard | LandingForm landing_view

text \<open>
  The render of \<open>HomePage\<close> (lines 18--37, 95--203): a signed-in user is sent to the
  dashboard (the effect of lines 19--23) and sees nothing; otherwise the form, with the
  confirmation field in registration mode, the error when there is one, and the Google
  button of \<open>AuthButton\<close>.
\<close>

definition landing_page_view :: "session_status \<Rightarrow> bool \<Rightarrow> bool \<Rightarrow> landing_state \<Rightarrow> landing_screen" where
  "landing_page_view st hasSession loading ls =
     (if st = StatusLoading then LandingLoading
      else if hasSession then LandingToDashboard
      else LandingForm
        \<lparr>lv_showConfirm = isRegister ls,
         lv_error = (if l_error ls = [] then None else Some (l_error ls)),
         lv_submitLabel = (if loading then ''Please wait...''
                           else if isRegister ls then ''Create Account'' else ''Sign In''),
         lv_submitDisabled = loading,
         lv_toggleLabel = (if isRegister ls then ''Already have an account? Sign in here''
                           else ''Don't have an account? Sign up here''),
         lv_google = auth_button VariantGoogle st hasSession ''Continue with Google''\<rparr>)"

section \<open>Username setup page\<close>

text \<open>The \<open>useState\<close> hooks of \<open>UsernameSetup\<close> (lines 11--14).\<close>

record setup_page =
  sp_username :: string
  sp_loading :: bool
  sp_error :: string
  sp_isValid :: bool

text \<open>The message \<open>validateUsername\<close> sets (lines 17--34); empty when none.\<close>

definition validateUsername_error :: "string \<Rightarrow> string" where
  "validateUsername_error v =
     (if length v = 0 then []
      else if length v > 10 then ''Username must be 10 characters or less''
      else if \<not> list_all username_char v then ''Username can only contain letters, numbers, and underscores''
      else [])"

text \<open>\<open>handleUsernameChange\<close> (lines 39--43).\<close>

definition handleUsernameChange :: "string \<Rightarrow> setup_page \<Rightarrow> setup_page" where
  "handleUsernameChange v p =
     p\<lparr>sp_username := v, sp_error := validateUsername_error v, sp_isValid := validateUsername v\<rparr>"

text \<open>
  \<open>handleSubmit\<close> (lines 45--71): the request and the state while it runs, then the state and
  the navigation after the response (\<open>finally\<close> clears \<open>loading\<close>).
\<close>

definition setup_submit :: "setup_page \<Rightarrow> setup_page \<times> username_body option" where
  "setup_submit p =
     (case username_submit (sp_isValid p) (sp_username p) of
        None \<Rightarrow> (p, None)
      | Some b \<Rightarrow> (p\<lparr>sp_loading := True, sp_error := []\<rparr>, Some b))"

definition setup_response :: "setup_page \<Rightarrow> username_ok response \<Rightarrow> setup_page \<times> bool" where
  "setup_response p r =
     (case username_submit_result r of
        SetupToDashboard \<Rightarrow> (p\<lparr>sp_loading := False\<rparr>, True)
      | SetupError m \<Rightarrow> (p\<lparr>sp_error := m, sp_loading := False\<rparr>, False))"

datatype input_border = BorderError | BorderValid | BorderNeutral

record setup_view =
  sv_border :: input_border
  sv_count :: nat
  sv_error :: "string option"
  sv_submitDisabled :: bool
  sv_submitLabel :: string

datatype setup_screen = SetupLoading | SetupForm setup_view

text \<open>The render (lines 72--136); without a session only a loading line is shown.\<close>

definition setup_page_view :: "bool \<Rightarrow> setup_page \<Rightarrow> setup_screen" where
  "setup_page_view hasSession p =
     (if \<not> hasSession then SetupLoading
      else SetupForm
        \<lparr>sv_border = (if sp_error p \<noteq> [] then BorderError
                      else if sp_isValid p then BorderValid else BorderNeutral),
         sv_count = length (sp_username p),
         sv_error = (if sp_error p = [] then None else Some (sp_error p)),
         sv_submitDisabled = (\<not> sp_isValid p \<or> sp_loading p),
         sv_submitLabel = (if sp_loading p then ''SETTING USERNAME...'' else ''CONTINUE'')\<rparr>)"

section \<open>What the tabs list\<close>

primrec panel_cards :: "stat_panel \<Rightarrow> card_view list" where
  "panel_cards (PanelDone _) = []"
| "panel_cards (PanelCards _ cs) = cs"

definition todo_names :: "quest_page \<Rightarrow> string list" where
  "todo_names p = concat (map (\<lambda>(s, pn). map cv_name (panel_cards pn)) (todo_panels p))"

definition completed_names :: "quest_page \<Rightarrow> string list" where
  "completed_names p = concat (map (\<lambda>(s, qs). map name qs) (completed_sections p))"

section \<open>Facts\<close>

lemma stat_key_rotating: "stat_key k \<in> set rotating_stat_names \<longleftrightarrow> k \<noteq> Strength"
  by (cases k) (simp_all add: rotating_stat_names_def)

lemma stat_key_inj: "stat_key k = stat_key k' \<longleftrightarrow> k = k'"
  by (cases k; cases k') simp_all

lemma container_cards_set:
  "set (panel_cards (quest_stat_container s qs completed [])) =
     (\<lambda>q. quest_card q completed []) ` {q \<in> set qs. name q \<notin> set completed}"
  by (auto simp: quest_stat_container_def allQuestsCompleted_def list_all_iff)

lemma cv_name_quest_card [simp]: "cv_name (quest_card q completed animating) = name q"
  by (simp add: quest_card_def)

text \<open>
  With no card animating, the to-do tab lists a card for exactly the assigned rotating quests
  that are not completed, and the completed tab lists exactly the completed ones: every
  assigned quest is on one tab.
\<close>

lemma todo_names_set:
  assumes "qp_animating p = []"
  shows "set (todo_names p) =
    name ` {q \<in> set (qp_assigned p). stat q \<noteq> Strength \<and> name q \<notin> set (qp_completed p)}"
proof (rule set_eqI)
  fix x
  have "x \<in> set (todo_names p) \<longleftrightarrow>
      (\<exists>s \<in> set rotating_stat_names. \<exists>q \<in> set (qp_assigned p).
         stat_key (stat q) = s \<and> name q \<notin> set (qp_completed p) \<and> x = name q)"
    using assms unfolding todo_names_def todo_panels_def Let_def
    by (auto simp: container_cards_set filter_empty_conv image_image)
  also have "\<dots> \<longleftrightarrow> x \<in> name ` {q \<in> set (qp_assigned p). stat q \<noteq> Strength \<and> name q \<notin> set (qp_completed p)}"
    by (auto simp flip: stat_key_rotating)
  finally show "x \<in> set (todo_names p) \<longleftrightarrow> \<dots>" .
qed

lemma completed_names_set:
  "set (completed_names p) =
    name ` {q \<in> set (qp_assigned p). stat q \<noteq> Strength \<and> name q \<in> set (qp_completed p)}"
  unfolding completed_names_def completed_sections_def Let_def
  by (auto simp: filter_empty_conv image_iff simp flip: stat_key_rotating)

text \<open>
  A completion from the quest page's modal: the click sends the selected name as an
  individual request; after the success and the timer the page holds the server's list of
  completed quests, no longer animates the quest and has closed the modal.
\<close>

lemma quest_complete_ok_cycle:
  assumes "qp_selected p = Some q" and "q \<notin> set (qp_animating p)"
  shows "snd (quest_complete_start p) = Some \<lparr>completedQuests = Some [q], questType = Some ''individual''\<rparr>"
    and "quest_complete_timeout q (fst (quest_complete_response q (fst (quest_complete_start p)) (OkResp s v))) =
           p\<lparr>qp_completed := (case resp_questsCompletedToday v of None \<Rightarrow> [] | Some l \<Rightarrow> l),
             qp_selected := None\<rparr>"
proof -
  have "filter (\<lambda>n. n \<noteq> q) (qp_animating p) = qp_animating p"
    using assms(2) by (auto simp: filter_id_conv)
  then show "quest_complete_timeout q (fst (quest_complete_response q (fst (quest_complete_start p)) (OkResp s v))) =
           p\<lparr>qp_completed := (case resp_questsCompletedToday v of None \<Rightarrow> [] | Some l \<Rightarrow> l),
             qp_selected := None\<rparr>"
    using assms(1) by (simp add: quest_complete_start_def quest_complete_response_def
        quest_complete_result_def quest_complete_timeout_def)
  show "snd (quest_complete_start p) = Some \<lparr>completedQuests = Some [q], questType = Some ''individual''\<rparr>"
    using assms(1) by (simp add: quest_complete_start_def quest_complete_request_def)
qed

text \<open>The setup page shows an error exactly for a non-empty name it does not accept.\<close>

lemma validateUsername_error_iff: "validateUsername_error v = [] \<longleftrightarrow> v = [] \<or> validateUsername v"
  by (simp add: validateUsername_error_def validateUsername_def)

text \<open>
  After the name is typed, submitting sends it unchanged exactly when the page accepts it;
  a name the page accepts passes the route's format checks.
\<close>

lemma setup_sends_typed_name:
  "snd (setup_submit (handleUsernameChange v p)) =
     (if validateUsername v then Some \<lparr>ub_username = Some v\<rparr> else None)"
proof (cases "validateUsername v")
  case True
  then have "v \<noteq> []" and "list_all username_char v" by (auto simp: validateUsername_def split: if_splits)
  moreover from this have "js_trim v = v"
    by (intro js_trim_id) (auto simp: list_all_iff username_char_not_space)
  ultimately show ?thesis using True
    by (simp add: setup_submit_def handleUsernameChange_def username_submit_def)
next
  case False
  then show ?thesis by (simp add: setup_submit_def handleUsernameChange_def username_submit_def)
qed

end
