(* ===== verification/Interleaving.thy ===== *)
theory Interleaving
  imports Complete_Route
begin

text \<open>
  The completion route as the two store operations it performs: a read
  (\<open>findOne\<close>, line 27) from which every new value is computed, and a write
  (\<open>updateOne\<close> with \<open>$set: updateFields\<close>, lines 121--143) that stores those values as
  they are, not as increments. Run one after the other the two phases are the handler of
  \<open>Complete_Route\<close>; two requests whose reads both come before either write lose the
  first write. The spec leaves concurrency control out (section 5, "last-write-wins").
\<close>

text \<open>The read phase: the early return, or the document holding the new field values.\<close>

definition complete_snapshot ::
  "catalog \<Rightarrow> string \<Rightarrow> complete_body \<Rightarrow> timestamp \<Rightarrow> users \<Rightarrow> complete_ok response + user_doc" where
  "complete_snapshot c uid b now db =
     (case findOne_by_id uid db of
        None \<Rightarrow> Inl (ErrorResp 404 ''User not found'')
      | Some u \<Rightarrow>
          (case complete_branch c u b now of
             Inl r \<Rightarrow> Inl r
           | Inr r \<Rightarrow> Inr (complete_update b now r u)))"

text \<open>
  \<open>$set: updateFields\<close> on the stored document: the fields of \<open>updateFields\<close> take the
  computed values (the five \<open>stats.*\<close> paths together replace \<open>stats\<close>; \<open>streakDays\<close>
  only for the daily set), every other field keeps its stored value.
\<close>

definition set_updateFields :: "complete_body \<Rightarrow> user_doc \<Rightarrow> user_doc \<Rightarrow> user_doc" where
  "set_updateFields b new d =
     (let d1 = d\<lparr>totalXP := totalXP new, doc_level := doc_level new, stats := stats new,
                 lastQuestDate := lastQuestDate new, questsCompletedToday := questsCompletedToday new,
                 hasCompletedDailyStrength := hasCompletedDailyStrength new\<rparr>
      in if questType b = Some ''daily_strength'' then d1\<lparr>streakDays := streakDays new\<rparr> else d1)"

definition complete_write :: "string \<Rightarrow> complete_body \<Rightarrow> user_doc \<Rightarrow> users \<Rightarrow> users" where
  "complete_write uid b new db = fst (updateOne_by_id uid (set_updateFields b new) db)"

section \<open>Sequential runs are the handler\<close>

lemma update_first_cong:
  "find p db = Some u \<Longrightarrow> f u = g u \<Longrightarrow> update_first p f db = update_first p g db"
  by (induction db) (auto split: if_splits prod.splits)

lemma set_updateFields_snapshot:
  "set_updateFields b (complete_update b now r u) u = complete_update b now r u"
  by (cases r) (simp add: set_updateFields_def complete_update_def Let_def)

text \<open>
  Read then write, with nothing in between, stores what the handler stores on every
  accepted request.
\<close>

lemma snapshot_then_write:
  assumes "complete_snapshot c uid b now db = Inr new"
  shows "\<exists>u r. findOne_by_id uid db = Some u \<and> complete_branch c u b now = Inr r \<and>
           complete_write uid b new db = fst (updateOne_by_id uid (complete_update b now r) db)"
proof -
  obtain u r where u: "findOne_by_id uid db = Some u" and br: "complete_branch c u b now = Inr r"
    and new: "new = complete_update b now r u"
    using assms by (auto simp: complete_snapshot_def split: option.splits sum.splits)
  have "update_first (\<lambda>d. doc_id d = uid) (set_updateFields b new) db =
      update_first (\<lambda>d. doc_id d = uid) (complete_update b now r) db"
    using u new by (intro update_first_cong [of _ _ u]) (simp_all add: findOne_by_id_def set_updateFields_snapshot)
  then have "complete_write uid b new db = fst (updateOne_by_id uid (complete_update b now r) db)"
    by (simp add: complete_write_def updateOne_by_id_def)
  with u br show ?thesis by blast
qed

section \<open>Two interleaved completions\<close>

text \<open>
  Two individual quests completed at the same time by one user: both reads see the fresh
  document, both requests pass every check, and the second write overwrites the first, so
  one reward and one completed quest are lost. Run one after the other, both count.
\<close>

lemma interleaved_completions_lose_update:
  "\<exists>n1 n2.
     complete_snapshot sample_catalog ''u1'' (individual_body ''Read'') 1728000000000 [sample_user] = Inr n1 \<and>
     complete_snapshot sample_catalog ''u1'' (individual_body ''Walk'') 1728000000000 [sample_user] = Inr n2 \<and>
     complete_write ''u1'' (individual_body ''Walk'') n2
       (complete_write ''u1'' (individual_body ''Read'') n1 [sample_user]) =
       [sample_user\<lparr>totalXP := Some 10, stats := Some (default_stats\<lparr>sense := 11\<rparr>),
                     lastQuestDate := Some 1728000000000, questsCompletedToday := Some [''Walk'']\<rparr>]"
  by (simp add: complete_snapshot_def complete_write_def set_updateFields_def complete_eval_simps)

lemma sequential_completions_count_both:
  "\<exists>v1 db1 v2 db2.
     complete_POST sample_catalog (Some ''u1'') (Some (individual_body ''Read'')) 1728000000000 [sample_user] =
       (OkResp 200 v1, db1) \<and>
     complete_POST sample_catalog (Some ''u1'') (Some (individual_body ''Walk'')) 1728000000000 db1 =
       (OkResp 200 v2, db2) \<and>
     db2 = [sample_user\<lparr>totalXP := Some 30, doc_level := Some 1,
                         stats := Some (default_stats\<lparr>intelligence := 12, sense := 11\<rparr>),
                         lastQuestDate := Some 1728000000000,
                         questsCompletedToday := Some [''Read'', ''Walk'']\<rparr>]"
  by (simp add: complete_eval_simps)

section \<open>The first of two interleaved writes is lost\<close>

lemma set_updateFields_twice:
  assumes "questType b1 \<noteq> Some ''daily_strength'' \<or> questType b2 = Some ''daily_strength''"
  shows "set_updateFields b2 n2 (set_updateFields b1 n1 d) = set_updateFields b2 n2 d"
  using assms by (simp add: set_updateFields_def Let_def)

lemma set_updateFields_id: "doc_id (set_updateFields b n d) = doc_id d"
  by (simp add: set_updateFields_def Let_def)

lemma findOne_complete_write:
  "findOne_by_id uid (complete_write uid b n db) = map_option (set_updateFields b n) (findOne_by_id uid db)"
  by (simp add: complete_write_def updateOne_find_self set_updateFields_id)

text \<open>
  An accepted individual request's read: the document it read, the quest not yet completed
  that day, and the document it computed.
\<close>

lemma individual_snapshot:
  assumes "complete_snapshot c uid b now db = Inr n"
    and "questType b = Some ''individual''" and "completedQuests b = Some [q]"
  shows "\<exists>u. findOne_by_id uid db = Some u \<and> q \<notin> set (completed_today u) \<and>
           n = complete_update b now
                 (fst (reward_names c [q] (js_num_or (totalXP u) 0, current_stats u)),
                  snd (reward_names c [q] (js_num_or (totalXP u) 0, current_stats u)),
                  js_num_or (streakDays u) 1) u"
  using assms
  by (auto simp: complete_snapshot_def complete_branch_def individual_branch_def Let_def
      split: option.splits sum.splits if_splits prod.splits)

text \<open>
  C40. Two individual completions of one user, for different quests, whose reads both come
  before either write: both requests pass every check (the first quest was not completed
  that day), yet the stored document is the second one's alone. Its completed list is the
  one read plus the second quest, without the first, and its experience is the one read plus
  the second reward only. Run back to back, the second request reads the first one's write
  (\<open>snapshot_then_write\<close>) and both count (\<open>sequential_completions_count_both\<close>).
\<close>

theorem interleaved_completion_lost:
  assumes s1: "complete_snapshot c uid b1 now1 db = Inr n1"
    and s2: "complete_snapshot c uid b2 now2 db = Inr n2"
    and t1: "questType b1 = Some ''individual''" and q1: "completedQuests b1 = Some [x1]"
    and t2: "questType b2 = Some ''individual''" and q2: "completedQuests b2 = Some [x2]"
    and ne: "x1 \<noteq> x2"
  shows "\<exists>u u'. findOne_by_id uid db = Some u \<and>
           findOne_by_id uid (complete_write uid b2 n2 (complete_write uid b1 n1 db)) = Some u' \<and>
           completed_today u' = completed_today u @ [x2] \<and> x1 \<notin> set (completed_today u') \<and>
           totalXP u' = Some (fst (reward_names c [x2] (js_num_or (totalXP u) 0, current_stats u)))"
proof -
  obtain u where u: "findOne_by_id uid db = Some u" and fresh1: "x1 \<notin> set (completed_today u)"
    using individual_snapshot [OF s1 t1 q1] by blast
  obtain u2 where u2: "findOne_by_id uid db = Some u2"
    and n2: "n2 = complete_update b2 now2
                 (fst (reward_names c [x2] (js_num_or (totalXP u2) 0, current_stats u2)),
                  snd (reward_names c [x2] (js_num_or (totalXP u2) 0, current_stats u2)),
                  js_num_or (streakDays u2) 1) u2"
    using individual_snapshot [OF s2 t2 q2] by blast
  have uu: "u2 = u" using u u2 by simp
  have "findOne_by_id uid (complete_write uid b2 n2 (complete_write uid b1 n1 db)) =
      Some (set_updateFields b2 n2 u)"
    using u set_updateFields_twice [of b1 b2 n2 n1] t1
    by (simp add: findOne_complete_write)
  moreover have "set_updateFields b2 n2 u = n2"
    using n2 uu set_updateFields_snapshot by metis
  ultimately show ?thesis
    using u fresh1 ne n2 uu t2 q2
    by (simp add: complete_update_def new_completed_def completed_today_def Let_def)
qed

theorem interleaved_completion_lost_witness:
  "\<exists>n1 n2 u'.
     complete_snapshot sample_catalog ''u1'' (individual_body ''Read'') 1728000000000 [sample_user] = Inr n1 \<and>
     complete_snapshot sample_catalog ''u1'' (individual_body ''Walk'') 1728000000000 [sample_user] = Inr n2 \<and>
     findOne_by_id ''u1'' (complete_write ''u1'' (individual_body ''Walk'') n2
       (complete_write ''u1'' (individual_body ''Read'') n1 [sample_user])) = Some u' \<and>
     completed_today u' = [''Walk''] \<and> ''Read'' \<notin> set (completed_today u') \<and> totalXP u' = Some 10"
proof -
  obtain n1 n2 where s1: "complete_snapshot sample_catalog ''u1'' (individual_body ''Read'') 1728000000000
      [sample_user] = Inr n1"
    and s2: "complete_snapshot sample_catalog ''u1'' (individual_body ''Walk'') 1728000000000
      [sample_user] = Inr n2"
    using interleaved_completions_lose_update by blast
  have b: "questType (individual_body ''Read'') = Some ''individual''"
    "completedQuests (individual_body ''Read'') = Some [''Read'']"
    "questType (individual_body ''Walk'') = Some ''individual''"
    "completedQuests (individual_body ''Walk'') = Some [''Walk'']"
    by (simp_all add: individual_body_def)
  have "findOne_by_id ''u1'' [sample_user] = Some sample_user"
    by (simp add: findOne_by_id_def sample_user_def)
  with interleaved_completion_lost [OF s1 s2 b] s1 s2 show ?thesis
    by (auto simp: sample_user_def completed_today_def js_num_or_def reward_names_def
        sample_catalog_def complete_eval_simps)
qed

end
