(* ===== verification/Database.thy ===== *)
theory Database
  imports Prelude
begin

text \<open>
  The connection module \<open>solo-leveling/src/lib/database.ts\<close>: evaluated once per module
  instance, it refuses to start without \<open>MONGODB_URI\<close> and creates a \<open>MongoClient\<close>. In
  development the connection promise is cached on \<open>global\<close>, so the module instances that
  hot reloading creates share one client; in production every instance creates its own.
  A client is named by a number drawn from a counter; the promise is the client it resolves to.
\<close>

datatype node_env = Development | Production

record db_globals =
  g_mongoClientPromise :: "nat option"
  next_client :: nat

text \<open>\<open>new MongoClient(uri)\<close> followed by \<open>connect()\<close>: a fresh client.\<close>

definition new_client :: "db_globals \<Rightarrow> nat \<times> db_globals" where
  "new_client g = (next_client g, g\<lparr>next_client := Suc (next_client g)\<rparr>)"

text \<open>One evaluation of the module (lines 4--29): the exported \<open>clientPromise\<close> or the thrown error.\<close>

definition database_module ::
  "string option \<Rightarrow> node_env \<Rightarrow> db_globals \<Rightarrow> (string + nat) \<times> db_globals" where
  "database_module uri env g =
     (if uri = None \<or> uri = Some [] then (Inl ''Please add your MONGODB_URI to .env.local!'', g)
      else (case env of
              Development \<Rightarrow>
                (case g_mongoClientPromise g of
                   None \<Rightarrow> (case new_client g of (c, g1) \<Rightarrow> (Inr c, g1\<lparr>g_mongoClientPromise := Some c\<rparr>))
                 | Some c \<Rightarrow> (Inr c, g))
            | Production \<Rightarrow> (case new_client g of (c, g1) \<Rightarrow> (Inr c, g1))))"

section \<open>Facts\<close>

text \<open>In development a second evaluation (a hot reload) reuses the first one's client.\<close>

lemma development_reuses_client:
  assumes "database_module uri Development g = (Inr c, g1)"
  shows "database_module uri Development g1 = (Inr c, g1)"
  using assms by (auto simp: database_module_def new_client_def split: option.splits if_splits)

text \<open>In production two evaluations create two different clients.\<close>

lemma production_new_clients:
  assumes "database_module uri Production g = (Inr c1, g1)"
    and "database_module uri Production g1 = (Inr c2, g2)"
  shows "c1 \<noteq> c2"
  using assms by (auto simp: database_module_def new_client_def split: if_splits)

end
