(* ===== verification/Next_Runtime.thy ===== *)
theory Next_Runtime
  imports Page_Views Database
begin

text \<open>
  What the framework does with the repository's configuration: the NextAuth route handlers
  (\<open>app/api/auth/[...nextauth]/route.ts\<close> of both applications, which export
  \<open>NextAuth(authOptions)\<close> as \<open>GET\<close> and \<open>POST\<close>), the session every other route reads with
  \<open>getServerSession(authOptions)\<close>, and \<open>health-leveling/next.config.js\<close> with the two
  effects it has: strict mode, under which React runs every mount effect twice in
  development, and a build that ignores type and lint errors. The behaviour of NextAuth and
  React on these inputs is modelled from their documentation (version 4 of NextAuth): the
  credentials callback, the session endpoint and sign-out, with the session token cookie as
  the browser's state.
\<close>

section \<open>The NextAuth route handlers\<close>

text \<open>
  The session token cookie: the JSON web token (the \<open>jwt\<close> callback's result) with the
  default claims NextAuth puts into the session's \<open>user\<close> (name and email).
\<close>

type_synonym auth_cookie = "(jwt_token \<times> session_user) option"

datatype auth_endpoint =
    CallbackCredentials "credentials option"
  | GetSession
  | SignOut

datatype auth_reply =
    AuthSignedIn
  | AuthError string
  | SessionBody "session option"
  | SignedOut

text \<open>The session a cookie stands for under the given options (\<open>/api/auth/session\<close>).\<close>

definition session_of_cookie :: "auth_options \<Rightarrow> auth_cookie \<Rightarrow> session option" where
  "session_of_cookie opts c =
     (case c of
        None \<Rightarrow> None
      | Some (tok, su) \<Rightarrow>
          (case ao_session opts of
             JwtSessions jcb scb \<Rightarrow> Some (scb \<lparr>sess_user = Some su\<rparr> tok)
           | DatabaseSessions _ \<Rightarrow> None))"

text \<open>
  \<open>NextAuth(options)\<close> on the three endpoints: a credentials sign-in runs \<open>authorize\<close> and,
  with JSON web tokens, sets the cookie from the \<open>jwt\<close> callback; with database sessions it
  fails (credentials sign-in is supported with the JWT strategy only) and sets no cookie.
\<close>

definition NextAuth ::
  "auth_options \<Rightarrow> (string \<Rightarrow> string \<Rightarrow> bool) \<Rightarrow> users \<Rightarrow> auth_cookie \<Rightarrow> auth_endpoint \<Rightarrow>
   auth_reply \<times> auth_cookie" where
  "NextAuth opts compare db c ep =
     (case ep of
        CallbackCredentials creds \<Rightarrow>
          (case ao_authorize opts compare creds db of
             None \<Rightarrow> (AuthError ''CredentialsSignin'', c)
           | Some a \<Rightarrow>
               (case ao_session opts of
                  JwtSessions jcb scb \<Rightarrow>
                    (AuthSignedIn,
                     Some (jcb \<lparr>tok_id = None\<rparr> (Some (signin_of a)),
                           \<lparr>su_email = Some (au_email a), su_name = Some (au_name a), su_uid = None\<rparr>))
                | DatabaseSessions _ \<Rightarrow> (AuthError ''CallbackRouteError'', c)))
      | GetSession \<Rightarrow> (SessionBody (session_of_cookie opts c), c)
      | SignOut \<Rightarrow> (SignedOut, None))"

datatype http_method = GET | POST

text \<open>\<open>const handler = NextAuth(authOptions); export {handler as GET, handler as POST}\<close>.\<close>

definition health_auth_route ::
  "http_method \<Rightarrow> (string \<Rightarrow> string \<Rightarrow> bool) \<Rightarrow> users \<Rightarrow> auth_cookie \<Rightarrow> auth_endpoint \<Rightarrow>
   auth_reply \<times> auth_cookie" where
  "health_auth_route m = NextAuth health_authOptions"

definition solo_auth_route ::
  "http_method \<Rightarrow> (string \<Rightarrow> string \<Rightarrow> bool) \<Rightarrow> users \<Rightarrow> auth_cookie \<Rightarrow> auth_endpoint \<Rightarrow>
   auth_reply \<times> auth_cookie" where
  "solo_auth_route m = NextAuth solo_authOptions"

text \<open>
  \<open>getServerSession(authOptions)\<close> followed by \<open>session?.user?.id\<close>: the id every route
  handler of the application works with, read from the request's cookie.
\<close>

definition getServerSession :: "auth_options \<Rightarrow> auth_cookie \<Rightarrow> string option" where
  "getServerSession opts c =
     (case session_of_cookie opts c of None \<Rightarrow> None | Some s \<Rightarrow> session_uid s)"

section \<open>The build configuration\<close>

record next_config =
  reactStrictMode :: bool
  ignoreBuildErrors :: bool
  ignoreDuringBuilds :: bool

text \<open>\<open>health-leveling/next.config.js\<close>.\<close>

definition nextConfig :: next_config where
  "nextConfig = \<lparr>reactStrictMode = True, ignoreBuildErrors = True, ignoreDuringBuilds = True\<rparr>"

text \<open>\<open>next build\<close> given the number of type errors and of lint errors it finds.\<close>

definition next_build_ok :: "next_config \<Rightarrow> nat \<Rightarrow> nat \<Rightarrow> bool" where
  "next_build_ok cfg typeErrors lintErrors \<longleftrightarrow>
     (typeErrors = 0 \<or> ignoreBuildErrors cfg) \<and> (lintErrors = 0 \<or> ignoreDuringBuilds cfg)"

text \<open>How often React runs a component's mount effects: twice under strict mode in development.\<close>

definition effect_passes :: "next_config \<Rightarrow> node_env \<Rightarrow> nat" where
  "effect_passes cfg env = (if reactStrictMode cfg \<and> env = Development then 2 else 1)"

section \<open>Mounting the profile page\<close>

text \<open>
  The state of \<open>ProfilePage\<close> that its effects change: the fetched user data, the loading
  flag, and the routes pushed onto the router.
\<close>

record profile_state =
  pf_userData :: "user_doc option"
  pf_loading :: bool
  pf_pushes :: "string list"

definition profile_state_init :: profile_state where
  "profile_state_init = \<lparr>pf_userData = None, pf_loading = True, pf_pushes = []\<rparr>"

text \<open>
  The first effect (lines 18--45): nothing while the session loads, the landing page
  without a session, otherwise \<open>checkDailyStrength\<close>: initialise, and the dashboard when the
  daily set is not done (\<open>daily_guard\<close>).
\<close>

definition profile_guard_effect ::
  "session_status \<Rightarrow> bool \<Rightarrow> string option \<Rightarrow> timestamp \<Rightarrow> profile_state \<times> users \<Rightarrow> profile_state \<times> users" where
  "profile_guard_effect st hasSession sess now psdb =
     (case psdb of (ps, db) \<Rightarrow>
        if st = StatusLoading then (ps, db)
        else if \<not> hasSession then (ps\<lparr>pf_pushes := pf_pushes ps @ [''/'']\<rparr>, db)
        else (case initialize_POST sess now db of
                (r, db') \<Rightarrow> (ps\<lparr>pf_pushes := pf_pushes ps @ (case daily_guard st hasSession r of
                                                              None \<Rightarrow> [] | Some p \<Rightarrow> [p])\<rparr>, db')))"

text \<open>
  The second effect (lines 48--71): without an id nothing (the loading flag stays set);
  otherwise initialise, keep \<open>userData\<close> on success, and clear the loading flag.
\<close>

definition profile_fetch_effect ::
  "string option \<Rightarrow> timestamp \<Rightarrow> profile_state \<times> users \<Rightarrow> profile_state \<times> users" where
  "profile_fetch_effect sess now psdb =
     (case psdb of (ps, db) \<Rightarrow>
        (case sess of
           None \<Rightarrow> (ps, db)
         | Some _ \<Rightarrow>
             (case initialize_POST sess now db of
                (r, db') \<Rightarrow> (ps\<lparr>pf_userData := (if is_error r then pf_userData ps else profile_fetch r),
                                pf_loading := False\<rparr>, db'))))"

text \<open>One pass over the mount effects, in the order the component declares them.\<close>

definition profile_effects ::
  "session_status \<Rightarrow> bool \<Rightarrow> string option \<Rightarrow> timestamp \<Rightarrow> profile_state \<times> users \<Rightarrow> profile_state \<times> users" where
  "profile_effects st hasSession sess now = profile_fetch_effect sess now \<circ> profile_guard_effect st hasSession sess now"

definition profile_mount ::
  "next_config \<Rightarrow> node_env \<Rightarrow> session_status \<Rightarrow> bool \<Rightarrow> string option \<Rightarrow> timestamp \<Rightarrow> users \<Rightarrow>
   profile_state \<times> users" where
  "profile_mount cfg env st hasSession sess now db =
     (profile_effects st hasSession sess now ^^ effect_passes cfg env) (profile_state_init, db)"

section \<open>Facts: sign-in through the route handler\<close>

text \<open>
  A credentials sign-in through the handler yields the session id the callbacks compute
  (\<open>credentials_session_uid\<close>); with the \<open>solo-leveling\<close> options the sign-in fails and no
  cookie gives a session, so every route of that application answers 401 to a user who
  signed in with a password.
\<close>

lemma NextAuth_credentials_uid:
  assumes "ao_authorize opts compare creds db = Some a"
  shows "getServerSession opts (snd (NextAuth opts compare db c (CallbackCredentials creds))) =
           credentials_session_uid opts a"
  using assms
  by (simp add: NextAuth_def getServerSession_def session_of_cookie_def credentials_session_uid_def
      split: session_mode.splits option.splits)

lemma solo_credentials_no_session:
  "fst (solo_auth_route m compare db c (CallbackCredentials creds)) \<noteq> AuthSignedIn \<and>
   getServerSession solo_authOptions c' = None"
  by (simp add: solo_auth_route_def NextAuth_def solo_authOptions_def getServerSession_def
      session_of_cookie_def split: option.splits)

text \<open>
  C27. Registration, sign-in and an authenticated call compose: after a successful
  registration, a credentials sign-in with the same email and password through the
  \<open>health-leveling\<close> handler sets a cookie whose session carries the inserted id (and the
  email as name), and the initialise route served with that cookie's session answers with the
  registered document and stores nothing.
\<close>

theorem register_signin_route_roundtrip:
  assumes reg: "register_POST hash oid (Some \<lparr>reg_email = Some e, reg_password = Some p\<rparr>) now db =
                  (OkResp st r, db')"
    and cmp: "compare p (hash p)" and hne: "hash p \<noteq> []" and oid: "oid \<noteq> []"
    and signin: "health_auth_route POST compare db' c
                   (CallbackCredentials (Some \<lparr>cred_email = Some e, cred_password = Some p\<rparr>)) = (rep, c')"
  shows "rep = AuthSignedIn \<and> getServerSession health_authOptions c' = Some (userId r) \<and>
         fst (health_auth_route GET compare db' c' GetSession) =
           SessionBody (Some \<lparr>sess_user = Some \<lparr>su_email = Some e, su_name = Some e, su_uid = Some oid\<rparr>\<rparr>) \<and>
         initialize_POST (getServerSession health_authOptions c') now' db' =
           (OkResp 200 \<lparr>userData = Some (registered_user oid e (hash p) now), wasInitialized = False\<rparr>, db')"
proof -
  let ?a = "\<lparr>au_id = userId r, au_email = e, au_name = e\<rparr>"
  have auth: "authorize compare (Some \<lparr>cred_email = Some e, cred_password = Some p\<rparr>) db' = Some ?a"
    and rid: "userId r = oid" and fresh: "oid \<notin> doc_id ` set db"
    and db': "db' = insertOne (registered_user oid e (hash p) now) db"
    using register_signin_roundtrip [where hash = hash and compare = compare and oid = oid and e = e
        and p = p and us = "\<lparr>su_email = None, su_name = None, su_uid = None\<rparr>"
        and s = "\<lparr>sess_user = Some \<lparr>su_email = None, su_name = None, su_uid = None\<rparr>\<rparr>",
        OF reg cmp hne oid] register_POST_ok [OF reg] by auto
  have c': "rep = AuthSignedIn"
      "c' = Some (jwt_callback \<lparr>tok_id = None\<rparr> (Some (signin_of ?a)),
                 \<lparr>su_email = Some e, su_name = Some e, su_uid = None\<rparr>)"
    using signin auth by (simp_all add: health_auth_route_def NextAuth_def health_authOptions_def)
  have uid: "getServerSession health_authOptions c' = Some oid"
    using c'(2) oid rid
    by (simp add: getServerSession_def session_of_cookie_def health_authOptions_def session_uid_def
        session_callback_jwt_def jwt_callback_def signin_of_def)
  have f: "findOne_by_id oid db' = Some (registered_user oid e (hash p) now)"
    using findOne_after_insert [OF fresh] db' by (simp add: registered_user_def)
  show ?thesis
    using c' uid rid oid initialize_POST_has_stats [OF f, of now']
    by (simp add: health_auth_route_def NextAuth_def health_authOptions_def session_of_cookie_def
        session_callback_jwt_def jwt_callback_def signin_of_def registered_user_def)
qed

theorem register_signin_route_roundtrip_witness:
  "fst (health_auth_route POST (=) [registered_user ''r1'' ''hunter@mail.com'' ''secret1'' 0] None
      (CallbackCredentials (Some \<lparr>cred_email = Some ''hunter@mail.com'', cred_password = Some ''secret1''\<rparr>)))
     = AuthSignedIn \<and>
   getServerSession health_authOptions
     (snd (health_auth_route POST (=) [registered_user ''r1'' ''hunter@mail.com'' ''secret1'' 0] None
       (CallbackCredentials (Some \<lparr>cred_email = Some ''hunter@mail.com'', cred_password = Some ''secret1''\<rparr>))))
     = Some ''r1''"
proof -
  have r: "register_POST id ''r1''
      (Some \<lparr>reg_email = Some ''hunter@mail.com'', reg_password = Some ''secret1''\<rparr>) 0 [] =
      (OkResp 201 \<lparr>reg_message = ''User registered successfully'', userId = ''r1''\<rparr>,
       [registered_user ''r1'' ''hunter@mail.com'' ''secret1'' 0])"
    by (simp add: register_POST_def emailRegex_test_def email_plain_def js_space_def insertOne_def)
  show ?thesis
    using register_signin_route_roundtrip [OF r _ _ _ surjective_pairing, where compare = "(=)"
        and c = None and now' = 0]
    by simp
qed

section \<open>Facts: the build and strict mode\<close>

text \<open>
  With \<open>next.config.js\<close> the production build succeeds whatever type and lint errors the
  sources have.
\<close>

lemma nextConfig_build_ok: "next_build_ok nextConfig typeErrors lintErrors"
  by (simp add: next_build_ok_def nextConfig_def)

text \<open>
  A second pass of the mount effects over the state and store the first pass left repeats
  the first pass's navigation and changes nothing else: initialise is idempotent
  (\<open>initialize_POST_again\<close>).
\<close>

lemma initialize_POST_again_view:
  assumes "initialize_POST s now db = (r1, db1)"
  shows "\<exists>r2. initialize_POST s now db1 = (r2, db1) \<and> is_error r2 = is_error r1 \<and>
           quest_check_daily r2 = quest_check_daily r1 \<and> profile_fetch r2 = profile_fetch r1"
proof -
  obtain r2 where r2: "initialize_POST s now db1 = (r2, db1)" "is_error r2 = is_error r1"
    and ok: "\<forall>st d. r1 = OkResp st d \<longrightarrow> (\<exists>d2. r2 = OkResp 200 d2 \<and> userData d2 = userData d)"
    using initialize_POST_again [OF assms] by (elim exE conjE) (rule that)
  have "quest_check_daily r2 = quest_check_daily r1 \<and> profile_fetch r2 = profile_fetch r1"
  proof (cases r1)
    case (ErrorResp st m)
    then show ?thesis using r2(2) by (cases r2) (simp_all add: quest_check_daily_def profile_fetch_def)
  next
    case (OkResp st d)
    then show ?thesis using ok by (auto simp: quest_check_daily_def profile_fetch_def)
  qed
  with r2 show ?thesis by blast
qed

lemma profile_effects_again:
  assumes "profile_effects st hs sess now (ps, db) = (ps1, db1)"
  shows "profile_effects st hs sess now (ps1, db1) =
           (ps1\<lparr>pf_pushes := pf_pushes ps1 @ drop (length (pf_pushes ps)) (pf_pushes ps1)\<rparr>, db1)"
proof (cases "st = StatusLoading \<or> \<not> hs")
  case True
  show ?thesis
  proof (cases sess)
    case None
    then show ?thesis using assms True
      by (auto simp: profile_effects_def profile_guard_effect_def profile_fetch_effect_def)
  next
    case (Some uid)
    obtain r db' where i: "initialize_POST sess now db = (r, db')" by fastforce
    obtain r2 where i2: "initialize_POST sess now db' = (r2, db')" "is_error r2 = is_error r"
        "profile_fetch r2 = profile_fetch r"
      using initialize_POST_again_view [OF i] by blast
    show ?thesis using assms True Some i i2
      by (auto simp: profile_effects_def profile_guard_effect_def profile_fetch_effect_def)
  qed
next
  case False
  show ?thesis
  proof (cases sess)
    case None
    then show ?thesis using assms False
      by (auto simp: profile_effects_def profile_guard_effect_def profile_fetch_effect_def
          initialize_POST_def daily_guard_def quest_check_daily_def)
  next
    case (Some uid)
    obtain r db' where i: "initialize_POST sess now db = (r, db')" by fastforce
    obtain r2 where i2: "initialize_POST sess now db' = (r2, db')" "is_error r2 = is_error r"
        "quest_check_daily r2 = quest_check_daily r" "profile_fetch r2 = profile_fetch r"
      using initialize_POST_again_view [OF i] by blast
    obtain r3 where i3: "initialize_POST sess now db' = (r3, db')" "is_error r3 = is_error r2"
        "quest_check_daily r3 = quest_check_daily r2" "profile_fetch r3 = profile_fetch r2"
      using initialize_POST_again_view [OF i2(1)] by blast
    show ?thesis using assms False Some i i2 i3
      by (auto simp: profile_effects_def profile_guard_effect_def profile_fetch_effect_def daily_guard_def)
  qed
qed

lemma profile_mount_passes:
  "profile_mount cfg env st hs sess now db =
     (if reactStrictMode cfg \<and> env = Development
      then profile_effects st hs sess now (profile_effects st hs sess now (profile_state_init, db))
      else profile_effects st hs sess now (profile_state_init, db))"
  by (simp add: profile_mount_def effect_passes_def numeral_2_eq_2)

text \<open>
  C8. Strict mode is harmless for the profile page: mounted in development, where React runs
  its two effects twice (four initialise calls), the page ends with the same store, the same
  user data and the same loading flag as the single pass of production; only the navigation
  it requests is repeated.
\<close>

theorem strict_mode_profile_mount:
  "snd (profile_mount nextConfig Development st hs sess now db) =
     snd (profile_mount nextConfig Production st hs sess now db) \<and>
   pf_userData (fst (profile_mount nextConfig Development st hs sess now db)) =
     pf_userData (fst (profile_mount nextConfig Production st hs sess now db)) \<and>
   pf_loading (fst (profile_mount nextConfig Development st hs sess now db)) =
     pf_loading (fst (profile_mount nextConfig Production st hs sess now db)) \<and>
   pf_pushes (fst (profile_mount nextConfig Development st hs sess now db)) =
     pf_pushes (fst (profile_mount nextConfig Production st hs sess now db)) @
     pf_pushes (fst (profile_mount nextConfig Production st hs sess now db))"
proof -
  obtain ps1 db1 where one: "profile_effects st hs sess now (profile_state_init, db) = (ps1, db1)"
    by fastforce
  show ?thesis
    using profile_effects_again [OF one] one
    by (simp add: profile_mount_passes nextConfig_def profile_state_init_def)
qed

text \<open>
  The document of a user who has not done the daily set: the page is sent to the dashboard
  (twice in development) and the store is unchanged.
\<close>

lemma strict_mode_profile_mount_example:
  "profile_mount nextConfig Development StatusAuthenticated True (Some ''u1'') 0 [sample_user] =
     (\<lparr>pf_userData = Some sample_user, pf_loading = False, pf_pushes = [''/dashboard'', ''/dashboard'']\<rparr>,
      [sample_user])"
  by (simp add: profile_mount_passes nextConfig_def profile_effects_def profile_guard_effect_def
      profile_fetch_effect_def profile_state_init_def initialize_POST_def checkIfUserHasGamingStats_def
      getUserWithGamingStats_def findOne_by_id_def daily_guard_def quest_check_daily_def
      profile_fetch_def sample_user_def)

end
