(* ===== verification/Spec2Isabelle.thy ===== *)
theory Spec2Isabelle
  imports Prelude Level Quest_Catalog Quest_Selector User_Store Complete_Route Initialize_Route
    Assign_Route Register_Route Username_Route Auth Client System Pages Progression_System Page_Views
    Interleaving Database Next_Runtime
begin

text \<open>
  \<^bold>\<open>A verification library for health-leveling.\<close>

  The repository holds two Next.js applications of one habit tracker. \<open>solo-leveling\<close> has
  the progression engine: the routes \<open>/api/quests/assign\<close> (today's random quests),
  \<open>/api/quests/complete\<close> (experience, stats, level, streak), \<open>/api/user/initialize\<close> (default
  stats and the daily reset), the level curve \<open>lib/levelUtils.ts\<close>, the template lookup
  \<open>lib/getQuestTemplate.ts\<close>, and the pages \<open>dashboard\<close> and \<open>quest\<close> that call them.
  \<open>health-leveling\<close> has accounts: \<open>/api/auth/register\<close>, \<open>/api/user/username\<close>, the user
  document \<open>lib/models/User.ts\<close>, the helpers \<open>lib/userHelpers.ts\<close>, the NextAuth options
  \<open>lib/auth.ts\<close> and the username setup page. Every route reads and writes one MongoDB
  collection, \<open>users\<close>; the session gives each handler the id of the signed-in user.

  \<^bold>\<open>Theories and what they model.\<close>
  \<^item> \<open>Prelude\<close>: the JavaScript semantics the code relies on: the response type
    (\<open>ErrorResp status message\<close> or \<open>OkResp status body\<close>, so every early return is a
    value), \<open>x || d\<close> on numbers (\<open>js_num_or\<close>), \<open>slice(0, n)\<close> (\<open>js_slice0\<close>), the
    destructuring swap (\<open>list_swap\<close>), \<open>trim\<close>, and calendar days (\<open>toDateString\<close> is the
    day number of a millisecond timestamp, \<open>yesterday_of\<close> subtracts one day).
  \<^item> \<open>Level\<close>: \<open>calculateLevel\<close> with its \<open>while\<close> loop as a terminating \<open>function\<close>.
  \<^item> \<open>Quest_Catalog\<close>: the quest template record and the five catalog arrays. The file
    \<open>lib/models/QuestTemplate.ts\<close> is not in the repository, so the catalog is a parameter
    with the spec's well-formedness (\<open>catalog_wf\<close>); \<open>getQuestTemplateById\<close> is translated.
  \<^item> \<open>Quest_Selector\<close>: \<open>getRandomQuests\<close> (Fisher--Yates, then \<open>slice\<close>) in the state monad
    over a stream of 53-bit words, the values of \<open>Math.random\<close>.
  \<^item> \<open>User_Store\<close>: \<open>UserDocument\<close> as a record of optional fields, the collection as a list
    with \<open>findOne\<close> (first match), \<open>updateOne\<close> (first match, \<open>modifiedCount\<close>),
    \<open>insertOne\<close> (append), and the three helpers of \<open>userHelpers.ts\<close>.
  \<^item> \<open>Complete_Route\<close>, \<open>Initialize_Route\<close>, \<open>Assign_Route\<close>, \<open>Register_Route\<close>,
    \<open>Username_Route\<close>: one definition per \<open>POST\<close> handler (\<open>complete_POST\<close>,
    \<open>initialize_POST\<close>, \<open>assign_POST\<close>, \<open>register_POST\<close>, \<open>username_POST\<close>) taking the
    session's user id, the body, the time and the collection and returning the response and
    the new collection; each branch and guard of the source is a branch of the definition,
    and the pieces (\<open>daily_strength_branch\<close>, \<open>individual_branch\<close>, \<open>complete_update\<close>,
    \<open>reset_today\<close>, \<open>existing_assignment\<close>, \<open>draw_quests\<close>, \<open>emailRegex_test\<close>,
    \<open>username_taken\<close>, ...) are definitions of their own in the source's order.
  \<^item> \<open>Auth\<close>: \<open>authorize\<close>, the \<open>redirect\<close>, \<open>jwt\<close> and \<open>session\<close> callbacks; the hash and
    \<open>bcrypt.compare\<close> are parameters.
  \<^item> \<open>Client\<close>: the decisions of the dashboard (\<open>initializeUser\<close>, \<open>handleQuestComplete\<close>),
    of the quest page (\<open>checkDailyStrength\<close>, the two fetches, \<open>handleCompletedQuest\<close>) and
    of the username setup page (\<open>handleSubmit\<close>).
  \<^item> \<open>Pages\<close>: the values the profile page, the quest list components and the sign-in
    form compute and render, including a render that throws.
  \<^item> \<open>Auth_UI\<close>: the two NextAuth option objects as values (providers, session strategy,
    callbacks), the session a credentials sign-in yields under each, and the \<open>AuthButton\<close>
    and \<open>Navigation\<close> components.
  \<^item> \<open>Interleaving\<close>: the completion route split into its read (\<open>findOne\<close> and the
    computation of \<open>updateFields\<close>) and its write (\<open>$set\<close>), proved equal to the handler
    when run back to back.
  \<^item> \<open>Database\<close>: the connection module \<open>lib/database.ts\<close> as a function of the
    environment and the global cache: in development a reload reuses the cached client, in
    production each evaluation connects a new one; a missing URI throws.
  \<^item> \<open>Page_Views\<close>: the quest page's React state as a record with every handler as a
    transition (the completion in three steps: click, response, timer), the guard effect of the
    quest and profile pages, and the renders of the quest page, the dashboard, the sign-in
    form and the username setup page as values.
  \<^item> \<open>System\<close>: all routes as one step function \<open>sys_exec\<close> on the collection and the random
    stream, and \<open>reachable\<close>, the states reachable from the empty collection by any sequence
    of requests.
  \<^item> \<open>Progression_Spec\<close>: the contract of the progression engine as \<open>spec.md\<close> states it
    (sections 3, 4.3, 4.4): an abstract \<open>progression\<close> record, \<open>normalize\<close> (the daily reset
    policy), \<open>completeDaily\<close> and \<open>completeIndividual\<close> with the errors \<open>InvalidRequest\<close>,
    \<open>AlreadyCompleted\<close>, \<open>UnknownQuest\<close>; the abstraction \<open>prog_of\<close> of a stored document
    (read with the handler's \<open>||\<close> defaults) and of a request body (\<open>completion_of\<close>);
    \<open>prog_ready\<close>, the documents whose per-day fields belong to the current day.
  \<^item> \<open>Progression_System\<close>: \<open>prog_sane\<close>, an invariant of every reachable state (non-negative
    stats, empty per-day fields before a first completion), and the initialise route turning
    a sane document into a ready one; for a user with gaming stats the document initialise
    returns abstracts to \<open>normalize\<close> of the stored one (the spec's daily reset policy).
  \<^item> \<open>Next_Runtime\<close>: what the framework does with the configuration. The NextAuth route
    files export \<open>NextAuth(authOptions)\<close> as \<open>GET\<close> and \<open>POST\<close>
    (\<open>health_auth_route\<close>, \<open>solo_auth_route\<close>). The handler is modelled on three endpoints:
    the credentials callback, the session and sign-out. The session-token cookie is the
    browser's state, and \<open>getServerSession\<close> is the id every other route reads from it.
    \<open>next.config.js\<close> is a record, \<open>nextConfig\<close>. The profile page's mount is its two
    effects, each calling initialise. React runs them twice under strict mode in development
    (\<open>effect_passes\<close>). NextAuth and React are libraries: their behaviour on these inputs is
    modelled from their documentation.

  \<^bold>\<open>What is proved.\<close>
  \<^item> The progression engine (\<open>Complete_Route\<close>, C1--C6, C37): a second daily set on the same
    day is refused whatever happened before; the streak grows by one on the next day and
    restarts at 1 after a gap; a repeated individual quest is refused; every error leaves the
    collection unchanged; the daily name checks accept exactly the permutations of the four
    daily names; an unknown \<open>questType\<close> is accepted and rewrites the day's completions.
  \<^item> The level curve (\<open>Level\<close>, C7, C9, C10): refinement of the loop by the closed form of the
    spec, the bracket \<open>xpRequired - 200 \<le> x < xpRequired\<close>, and termination:
    the loop kept as \<open>while_option\<close> returns \<open>Some\<close> from every state, the value of the
    recursive definition.
  \<^item> The selector (\<open>Quest_Selector\<close>, C11, C12): for every random stream the result is
    a sub-multiset of the input of length \<open>min(count, length)\<close>, without repetition when the
    input has none (a negative count is not empty, a lemma there).
  \<^item> Refinement of the specified engine (\<open>Progression_Spec\<close>, C14, C16, C17;
    \<open>Progression_System\<close>, C32): on a ready document every request the completion route
    accepts is a transition of \<open>completeDaily\<close> or \<open>completeIndividual\<close> between the
    abstractions of the old and the stored document, with the level derived from the new
    experience (C16); every rejection of the engine other than \<open>UnknownQuest\<close> is a rejection
    of the route with the collection unchanged (C17); every transition of the engine is taken
    by the route, except a daily set on a day that already has an individual completion
    (C14); and from every reachable state, after the initialise call the pages make, the
    route's accepted completions are transitions of the engine (C32).
  \<^item> The daily reset and the assignment (C15, C18--C20): the reset clears only the per-day
    fields; assignment is idempotent within a day, draws two distinct templates per stat
    otherwise, and always succeeds for an existing user.
  \<^item> Accounts (C23--C26, C28, C30; C27 in \<open>Next_Runtime\<close>; C21 in \<open>System\<close>): in every
    reachable state every document with a stored password has an email of the form the
    registration pattern describes (the email check decides exactly that pattern's
    language, a lemma of \<open>Register_Route\<close>). Registration, sign-in through
    the \<open>health-leveling\<close> NextAuth route and an authenticated call round-trip: the session
    the cookie carries is the inserted document's id, and initialise then answers with the
    registered document. Sign-in needs the stored hash; the setup page and the username route agree
    on valid names; usernames are unique up to case after each success, and one's own name
    cannot be resubmitted. The redirect callback follows \<open>baseUrl@h/\<close> for every other host
    \<open>h\<close>; \<open>url_host\<close> reads a URL's host as the URL standard does, after the user information.
  \<^item> Client and server together (C31, \<open>Client\<close>; C13, \<open>Pages\<close>): the dashboard only
    sends daily sets the route accepts (and the quest page's fallback on daily errors is
    unreachable, a lemma there); the profile page throws for a user registered with
    credentials. Lemmas of \<open>Page_Views\<close> and \<open>Auth_UI\<close>: with nothing animating, the quest
    page's to-do tab shows exactly the assigned rotating quests not completed and the completed
    tab exactly the completed ones; a completion from the modal ends with the server's list
    and the modal closed; the setup page sends the typed name unchanged exactly when it
    accepts it; a credentials sign-in reaches the routes with the document's id under the
    \<open>health-leveling\<close> options.
  \<^item> The whole system (\<open>System\<close>, C22, C29, C33--C36): invariants of every reachable state,
    proved by rule induction with one preservation lemma per route: unique ids and emails,
    usernames unique up to case, the stored level derived from the stored experience, stored
    assignments made of catalog template ids; no step loses a document or experience; and
    liveness: on any later day the daily set of any user is accepted.
  \<^item> Across routes (this theory, C38, C39): without initialise an individual quest stays
    "completed today" forever, with it the next day's completion succeeds (and a credentials
    user never receives gaming stats, a lemma here).
  \<^item> The runtime (\<open>Next_Runtime\<close>, C8): strict mode is harmless for the profile page.
    Its development mount runs four initialise calls and ends with the same store, user
    data and loading flag as production's single pass; only its navigation is repeated.
    This rests on initialise being idempotent (\<open>initialize_POST_idem\<close>). With the
    \<open>solo-leveling\<close> options a credentials sign-in through the route fails and gives no
    session (a lemma there).
  \<^item> Interleaving (\<open>Interleaving\<close>, C40): two individual completions of one user for
    different quests, with both reads before either write, both pass every check. The stored
    document lacks the first quest and counts only the second reward.

  \<^bold>\<open>Modelling choices and bounds.\<close> Numbers are \<open>int\<close>: the values are small counters and
  JavaScript doubles hold them exactly. \<open>Math.random\<close> is a \<open>53 word\<close> divided by \<open>2^53\<close>,
  so \<open>Math.floor(Math.random() * n)\<close> is \<open>k * n div 2^53\<close>, always below \<open>n\<close>; a theorem
  quantified over all streams holds for every seed. Dates are UTC day numbers
  (\<open>t div 86400000\<close>); the server's local time zone is not modelled. The only loop, the level
  loop, terminates by the measure \<open>x - threshold + 1\<close> (C10 also proves it of the loop kept
  as \<open>while_option\<close>); no fuel is needed. The collection is
  accessed one request at a time, as the spec assumes, in \<open>System\<close>; \<open>Interleaving\<close> splits
  the completion route into its read and its write and proves what an interleaving of two
  completions does; a general model of concurrent requests is not built.

  \<^bold>\<open>Not modelled.\<close> Styling and markup of the pages (what the markup shows is
  modelled: counts, lists, labels, enabled buttons); the MongoDB driver itself (the
  collection operations are modelled by their documented effect); NextAuth beyond the
  credentials callback, the session and sign-out endpoints: the Google OAuth flow and the
  adapter's database sessions; the type and lint checks that \<open>next build\<close> skips (only
  their counts matter to \<open>next_build_ok\<close>); the
  Google provider; bcrypt itself (a parameter); \<open>new ObjectId(id)\<close> throwing on a malformed
  id (the session ids are ids of stored documents).
\<close>

section \<open>Properties across routes\<close>

text \<open>Concrete runs used by the witnesses below.\<close>

lemma sample_individual_ok:
  "\<exists>s v db1. complete_POST sample_catalog (Some ''u1'') (Some (individual_body ''Read'')) 1728000000000
     [sample_user] = (OkResp s v, db1)"
  by (simp add: complete_eval_simps)

text \<open>
  C38. Only the initialise route resets the per-day fields, and the completion route does
  not look at the date for individual quests: once an individual quest is completed, the same
  quest is refused as \<open>Quest already completed today\<close> on every later day until the client
  calls initialise. The spec normalises the per-day state before every check.
\<close>

theorem individual_stale_without_reset:
  assumes "complete_POST c (Some uid) (Some (individual_body n)) t1 db = (OkResp s v, db1)"
  shows "complete_POST c (Some uid) (Some (individual_body n)) t2 db1 = (ErrorResp 400 msg_quest_done, db1)"
proof -
  obtain u' where "findOne_by_id uid db1 = Some u'" and "n \<in> set (completed_today u')"
    using individual_ok_records_name [OF assms] by (auto simp: individual_body_def)
  then show ?thesis
    by (simp add: complete_POST_rejected complete_branch_individual_dup individual_body_def)
qed

theorem individual_stale_without_reset_witness:
  "\<exists>s v db1. complete_POST sample_catalog (Some ''u1'') (Some (individual_body ''Read'')) 1728000000000
      [sample_user] = (OkResp s v, db1) \<and>
    complete_POST sample_catalog (Some ''u1'') (Some (individual_body ''Read'')) 1728259200000 db1 =
      (ErrorResp 400 msg_quest_done, db1)"
proof -
  obtain s v db1 where ok: "complete_POST sample_catalog (Some ''u1'') (Some (individual_body ''Read''))
      1728000000000 [sample_user] = (OkResp s v, db1)"
    using sample_individual_ok by blast
  show ?thesis using individual_stale_without_reset [OF ok] ok by blast
qed

text \<open>
  C39. With the reset in between, the routes implement the daily cycle: after any successful
  completion on one day, initialising on a later day and then completing an individual quest
  succeeds, whatever was completed before.
\<close>

theorem individual_after_reset_accepted:
  assumes ok: "complete_POST c (Some uid) (Some b) t1 db = (OkResp s v, db1)"
    and day: "toDateString t1 \<noteq> toDateString t2"
  shows "\<exists>v2 db3. complete_POST c (Some uid) (Some (individual_body n)) t2
                   (snd (initialize_POST (Some uid) t2 db1)) = (OkResp 200 v2, db3)"
proof -
  obtain u x st k where u: "findOne_by_id uid db = Some u"
    and f1: "findOne_by_id uid db1 = Some (complete_update b t1 (x, st, k) u)"
    using complete_POST_ok_doc [OF ok] by blast
  let ?u1 = "complete_update b t1 (x, st, k) u"
  have "initialize_POST (Some uid) t2 db1 =
      (OkResp 200 \<lparr>userData = Some (reset_today ?u1), wasInitialized = False\<rparr>,
       fst (updateOne_by_id uid reset_today db1))"
    using initialize_POST_has_stats [OF f1] day by simp
  moreover have f2: "findOne_by_id uid (fst (updateOne_by_id uid reset_today db1)) = Some (reset_today ?u1)"
    using f1 by (simp add: updateOne_find_self)
  moreover have br: "complete_branch c (reset_today ?u1) (individual_body n) t2 =
      Inr (fst (reward_names c [n] (js_num_or (totalXP ?u1) 0, current_stats (reset_today ?u1))),
           snd (reward_names c [n] (js_num_or (totalXP ?u1) 0, current_stats (reset_today ?u1))),
           js_num_or (streakDays ?u1) 1)"
    by (simp add: complete_branch_individual individual_branch_def individual_body_def completed_today_def
        split: prod.splits)
  moreover have "t1 \<noteq> t2" using day by auto
  then have "complete_update (individual_body n) t2
      (fst (reward_names c [n] (js_num_or (totalXP ?u1) 0, current_stats (reset_today ?u1))),
       snd (reward_names c [n] (js_num_or (totalXP ?u1) 0, current_stats (reset_today ?u1))),
       js_num_or (streakDays ?u1) 1) (reset_today ?u1) \<noteq> reset_today ?u1"
    by (metis complete_update_simps(2) reset_today_simps(8) option.inject)
  ultimately show ?thesis using complete_POST_accepted [OF f2 br] by auto
qed

theorem individual_after_reset_accepted_witness:
  "\<exists>s v db1. complete_POST sample_catalog (Some ''u1'') (Some (individual_body ''Read'')) 1728000000000
      [sample_user] = (OkResp s v, db1) \<and>
    toDateString 1728000000000 \<noteq> toDateString 1728086400000 \<and>
    (\<exists>v2 db3. complete_POST sample_catalog (Some ''u1'') (Some (individual_body ''Read'')) 1728086400000
        (snd (initialize_POST (Some ''u1'') 1728086400000 db1)) = (OkResp 200 v2, db3))"
proof -
  obtain s v db1 where ok: "complete_POST sample_catalog (Some ''u1'') (Some (individual_body ''Read''))
      1728000000000 [sample_user] = (OkResp s v, db1)"
    using sample_individual_ok by blast
  have d: "toDateString 1728000000000 \<noteq> toDateString 1728086400000"
    by (simp add: toDateString_def ms_per_day_def)
  show ?thesis using individual_after_reset_accepted [OF ok d] ok d by blast
qed

text \<open>
  A user who registers with credentials is never given gaming stats: the registration
  stores \<open>level: 1\<close>, and initialise only applies \<open>DEFAULT_USER_STATS\<close> to documents
  without a level, so it returns the document with no \<open>totalXP\<close>, no \<open>stats\<close> and no
  per-day fields, and stores nothing.
\<close>

theorem register_then_initialize_no_stats:
  assumes "register_POST hash oid body t db = (OkResp st r, db')"
  shows "\<exists>u. initialize_POST (Some oid) now db' =
             (OkResp 200 \<lparr>userData = Some u, wasInitialized = False\<rparr>, db') \<and>
           doc_level u = Some 1 \<and> totalXP u = None \<and> stats u = None \<and> questsCompletedToday u = None"
proof -
  obtain e h where "initialize_POST (Some oid) now db' =
      (OkResp 200 \<lparr>userData = Some (registered_user oid e h t), wasInitialized = False\<rparr>, db')"
    using initialize_after_register [OF assms] by blast
  then show ?thesis by (simp add: registered_user_def)
qed

theorem register_then_initialize_no_stats_witness:
  "\<exists>u. initialize_POST (Some ''r1'') 0 [registered_user ''r1'' ''hunter@mail.com'' ''secret1'' 0] =
      (OkResp 200 \<lparr>userData = Some u, wasInitialized = False\<rparr>, [registered_user ''r1'' ''hunter@mail.com'' ''secret1'' 0]) \<and>
    doc_level u = Some 1 \<and> totalXP u = None \<and> stats u = None \<and> questsCompletedToday u = None"
proof -
  have r: "register_POST id ''r1''
      (Some \<lparr>reg_email = Some ''hunter@mail.com'', reg_password = Some ''secret1''\<rparr>) 0 [] =
      (OkResp 201 \<lparr>reg_message = ''User registered successfully'', userId = ''r1''\<rparr>,
       [registered_user ''r1'' ''hunter@mail.com'' ''secret1'' 0])"
    by (simp add: register_POST_def emailRegex_test_def email_plain_def js_space_def insertOne_def)
  show ?thesis using register_then_initialize_no_stats [OF r, where now = 0] by simp
qed

end
